theory Spec2Isabelle
  imports Main "HOL-Library.Word"
begin

section \<open>Library functions the provider calls\<close>

text \<open>
  Go strings are byte strings and are modelled as \<open>string\<close>. The helpers below are the
  standard-library functions the provider uses: \<open>strings.ToLower\<close> (on ASCII input)
  maps \<open>A..Z\<close> to \<open>a..z\<close>, \<open>strings.TrimSpace\<close> strips the leading and trailing
  white space as Unicode defines it, \<open>strings.Split\<close> cuts at every occurrence of a
  non-empty separator, \<open>strconv.Atoi\<close> reads a signed decimal that fits a 64-bit
  \<open>int\<close>, \<open>strconv.ParseBool\<close> accepts the twelve spellings of the Go library, and
  \<open>Sprintd\<close> is the verb \<open>%d\<close> of \<open>fmt\<close>. A Go \<open>error\<close> is its message; the
  texts of library errors are shortened.
\<close>

type_synonym error = string

definition toLowerChar :: "char \<Rightarrow> char" where
  "toLowerChar c =
     (case map_of (zip ''ABCDEFGHIJKLMNOPQRSTUVWXYZ'' ''abcdefghijklmnopqrstuvwxyz'') c of
        Some l \<Rightarrow> l
      | None \<Rightarrow> c)"

definition ToLower :: "string \<Rightarrow> string" where
  "ToLower s = map toLowerChar s"

text \<open>
  \<open>strings.TrimSpace\<close> decodes the string as UTF-8, rune by rune from the front and then
  from the back, and drops the runes for which \<open>unicode.IsSpace\<close> holds: tab, line feed,
  vertical tab, form feed, carriage return, space, U+0085, U+00A0, U+1680, U+2000 to
  U+200A, U+2028, U+2029, U+202F, U+205F and U+3000. \<open>whiteSpace\<close> lists their UTF-8
  encodings. A byte sequence decodes to such a rune exactly when it is its encoding (an
  ill-formed or overlong sequence decodes to U+FFFD, which is no white space), so the
  string starts or ends with a white-space rune exactly when it starts or ends with one of
  these encodings.
\<close>

definition whiteSpace :: "string list" where
  "whiteSpace =
     [[CHR 0x09], [CHR 0x0A], [CHR 0x0B], [CHR 0x0C], [CHR 0x0D], [CHR 0x20],
      [CHR 0xC2, CHR 0x85], [CHR 0xC2, CHR 0xA0], [CHR 0xE1, CHR 0x9A, CHR 0x80]]
     @ map (\<lambda>b. [CHR 0xE2, CHR 0x80, b])
         [CHR 0x80, CHR 0x81, CHR 0x82, CHR 0x83, CHR 0x84, CHR 0x85, CHR 0x86, CHR 0x87,
          CHR 0x88, CHR 0x89, CHR 0x8A, CHR 0xA8, CHR 0xA9, CHR 0xAF]
     @ [[CHR 0xE2, CHR 0x81, CHR 0x9F], [CHR 0xE3, CHR 0x80, CHR 0x80]]"

definition leadingSpace :: "string \<Rightarrow> string option" where
  "leadingSpace s = find (\<lambda>e. take (length e) s = e) whiteSpace"

definition trailingSpace :: "string \<Rightarrow> string option" where
  "trailingSpace s =
     find (\<lambda>e. length e \<le> length s \<and> drop (length s - length e) s = e) whiteSpace"

function TrimLeft :: "string \<Rightarrow> string" where
  "TrimLeft s =
     (case leadingSpace s of
        None \<Rightarrow> s
      | Some e \<Rightarrow> TrimLeft (drop (length e) s))"
  by pat_completeness auto
termination
proof (relation "measure length")
  show "wf (measure length)"
    by simp
next
  fix s e
  assume "leadingSpace s = Some e"
  then have e: "e \<in> set whiteSpace" and t: "take (length e) s = e"
    by (auto simp: leadingSpace_def find_Some_iff)
  from e have "e \<noteq> []"
    by (auto simp: whiteSpace_def)
  moreover from t have "length (take (length e) s) = length e"
    by simp
  then have "length e \<le> length s"
    by simp
  ultimately show "(drop (length e) s, s) \<in> measure length"
    by (cases e) simp_all
qed

function TrimRight :: "string \<Rightarrow> string" where
  "TrimRight s =
     (case trailingSpace s of
        None \<Rightarrow> s
      | Some e \<Rightarrow> TrimRight (take (length s - length e) s))"
  by pat_completeness auto
termination
proof (relation "measure length")
  show "wf (measure length)"
    by simp
next
  fix s e
  assume "trailingSpace s = Some e"
  then have e: "e \<in> set whiteSpace" and t: "length e \<le> length s"
    by (auto simp: trailingSpace_def find_Some_iff)
  from e have "e \<noteq> []"
    by (auto simp: whiteSpace_def)
  with t show "(take (length s - length e) s, s) \<in> measure length"
    by (cases e) simp_all
qed

declare TrimLeft.simps [simp del] TrimRight.simps [simp del]

definition TrimSpace :: "string \<Rightarrow> string" where
  "TrimSpace s = TrimRight (TrimLeft s)"

fun Split :: "string \<Rightarrow> string \<Rightarrow> string list" where
  "Split [] sep = [[]]"
| "Split (c # cs) sep =
     (if sep \<noteq> [] \<and> take (length sep) (c # cs) = sep
      then [] # Split (drop (length sep) (c # cs)) sep
      else (case Split cs sep of [] \<Rightarrow> [[c]] | h # t \<Rightarrow> (c # h) # t))"

fun showNat :: "nat \<Rightarrow> string" where
  "showNat n =
     (if n < 10 then [''0123456789'' ! n]
      else showNat (n div 10) @ [''0123456789'' ! (n mod 10)])"

declare showNat.simps [simp del]

definition Sprintd :: "int \<Rightarrow> string" where
  "Sprintd i = (if i < 0 then ''-'' @ showNat (nat (- i)) else showNat (nat i))"

definition digitVal :: "char \<Rightarrow> nat option" where
  "digitVal = map_of (zip ''0123456789'' [0, 1, 2, 3, 4, 5, 6, 7, 8, 9])"

fun parseDigits :: "nat \<Rightarrow> string \<Rightarrow> nat option" where
  "parseDigits acc [] = Some acc"
| "parseDigits acc (c # cs) =
     (case digitVal c of
        None \<Rightarrow> None
      | Some d \<Rightarrow> parseDigits (10 * acc + d) cs)"

definition Atoi :: "string \<Rightarrow> error + int" where
  "Atoi s =
     (let (neg, ds) = (case s of
                         [] \<Rightarrow> (False, [])
                       | c # r \<Rightarrow> if c = CHR ''-'' then (True, r)
                                  else if c = CHR ''+'' then (False, r)
                                  else (False, s))
      in if ds = [] then Inl ''invalid syntax''
         else (case parseDigits 0 ds of
                 None \<Rightarrow> Inl ''invalid syntax''
               | Some n \<Rightarrow>
                   (let v = (if neg then - int n else int n)
                    in if v < - (2 ^ 63) \<or> 2 ^ 63 - 1 < v then Inl ''value out of range''
                       else Inr v)))"

definition ParseBool :: "string \<Rightarrow> error + bool" where
  "ParseBool s =
     (if s = ''1'' \<or> s = ''t'' \<or> s = ''T'' \<or> s = ''TRUE'' \<or> s = ''true'' \<or> s = ''True''
      then Inr True
      else if s = ''0'' \<or> s = ''f'' \<or> s = ''F'' \<or> s = ''FALSE'' \<or> s = ''false''
              \<or> s = ''False''
      then Inr False
      else Inl ''invalid syntax'')"

text \<open>
  Go maps with string keys that the code iterates over (label sets) are association
  lists read through \<open>map_of\<close>; \<open>m[k]\<close> on a missing key is the empty string.
  The annotations of a Service are only ever looked up, and are a map.
\<close>

type_synonym labels = "(string \<times> string) list"

definition index :: "labels \<Rightarrow> string \<Rightarrow> string" where
  "index m k = (case map_of m k of None \<Rightarrow> [] | Some v \<Rightarrow> v)"

text \<open>\<open>for key, val := range src { if _, ok := dst[key]; !ok { dst[key] = val } }\<close>\<close>

fun addMissing :: "labels \<Rightarrow> labels \<Rightarrow> labels" where
  "addMissing dst [] = dst"
| "addMissing dst ((key, val) # src) =
     addMissing (if map_of dst key = None then dst @ [(key, val)] else dst) src"

section \<open>Kubernetes objects\<close>

text \<open>
  Record fields carry the Go field name after a short tag of the struct (\<open>sp_\<close> for
  \<open>ServicePort\<close>, \<open>svc_\<close> for \<open>Service\<close>, and so on). \<open>int32\<close> is \<open>32 word\<close>, read
  with \<open>sint\<close>; a Go \<open>int\<close> is an \<open>int\<close>, since the code never does arithmetic on one.
\<close>

record ServicePort =
  sp_Name :: string
  sp_Protocol :: string
  sp_Port :: "32 word"
  sp_NodePort :: "32 word"

record Service =
  svc_Name :: string
  svc_Namespace :: string
  svc_UID :: string
  svc_Annotations :: "string \<rightharpoonup> string"
  svc_Ports :: "ServicePort list"
  svc_ExternalTrafficPolicy :: string
  svc_HealthCheckNodePort :: "32 word"

record Node =
  node_Name :: string
  node_ProviderID :: string

record Endpoint =
  ep_NodeName :: "string option"
  ep_Ready :: "bool option"
  ep_Terminating :: "bool option"

record EndpointSlice =
  eps_Name :: string
  eps_Namespace :: string
  eps_Labels :: "string \<rightharpoonup> string"
  eps_Endpoints :: "Endpoint list"

definition ServiceExternalTrafficPolicyTypeLocal :: string where
  "ServiceExternalTrafficPolicyTypeLocal = ''Local''"

definition LabelServiceName :: string where
  "LabelServiceName = ''kubernetes.io/service-name''"

text \<open>
  \<open>cloudprovider.DefaultLoadBalancerName\<close> of the Kubernetes cloud-provider library:
  the letter \<open>a\<close>, then the UID without its dashes, cut to 32 bytes.
\<close>

definition DefaultLoadBalancerName :: "Service \<Rightarrow> string" where
  "DefaultLoadBalancerName service =
     (let ret = filter (\<lambda>c. c \<noteq> CHR ''-'') (''a'' @ svc_UID service)
      in if 32 < length ret then take 32 ret else ret)"

section \<open>Annotations\<close>

definition LoadBalancerAnnotationSubnetID :: string where
  "LoadBalancerAnnotationSubnetID = ''loadbalancer.k8s.thalassa.cloud/subnet''"

definition LoadbalancerAnnotationInternal :: string where
  "LoadbalancerAnnotationInternal = ''loadbalancer.k8s.thalassa.cloud/internal''"

definition LoadbalancerAnnotationEnableProxyProtocol :: string where
  "LoadbalancerAnnotationEnableProxyProtocol =
     ''loadbalancer.k8s.thalassa.cloud/enable-proxy-protocol''"

definition LoadbalancerAnnotationIdleConnectionTimeout :: string where
  "LoadbalancerAnnotationIdleConnectionTimeout =
     ''loadbalancer.k8s.thalassa.cloud/idle-connection-timeout''"

definition LoadbalancerAnnotationMaxConnections :: string where
  "LoadbalancerAnnotationMaxConnections = ''loadbalancer.k8s.thalassa.cloud/max-connections''"

definition LoadbalancerAnnotationLoadbalancingPolicy :: string where
  "LoadbalancerAnnotationLoadbalancingPolicy =
     ''loadbalancer.k8s.thalassa.cloud/loadbalancing-policy''"

definition LoadbalancerAnnotationHealthCheckEnabled :: string where
  "LoadbalancerAnnotationHealthCheckEnabled =
     ''loadbalancer.k8s.thalassa.cloud/health-check-enabled''"

definition LoadbalancerAnnotationHealthCheckPath :: string where
  "LoadbalancerAnnotationHealthCheckPath = ''loadbalancer.k8s.thalassa.cloud/health-check-path''"

definition LoadbalancerAnnotationHealthCheckPort :: string where
  "LoadbalancerAnnotationHealthCheckPort = ''loadbalancer.k8s.thalassa.cloud/health-check-port''"

definition LoadbalancerAnnotationHealthCheckProtocol :: string where
  "LoadbalancerAnnotationHealthCheckProtocol =
     ''loadbalancer.k8s.thalassa.cloud/health-check-protocol''"

definition LoadbalancerAnnotationHealthCheckInterval :: string where
  "LoadbalancerAnnotationHealthCheckInterval =
     ''loadbalancer.k8s.thalassa.cloud/health-check-interval''"

definition LoadbalancerAnnotationHealthCheckTimeout :: string where
  "LoadbalancerAnnotationHealthCheckTimeout =
     ''loadbalancer.k8s.thalassa.cloud/health-check-timeout''"

definition LoadbalancerAnnotationHealthCheckUpThreshold :: string where
  "LoadbalancerAnnotationHealthCheckUpThreshold =
     ''loadbalancer.k8s.thalassa.cloud/health-check-up-threshold''"

definition LoadbalancerAnnotationHealthCheckDownThreshold :: string where
  "LoadbalancerAnnotationHealthCheckDownThreshold =
     ''loadbalancer.k8s.thalassa.cloud/health-check-down-threshold''"

definition LoadbalancerAnnotationAclAllowedSources :: string where
  "LoadbalancerAnnotationAclAllowedSources =
     ''loadbalancer.k8s.thalassa.cloud/acl-allowed-sources''"

definition LoadbalancerAnnotationAclAllowedSourcesPort :: string where
  "LoadbalancerAnnotationAclAllowedSourcesPort = ''loadbalancer.k8s.thalassa.cloud/acl-port''"

definition LoadBalancerAnnotationSecurityGroups :: string where
  "LoadBalancerAnnotationSecurityGroups = ''loadbalancer.k8s.thalassa.cloud/security-groups''"

text \<open>
  Modelled from the spec: the constant \<open>LoadBalancerAnnotationCreateSecurityGroup\<close>,
  which \<open>shouldCreateSecurityGroup\<close> reads and whose declaration is not among the source
  files; the annotation table documents the key \<open>create-security-group\<close> under the
  common prefix.
\<close>

definition LoadBalancerAnnotationCreateSecurityGroup :: string where
  "LoadBalancerAnnotationCreateSecurityGroup =
     ''loadbalancer.k8s.thalassa.cloud/create-security-group''"

definition DefaultIdleConnectionTimeout :: int where
  "DefaultIdleConnectionTimeout = 6000"

definition DefaultMaxConnections :: int where
  "DefaultMaxConnections = 10000"

definition DefaultEnableProxyProtocol :: bool where
  "DefaultEnableProxyProtocol = False"

definition DefaultLoadbalancingPolicy :: string where
  "DefaultLoadbalancingPolicy = ''ROUND_ROBIN''"

definition LoadbalancingPolicyRoundRobin :: string where
  "LoadbalancingPolicyRoundRobin = ''ROUND_ROBIN''"

definition LoadbalancingPolicyRandom :: string where
  "LoadbalancingPolicyRandom = ''RANDOM''"

definition LoadbalancingPolicyMagLev :: string where
  "LoadbalancingPolicyMagLev = ''MAGLEV''"

text \<open>
  The three readers return the value and the error side by side, as in Go: on a parse
  error the default comes back together with the error.
\<close>

definition getStringAnnotation :: "Service \<Rightarrow> string \<Rightarrow> string \<Rightarrow> string \<times> error option" where
  "getStringAnnotation service annotation defaultValue =
     (case svc_Annotations service annotation of
        Some val \<Rightarrow> (val, None)
      | None \<Rightarrow> (defaultValue, None))"

definition getIntAnnotation :: "Service \<Rightarrow> string \<Rightarrow> int \<Rightarrow> int \<times> error option" where
  "getIntAnnotation service annotation defaultValue =
     (case svc_Annotations service annotation of
        Some val \<Rightarrow>
          (case Atoi val of
             Inl err \<Rightarrow> (defaultValue, Some (''failed to parse '' @ annotation @ '': '' @ err))
           | Inr c \<Rightarrow> (c, None))
      | None \<Rightarrow> (defaultValue, None))"

definition getBoolAnnotation :: "Service \<Rightarrow> string \<Rightarrow> bool \<Rightarrow> bool \<times> error option" where
  "getBoolAnnotation service annotation defaultValue =
     (case svc_Annotations service annotation of
        Some val \<Rightarrow>
          (case ParseBool val of
             Inl err \<Rightarrow> (defaultValue, Some (''failed to parse '' @ annotation @ '': '' @ err))
           | Inr enabled \<Rightarrow> (enabled, None))
      | None \<Rightarrow> (defaultValue, None))"

definition GetLoadbalancingPolicy :: "Service \<Rightarrow> string \<times> error option" where
  "GetLoadbalancingPolicy service =
     (case getStringAnnotation service LoadbalancerAnnotationLoadbalancingPolicy
             DefaultLoadbalancingPolicy of
        (policy, Some err) \<Rightarrow> (LoadbalancingPolicyRoundRobin, Some err)
      | (policy, None) \<Rightarrow>
          if policy = LoadbalancingPolicyRoundRobin \<or> policy = LoadbalancingPolicyRandom
             \<or> policy = LoadbalancingPolicyMagLev
          then (policy, None)
          else (LoadbalancingPolicyRoundRobin,
                Some (''invalid loadbalancing policy: '' @ policy
                      @ '', must be one of: ROUND_ROBIN, RANDOM, MAGLEV'')))"

section \<open>Cloud objects and requests\<close>

text \<open>
  The structs of the cloud client library, with the fields the provider reads or
  writes. A pointer that may be \<open>nil\<close> is an \<open>option\<close>. The listeners a target group
  reports are kept by identity (the provider only counts them), and the subnet of a
  load balancer is held by value. The enumerations of the security-group API are
  datatypes; \<open>SecurityGroupRulePolicyUnset\<close> is the zero value of a rule whose policy
  the code leaves out.
\<close>

record BackendHealthCheck =
  hc_Port :: "32 word"
  hc_Protocol :: string
  hc_Path :: string
  hc_TimeoutSeconds :: int
  hc_PeriodSeconds :: int
  hc_HealthyThreshold :: "32 word"
  hc_UnhealthyThreshold :: "32 word"

record VpcLoadbalancerTargetGroup =
  tg_Identity :: string
  tg_Name :: string
  tg_Description :: string
  tg_Protocol :: string
  tg_TargetPort :: int
  tg_Labels :: labels
  tg_Annotations :: labels
  tg_HealthCheck :: "BackendHealthCheck option"
  tg_EnableProxyProtocol :: "bool option"
  tg_LoadbalancingPolicy :: "string option"
  tg_LoadbalancerListeners :: "string list"

record VpcLoadbalancerListener =
  lis_Identity :: string
  lis_Name :: string
  lis_Description :: string
  lis_Protocol :: string
  lis_Port :: int
  lis_TargetGroup :: "VpcLoadbalancerTargetGroup option"
  lis_Labels :: labels
  lis_Annotations :: labels
  lis_AllowedSources :: "string list"
  lis_ConnectionIdleTimeout :: "32 word option"
  lis_MaxConnections :: "32 word option"

record Subnet =
  sub_Identity :: string
  sub_Slug :: string

record Vpc =
  vpc_Subnets :: "Subnet list"

record SecurityGroup =
  sg_Identity :: string
  sg_Name :: string
  sg_Description :: string
  sg_Labels :: labels
  sg_ObjectVersion :: int

record VpcLoadbalancer =
  vlb_Identity :: string
  vlb_Name :: string
  vlb_Description :: string
  vlb_Labels :: labels
  vlb_Annotations :: labels
  vlb_Subnet :: Subnet
  vlb_SecurityGroups :: "SecurityGroup list"
  vlb_ExternalIpAddresses :: "string list"
  vlb_Hostname :: string
  vlb_Status :: string
  vlb_DeleteProtection :: bool

datatype SecurityGroupIPVersion = SecurityGroupIPVersionIPv4 | SecurityGroupIPVersionIPv6

datatype SecurityGroupRuleProtocol =
  SecurityGroupRuleProtocolAll | SecurityGroupRuleProtocolTCP | SecurityGroupRuleProtocolUDP

datatype SecurityGroupRuleRemoteType =
  SecurityGroupRuleRemoteTypeUnset | SecurityGroupRuleRemoteTypeAddress

datatype SecurityGroupRulePolicy = SecurityGroupRulePolicyUnset | SecurityGroupRulePolicyAllow

record SecurityGroupRule =
  sgr_Name :: string
  sgr_IPVersion :: SecurityGroupIPVersion
  sgr_Protocol :: SecurityGroupRuleProtocol
  sgr_Priority :: "32 word"
  sgr_RemoteType :: SecurityGroupRuleRemoteType
  sgr_RemoteAddress :: "string option"
  sgr_PortRangeMin :: "32 word"
  sgr_PortRangeMax :: "32 word"
  sgr_Policy :: SecurityGroupRulePolicy

datatype Filter = FilterKeyValue string string | LabelFilter labels

definition FilterVpcIdentity :: string where
  "FilterVpcIdentity = ''vpc''"

record CreateLoadbalancer =
  clb_Name :: string
  clb_Description :: string
  clb_Labels :: labels
  clb_Annotations :: labels
  clb_Subnet :: string
  clb_InternalLoadbalancer :: bool
  clb_SecurityGroupAttachments :: "string list"

record UpdateLoadbalancer =
  ulb_Name :: string
  ulb_Description :: string
  ulb_Labels :: labels
  ulb_Annotations :: labels
  ulb_Subnet :: "string option"
  ulb_DeleteProtection :: bool
  ulb_SecurityGroupAttachments :: "string list"

record CreateTargetGroup =
  ctg_Vpc :: string
  ctg_Name :: string
  ctg_Description :: string
  ctg_Protocol :: string
  ctg_TargetPort :: int
  ctg_Labels :: labels
  ctg_Annotations :: labels
  ctg_HealthCheck :: "BackendHealthCheck option"
  ctg_EnableProxyProtocol :: "bool option"
  ctg_LoadbalancingPolicy :: "string option"

record UpdateTargetGroup =
  utg_Name :: string
  utg_Description :: string
  utg_Protocol :: string
  utg_TargetPort :: int
  utg_Labels :: labels
  utg_Annotations :: labels
  utg_HealthCheck :: "BackendHealthCheck option"
  utg_EnableProxyProtocol :: "bool option"
  utg_LoadbalancingPolicy :: "string option"

record UpdateTargetGroupRequest =
  utgr_Identity :: string
  utgr_UpdateTargetGroup :: UpdateTargetGroup

record AttachTarget =
  at_ServerIdentity :: string

record TargetGroupAttachmentsBatch =
  tgab_TargetGroupID :: string
  tgab_Attachments :: "AttachTarget list"

record CreateListener =
  cl_Name :: string
  cl_Description :: string
  cl_Labels :: labels
  cl_Annotations :: labels
  cl_Port :: int
  cl_Protocol :: string
  cl_TargetGroup :: string
  cl_AllowedSources :: "string list"
  cl_ConnectionIdleTimeout :: "32 word option"
  cl_MaxConnections :: "32 word option"

record UpdateListener =
  ul_Name :: string
  ul_Description :: string
  ul_Labels :: labels
  ul_Annotations :: labels
  ul_Port :: int
  ul_Protocol :: string
  ul_TargetGroup :: string
  ul_ConnectionIdleTimeout :: "32 word option"
  ul_MaxConnections :: "32 word option"
  ul_AllowedSources :: "string list"

record CreateSecurityGroupRequest =
  csg_Name :: string
  csg_Description :: string
  csg_Labels :: labels
  csg_Annotations :: labels
  csg_VpcIdentity :: string
  csg_AllowSameGroupTraffic :: bool
  csg_IngressRules :: "SecurityGroupRule list"
  csg_EgressRules :: "SecurityGroupRule list"

record UpdateSecurityGroupRequest =
  usg_Name :: string
  usg_Description :: string
  usg_Labels :: labels
  usg_Annotations :: labels
  usg_ObjectVersion :: int
  usg_AllowSameGroupTraffic :: bool
  usg_IngressRules :: "SecurityGroupRule list"
  usg_EgressRules :: "SecurityGroupRule list"

section \<open>The cloud API as a recorded dialogue\<close>

text \<open>
  Every call of the cloud client is an event: the request together with the answer the
  cloud gave. The world a reconcile runs in is the list of events so far, and the
  cloud is any family of functions from that history and a request to an answer, so a
  cloud with state of its own, a cloud that fails, and a cloud changed by somebody else
  between two calls are all covered. A call appends its event.
\<close>

datatype event =
    EvListLoadbalancers "Filter list" "error + VpcLoadbalancer list"
  | EvGetVpc string "error + Vpc option"
  | EvCreateLoadbalancer CreateLoadbalancer "error + VpcLoadbalancer option"
  | EvUpdateLoadbalancer string UpdateLoadbalancer "error + VpcLoadbalancer option"
  | EvDeleteLoadbalancer string "error option"
  | EvListSecurityGroups "Filter list" "error + SecurityGroup list"
  | EvCreateSecurityGroup CreateSecurityGroupRequest "error + SecurityGroup option"
  | EvUpdateSecurityGroup string UpdateSecurityGroupRequest "error + SecurityGroup option"
  | EvDeleteSecurityGroup string "error option"
  | EvListTargetGroups "Filter list" "error + VpcLoadbalancerTargetGroup list"
  | EvCreateTargetGroup CreateTargetGroup "error + VpcLoadbalancerTargetGroup option"
  | EvUpdateTargetGroup UpdateTargetGroupRequest "error + VpcLoadbalancerTargetGroup option"
  | EvDeleteTargetGroup string "error option"
  | EvSetTargetGroupServerAttachments TargetGroupAttachmentsBatch "error option"
  | EvListListeners string "error + VpcLoadbalancerListener list"
  | EvCreateListener string CreateListener "error + VpcLoadbalancerListener option"
  | EvUpdateListener string string UpdateListener "error + VpcLoadbalancerListener option"
  | EvDeleteListener string string "error option"

type_synonym world = "event list"

record iaasClient =
  ListLoadbalancers :: "world \<Rightarrow> Filter list \<Rightarrow> error + VpcLoadbalancer list"
  GetVpc :: "world \<Rightarrow> string \<Rightarrow> error + Vpc option"
  CreateLoadbalancer :: "world \<Rightarrow> CreateLoadbalancer \<Rightarrow> error + VpcLoadbalancer option"
  UpdateLoadbalancer ::
    "world \<Rightarrow> string \<Rightarrow> UpdateLoadbalancer \<Rightarrow> error + VpcLoadbalancer option"
  DeleteLoadbalancer :: "world \<Rightarrow> string \<Rightarrow> error option"
  ListSecurityGroups :: "world \<Rightarrow> Filter list \<Rightarrow> error + SecurityGroup list"
  CreateSecurityGroup ::
    "world \<Rightarrow> CreateSecurityGroupRequest \<Rightarrow> error + SecurityGroup option"
  UpdateSecurityGroup ::
    "world \<Rightarrow> string \<Rightarrow> UpdateSecurityGroupRequest \<Rightarrow> error + SecurityGroup option"
  DeleteSecurityGroup :: "world \<Rightarrow> string \<Rightarrow> error option"
  ListTargetGroups :: "world \<Rightarrow> Filter list \<Rightarrow> error + VpcLoadbalancerTargetGroup list"
  CreateTargetGroup ::
    "world \<Rightarrow> CreateTargetGroup \<Rightarrow> error + VpcLoadbalancerTargetGroup option"
  UpdateTargetGroup ::
    "world \<Rightarrow> UpdateTargetGroupRequest \<Rightarrow> error + VpcLoadbalancerTargetGroup option"
  DeleteTargetGroup :: "world \<Rightarrow> string \<Rightarrow> error option"
  SetTargetGroupServerAttachments :: "world \<Rightarrow> TargetGroupAttachmentsBatch \<Rightarrow> error option"
  ListListeners :: "world \<Rightarrow> string \<Rightarrow> error + VpcLoadbalancerListener list"
  CreateListener ::
    "world \<Rightarrow> string \<Rightarrow> CreateListener \<Rightarrow> error + VpcLoadbalancerListener option"
  UpdateListener ::
    "world \<Rightarrow> string \<Rightarrow> string \<Rightarrow> UpdateListener \<Rightarrow> error + VpcLoadbalancerListener option"
  DeleteListener :: "world \<Rightarrow> string \<Rightarrow> string \<Rightarrow> error option"

section \<open>The provider and its identity scheme\<close>

text \<open>
  \<open>net.ParseCIDR\<close> stays a parameter: it answers with the address and the network of
  a CIDR string, or with an error. \<open>To4\<close> is the library's conversion of an address to
  its four-byte form (\<open>[]\<close> stands for \<open>nil\<close>). The endpoint-slice lister of the node
  filter is the informer cache: it maps a namespace and a Service name to the slices
  labelled for that Service.
\<close>

type_synonym IP = "8 word list"

record IPNet =
  net_IP :: IP
  net_Mask :: "8 word list"

definition To4 :: "IP \<Rightarrow> IP" where
  "To4 ip =
     (if length ip = 4 then ip
      else if length ip = 16 \<and> list_all (\<lambda>b. b = 0) (take 10 ip) \<and> ip ! 10 = 0xff
              \<and> ip ! 11 = 0xff
      then drop 12 ip
      else [])"

record NodeFilter =
  epSliceLister :: "string \<Rightarrow> string \<Rightarrow> error + EndpointSlice list"

record loadbalancer =
  lb_iaasClient :: iaasClient
  lb_additionalLabels :: labels
  lb_vpcIdentity :: string
  lb_defaultSubnet :: string
  lb_cluster :: string
  lb_nodeFilter :: NodeFilter
  net_ParseCIDR :: "string \<Rightarrow> error + IP \<times> IPNet"

definition GetLabelsForVpcLoadbalancer :: "loadbalancer \<Rightarrow> Service \<Rightarrow> labels" where
  "GetLabelsForVpcLoadbalancer lb service =
     addMissing
       [(''k8s.thalassa.cloud/kubernetes-cluster'', lb_cluster lb),
        (''k8s.thalassa.cloud/cloud-provider-managed'', ''true''),
        (''k8s.thalassa.cloud/kubernetes-service-name'', svc_Name service),
        (''k8s.thalassa.cloud/kubernetes-service-namespace'', svc_Namespace service),
        (''k8s.thalassa.cloud/kubernetes-service-uid'', svc_UID service)]
       (lb_additionalLabels lb)"

definition GetAnnotationsForVpcLoadbalancer :: "loadbalancer \<Rightarrow> Service \<Rightarrow> labels" where
  "GetAnnotationsForVpcLoadbalancer lb service = []"

definition GetLabelsForVpcLoadbalancerTargetGroup ::
  "loadbalancer \<Rightarrow> Service \<Rightarrow> int \<Rightarrow> string \<Rightarrow> labels" where
  "GetLabelsForVpcLoadbalancerTargetGroup lb service port protocol =
     addMissing (GetLabelsForVpcLoadbalancer lb service)
       [(''k8s.thalassa.cloud/kubernetes-service-port'', Sprintd port),
        (''k8s.thalassa.cloud/kubernetes-service-protocol'', ToLower protocol)]"

definition matchLabels :: "labels \<Rightarrow> labels \<Rightarrow> bool" where
  "matchLabels expectedLabels actualLabels =
     list_all (\<lambda>(k, v). index actualLabels k = v) expectedLabels"

definition GetLoadBalancerName :: "loadbalancer \<Rightarrow> string \<Rightarrow> Service \<Rightarrow> string" where
  "GetLoadBalancerName lb clusterName service = DefaultLoadBalancerName service"

definition getPortName :: "string \<Rightarrow> ServicePort \<Rightarrow> string" where
  "getPortName lbName port =
     (if sp_Name port \<noteq> [] then lbName @ ''-'' @ sp_Name port
      else lbName @ ''-'' @ ToLower (sp_Protocol port) @ ''-p'' @ Sprintd (sint (sp_Port port)))"

section \<open>Desired target groups\<close>

definition DefaultHealthCheckPath :: string where
  "DefaultHealthCheckPath = ''/healthz''"

definition DefaultHealthCheckTimeoutSeconds :: int where
  "DefaultHealthCheckTimeoutSeconds = 5"

definition DefaultHealthCheckPeriodSeconds :: int where
  "DefaultHealthCheckPeriodSeconds = 10"

definition DefaultHealthCheckHealthyThreshold :: int where
  "DefaultHealthCheckHealthyThreshold = 2"

definition DefaultHealthCheckUnhealthyThreshold :: int where
  "DefaultHealthCheckUnhealthyThreshold = 3"

definition DefaultHealthCheckProtocol :: string where
  "DefaultHealthCheckProtocol = ''http''"

definition ProtocolHTTP :: string where
  "ProtocolHTTP = ''http''"

text \<open>
  The body of the loop over \<open>service.Spec.Ports\<close>: one target group for one port, from
  the values read off the annotations before the loop.
\<close>

definition targetGroupForPort ::
  "loadbalancer \<Rightarrow> Service \<Rightarrow> string \<Rightarrow> bool \<Rightarrow> string \<Rightarrow> bool \<Rightarrow> string \<Rightarrow> int \<Rightarrow> string
     \<Rightarrow> int \<Rightarrow> int \<Rightarrow> int \<Rightarrow> int \<Rightarrow> ServicePort \<Rightarrow> VpcLoadbalancerTargetGroup" where
  "targetGroupForPort l service lbName enableProxyProtocol loadbalancingPolicy
       healthCheckEnabled healthCheckPath healthCheckPort healthCheckProtocol
       healthCheckTimeoutSeconds healthCheckPeriodSeconds healthCheckHealthyThreshold
       healthCheckUnhealthyThreshold svcPort =
     \<lparr> tg_Identity = [],
       tg_Name = getPortName lbName svcPort,
       tg_Description = [],
       tg_Protocol = ToLower (sp_Protocol svcPort),
       tg_TargetPort = sint (sp_NodePort svcPort),
       tg_Labels = GetLabelsForVpcLoadbalancerTargetGroup l service (sint (sp_Port svcPort))
                     (sp_Protocol svcPort),
       tg_Annotations = [],
       tg_HealthCheck =
         (if 0 < sint (svc_HealthCheckNodePort service)
          then Some \<lparr> hc_Port = (if 0 < healthCheckPort then word_of_int healthCheckPort
                                   else svc_HealthCheckNodePort service),
                      hc_Protocol = ProtocolHTTP,
                      hc_Path = healthCheckPath,
                      hc_TimeoutSeconds = healthCheckTimeoutSeconds,
                      hc_PeriodSeconds = healthCheckPeriodSeconds,
                      hc_HealthyThreshold = word_of_int healthCheckHealthyThreshold,
                      hc_UnhealthyThreshold = word_of_int healthCheckUnhealthyThreshold \<rparr>
          else if healthCheckPort \<noteq> - 1 \<and> healthCheckEnabled
          then Some \<lparr> hc_Port = word_of_int healthCheckPort,
                      hc_Protocol = healthCheckProtocol,
                      hc_Path = healthCheckPath,
                      hc_TimeoutSeconds = healthCheckTimeoutSeconds,
                      hc_PeriodSeconds = healthCheckPeriodSeconds,
                      hc_HealthyThreshold = word_of_int healthCheckHealthyThreshold,
                      hc_UnhealthyThreshold = word_of_int healthCheckUnhealthyThreshold \<rparr>
          else None),
       tg_EnableProxyProtocol = Some enableProxyProtocol,
       tg_LoadbalancingPolicy = Some loadbalancingPolicy,
       tg_LoadbalancerListeners = [] \<rparr>"

definition getDesiredVpcLoadbalancerTargetGroups ::
  "loadbalancer \<Rightarrow> Service \<Rightarrow> Node list \<Rightarrow> error + VpcLoadbalancerTargetGroup list" where
  "getDesiredVpcLoadbalancerTargetGroups l service nodes =
     (let enableProxyProtocol =
            fst (getBoolAnnotation service LoadbalancerAnnotationEnableProxyProtocol
                   DefaultEnableProxyProtocol)
      in case GetLoadbalancingPolicy service of
           (loadbalancingPolicy, Some err) \<Rightarrow> Inl err
         | (loadbalancingPolicy, None) \<Rightarrow>
             (let healthCheckEnabled =
                    fst (getBoolAnnotation service LoadbalancerAnnotationHealthCheckEnabled False);
                  healthCheckPath =
                    fst (getStringAnnotation service LoadbalancerAnnotationHealthCheckPath
                           DefaultHealthCheckPath);
                  healthCheckPort =
                    fst (getIntAnnotation service LoadbalancerAnnotationHealthCheckPort (- 1));
                  healthCheckProtocol =
                    fst (getStringAnnotation service LoadbalancerAnnotationHealthCheckProtocol
                           DefaultHealthCheckProtocol);
                  healthCheckTimeoutSeconds =
                    fst (getIntAnnotation service LoadbalancerAnnotationHealthCheckTimeout
                           DefaultHealthCheckTimeoutSeconds);
                  healthCheckPeriodSeconds =
                    fst (getIntAnnotation service LoadbalancerAnnotationHealthCheckInterval
                           DefaultHealthCheckPeriodSeconds);
                  healthCheckHealthyThreshold =
                    fst (getIntAnnotation service LoadbalancerAnnotationHealthCheckUpThreshold
                           DefaultHealthCheckHealthyThreshold);
                  healthCheckUnhealthyThreshold =
                    fst (getIntAnnotation service LoadbalancerAnnotationHealthCheckDownThreshold
                           DefaultHealthCheckUnhealthyThreshold);
                  lbName = GetLoadBalancerName l (lb_cluster l) service
              in Inr (map (targetGroupForPort l service lbName enableProxyProtocol
                             loadbalancingPolicy healthCheckEnabled healthCheckPath
                             healthCheckPort healthCheckProtocol healthCheckTimeoutSeconds
                             healthCheckPeriodSeconds healthCheckHealthyThreshold
                             healthCheckUnhealthyThreshold)
                        (svc_Ports service))))"

section \<open>Desired listeners and their allowed sources\<close>

text \<open>
  \<open>removeDuplicateStrings\<close> keeps a set of the strings seen (the Go map \<open>keys\<close>) and
  appends an item to \<open>result\<close> the first time it meets it.
\<close>

fun removeDuplicateStringsLoop :: "string set \<Rightarrow> string list \<Rightarrow> string list \<Rightarrow> string list" where
  "removeDuplicateStringsLoop keys result [] = result"
| "removeDuplicateStringsLoop keys result (item # input) =
     (if item \<notin> keys
      then removeDuplicateStringsLoop (insert item keys) (result @ [item]) input
      else removeDuplicateStringsLoop keys result input)"

definition removeDuplicateStrings :: "loadbalancer \<Rightarrow> string list \<Rightarrow> string list" where
  "removeDuplicateStrings lb input = removeDuplicateStringsLoop {} [] input"

fun parseAclSourcesLoop :: "loadbalancer \<Rightarrow> string list \<Rightarrow> string list \<Rightarrow> string list" where
  "parseAclSourcesLoop lb validSources [] = validSources"
| "parseAclSourcesLoop lb validSources (source # sources) =
     (let source = TrimSpace source
      in if source = [] then parseAclSourcesLoop lb validSources sources
         else (case net_ParseCIDR lb source of
                 Inl err \<Rightarrow> parseAclSourcesLoop lb validSources sources
               | Inr parsed \<Rightarrow> parseAclSourcesLoop lb (validSources @ [source]) sources))"

definition parseAclSources :: "loadbalancer \<Rightarrow> string \<Rightarrow> string list" where
  "parseAclSources lb sourcesStr = parseAclSourcesLoop lb [] (Split sourcesStr '','')"

definition getPerPortAclAllowedSources :: "loadbalancer \<Rightarrow> Service \<Rightarrow> ServicePort \<Rightarrow> string list" where
  "getPerPortAclAllowedSources lb service port =
     (let allowedSources =
            (if sp_Name port \<noteq> []
             then (case svc_Annotations service
                          (LoadbalancerAnnotationAclAllowedSourcesPort @ ''-'' @ sp_Name port) of
                     Some val \<Rightarrow> [] @ parseAclSources lb val
                   | None \<Rightarrow> [])
             else []);
           allowedSources =
            (case svc_Annotations service
                    (LoadbalancerAnnotationAclAllowedSourcesPort @ ''-''
                       @ Sprintd (sint (sp_Port port))) of
               Some val \<Rightarrow> allowedSources @ parseAclSources lb val
             | None \<Rightarrow> allowedSources)
      in removeDuplicateStrings lb allowedSources)"

definition zeroTargetGroup :: VpcLoadbalancerTargetGroup where
  "zeroTargetGroup =
     \<lparr> tg_Identity = [], tg_Name = [], tg_Description = [], tg_Protocol = [],
       tg_TargetPort = 0, tg_Labels = [], tg_Annotations = [], tg_HealthCheck = None,
       tg_EnableProxyProtocol = None, tg_LoadbalancingPolicy = None,
       tg_LoadbalancerListeners = [] \<rparr>"

text \<open>The body of the loop of \<open>desiredVpcLoadbalancerListener\<close>, for one Service port.\<close>

definition listenerForPort ::
  "loadbalancer \<Rightarrow> Service \<Rightarrow> string list \<Rightarrow> int \<Rightarrow> int \<Rightarrow> ServicePort
     \<Rightarrow> VpcLoadbalancerListener" where
  "listenerForPort lb service globalAclAllowedSources connectionTimeout maxConnections port =
     (let perPortAclAllowedSources = getPerPortAclAllowedSources lb service port;
          combinedAclAllowedSources =
            removeDuplicateStrings lb (globalAclAllowedSources @ perPortAclAllowedSources)
      in \<lparr> lis_Identity = [],
           lis_Name = getPortName (GetLoadBalancerName lb (lb_cluster lb) service) port,
           lis_Description = ''Listener for Kubernetes service '' @ svc_Name service,
           lis_Protocol = ToLower (sp_Protocol port),
           lis_Port = sint (sp_Port port),
           lis_TargetGroup = Some (zeroTargetGroup \<lparr> tg_Name := sp_Name port \<rparr>),
           lis_Labels = GetLabelsForVpcLoadbalancerTargetGroup lb service (sint (sp_Port port))
                          (sp_Protocol port),
           lis_Annotations = GetAnnotationsForVpcLoadbalancer lb service,
           lis_AllowedSources = combinedAclAllowedSources,
           lis_ConnectionIdleTimeout = Some (word_of_int connectionTimeout),
           lis_MaxConnections = Some (word_of_int maxConnections) \<rparr>)"

definition desiredVpcLoadbalancerListener ::
  "loadbalancer \<Rightarrow> Service \<Rightarrow> VpcLoadbalancerListener list" where
  "desiredVpcLoadbalancerListener lb service =
     (let globalAclAllowedSources =
            (case svc_Annotations service LoadbalancerAnnotationAclAllowedSources of
               Some val \<Rightarrow> parseAclSources lb val
             | None \<Rightarrow> []);
          connectionTimeout =
            fst (getIntAnnotation service LoadbalancerAnnotationIdleConnectionTimeout
                   DefaultIdleConnectionTimeout);
          maxConnections =
            fst (getIntAnnotation service LoadbalancerAnnotationMaxConnections
                   DefaultMaxConnections)
      in map (listenerForPort lb service globalAclAllowedSources connectionTimeout
                maxConnections)
           (svc_Ports service))"

section \<open>Ingress rules of the managed security group\<close>

text \<open>
  \<open>buildIngressRulesFromListeners\<close>: the variable \<open>priority\<close> is set to 100 before the
  two loops and is never assigned again; both loops carry it along with \<open>rules\<close>.
\<close>

definition ingressRule ::
  "loadbalancer \<Rightarrow> VpcLoadbalancerListener \<Rightarrow> 32 word \<Rightarrow> string \<Rightarrow> SecurityGroupRule" where
  "ingressRule lb l priority src =
     \<lparr> sgr_Name = ToLower (lis_Protocol l) @ ''-'' @ Sprintd (lis_Port l),
       sgr_IPVersion =
         (case net_ParseCIDR lb src of
            Inr (ip, ipnet) \<Rightarrow>
              if net_IP ipnet \<noteq> [] \<and> To4 (net_IP ipnet) = [] then SecurityGroupIPVersionIPv6
              else SecurityGroupIPVersionIPv4
          | Inl err \<Rightarrow> SecurityGroupIPVersionIPv4),
       sgr_Protocol =
         (if ToLower (lis_Protocol l) = ''udp'' then SecurityGroupRuleProtocolUDP
          else SecurityGroupRuleProtocolTCP),
       sgr_Priority = priority,
       sgr_RemoteType = SecurityGroupRuleRemoteTypeAddress,
       sgr_RemoteAddress = Some src,
       sgr_PortRangeMin = word_of_int (lis_Port l),
       sgr_PortRangeMax = word_of_int (lis_Port l),
       sgr_Policy = SecurityGroupRulePolicyAllow \<rparr>"

fun ingressRulesOfSources ::
  "loadbalancer \<Rightarrow> VpcLoadbalancerListener \<Rightarrow> 32 word \<Rightarrow> SecurityGroupRule list \<Rightarrow> string list
     \<Rightarrow> SecurityGroupRule list" where
  "ingressRulesOfSources lb l priority rules [] = rules"
| "ingressRulesOfSources lb l priority rules (src # srcs) =
     ingressRulesOfSources lb l priority (rules @ [ingressRule lb l priority src]) srcs"

fun ingressRulesOfListeners ::
  "loadbalancer \<Rightarrow> 32 word \<Rightarrow> SecurityGroupRule list \<Rightarrow> VpcLoadbalancerListener list
     \<Rightarrow> SecurityGroupRule list" where
  "ingressRulesOfListeners lb priority rules [] = rules"
| "ingressRulesOfListeners lb priority rules (l # listeners) =
     ingressRulesOfListeners lb priority
       (ingressRulesOfSources lb l priority rules (lis_AllowedSources l)) listeners"

definition buildIngressRulesFromListeners ::
  "loadbalancer \<Rightarrow> VpcLoadbalancerListener list \<Rightarrow> SecurityGroupRule list" where
  "buildIngressRulesFromListeners lb listeners = ingressRulesOfListeners lb 100 [] listeners"

text \<open>The literal \<open>egress\<close> of \<open>ensureManagedSecurityGroup\<close>.\<close>

definition managedEgressRules :: "SecurityGroupRule list" where
  "managedEgressRules =
     [\<lparr> sgr_Name = ''allow-all-outbound'',
        sgr_IPVersion = SecurityGroupIPVersionIPv4,
        sgr_Protocol = SecurityGroupRuleProtocolAll,
        sgr_Priority = 100,
        sgr_RemoteType = SecurityGroupRuleRemoteTypeAddress,
        sgr_RemoteAddress = Some ''0.0.0.0/0'',
        sgr_PortRangeMin = 0,
        sgr_PortRangeMax = 0,
        sgr_Policy = SecurityGroupRulePolicyUnset \<rparr>,
      \<lparr> sgr_Name = ''allow-all-outbound'',
        sgr_IPVersion = SecurityGroupIPVersionIPv6,
        sgr_Protocol = SecurityGroupRuleProtocolAll,
        sgr_Priority = 110,
        sgr_RemoteType = SecurityGroupRuleRemoteTypeAddress,
        sgr_RemoteAddress = Some ''::/0'',
        sgr_PortRangeMin = 0,
        sgr_PortRangeMax = 0,
        sgr_Policy = SecurityGroupRulePolicyUnset \<rparr>]"

section \<open>Node filter\<close>

fun readyNodesOfEndpoints :: "string set \<Rightarrow> Endpoint list \<Rightarrow> string set" where
  "readyNodesOfEndpoints readyNodes [] = readyNodes"
| "readyNodesOfEndpoints readyNodes (ep # eps) =
     (case ep_NodeName ep of
        None \<Rightarrow> readyNodesOfEndpoints readyNodes eps
      | Some nodeName \<Rightarrow>
          if ep_Ready ep = Some False then readyNodesOfEndpoints readyNodes eps
          else if ep_Terminating ep = Some True then readyNodesOfEndpoints readyNodes eps
          else readyNodesOfEndpoints (insert nodeName readyNodes) eps)"

fun readyNodesOfSlices :: "string set \<Rightarrow> EndpointSlice list \<Rightarrow> string set" where
  "readyNodesOfSlices readyNodes [] = readyNodes"
| "readyNodesOfSlices readyNodes (sl # slices) =
     readyNodesOfSlices (readyNodesOfEndpoints readyNodes (eps_Endpoints sl)) slices"

fun filterLoop :: "string set \<Rightarrow> Node list \<Rightarrow> Node list \<Rightarrow> Node list" where
  "filterLoop readyNodes filtered [] = filtered"
| "filterLoop readyNodes filtered (n # nodes) =
     (if node_Name n \<in> readyNodes then filterLoop readyNodes (filtered @ [n]) nodes
      else filterLoop readyNodes filtered nodes)"

definition NodeFilter_Filter :: "NodeFilter \<Rightarrow> Service \<Rightarrow> Node list \<Rightarrow> error + Node list" where
  "NodeFilter_Filter f svc nodes =
     (if svc_ExternalTrafficPolicy svc \<noteq> ServiceExternalTrafficPolicyTypeLocal then Inr nodes
      else (case epSliceLister f (svc_Namespace svc) (svc_Name svc) of
              Inl err \<Rightarrow> Inl err
            | Inr slices \<Rightarrow>
                if length slices = 0 then Inr nodes
                else (let readyNodes = readyNodesOfSlices {} slices
                      in if readyNodes = {} then Inr nodes
                         else Inr (filterLoop readyNodes [] nodes))))"

section \<open>Endpoint-slice watcher\<close>

text \<open>
  An informer hands its handlers untyped objects; \<open>obj\<close> keeps the cases the type
  assertions tell apart. The watcher's \<open>sync.Map\<close> of local-traffic Services is the set
  of its keys, and a handler returns the keys it passes to \<open>onEndpointSliceChange\<close>,
  in order.
\<close>

datatype obj = ObjEndpointSlice EndpointSlice | ObjService Service | ObjOther

record EndpointSliceWatcher =
  localTrafficServices :: "string set"

definition getServiceKeyFromEndpointSlice :: "EndpointSliceWatcher \<Rightarrow> EndpointSlice \<Rightarrow> string" where
  "getServiceKeyFromEndpointSlice w epSlice =
     (case eps_Labels epSlice LabelServiceName of
        None \<Rightarrow> []
      | Some serviceName \<Rightarrow> eps_Namespace epSlice @ ''/'' @ serviceName)"

definition hasLocalTrafficPolicy :: "EndpointSliceWatcher \<Rightarrow> string \<Rightarrow> bool" where
  "hasLocalTrafficPolicy w serviceKey = (serviceKey \<in> localTrafficServices w)"

fun collectNodes :: "string set \<Rightarrow> Endpoint list \<Rightarrow> string set" where
  "collectNodes nodes [] = nodes"
| "collectNodes nodes (ep # eps) =
     (case ep_NodeName ep of
        Some nodeName \<Rightarrow>
          if ep_Ready ep = Some True then collectNodes (insert nodeName nodes) eps
          else collectNodes nodes eps
      | None \<Rightarrow> collectNodes nodes eps)"

definition hasNodeAssignmentChanged ::
  "EndpointSliceWatcher \<Rightarrow> EndpointSlice \<Rightarrow> EndpointSlice \<Rightarrow> bool" where
  "hasNodeAssignmentChanged w oldEpSlice newEpSlice =
     (let oldNodes = collectNodes {} (eps_Endpoints oldEpSlice);
          newNodes = collectNodes {} (eps_Endpoints newEpSlice)
      in if card oldNodes \<noteq> card newNodes then True
         else if (\<exists>nodeName \<in> oldNodes. nodeName \<notin> newNodes) then True
         else False)"

definition handleEndpointSliceUpdate :: "EndpointSliceWatcher \<Rightarrow> obj \<Rightarrow> obj \<Rightarrow> string list" where
  "handleEndpointSliceUpdate w oldObj newObj =
     (case oldObj of
        ObjEndpointSlice oldEpSlice \<Rightarrow>
          (case newObj of
             ObjEndpointSlice newEpSlice \<Rightarrow>
               (let serviceKey = getServiceKeyFromEndpointSlice w newEpSlice
                in if serviceKey = [] then []
                   else if \<not> hasLocalTrafficPolicy w serviceKey then []
                   else if hasNodeAssignmentChanged w oldEpSlice newEpSlice then [serviceKey]
                   else [])
           | _ \<Rightarrow> [])
      | _ \<Rightarrow> [])"

section \<open>Calls of the cloud client\<close>

definition callListLoadbalancers ::
  "iaasClient \<Rightarrow> Filter list \<Rightarrow> world \<Rightarrow> (error + VpcLoadbalancer list) \<times> world" where
  "callListLoadbalancers c req w =
     (let r = ListLoadbalancers c w req in (r, w @ [EvListLoadbalancers req r]))"

definition callGetVpc :: "iaasClient \<Rightarrow> string \<Rightarrow> world \<Rightarrow> (error + Vpc option) \<times> world" where
  "callGetVpc c identity w = (let r = GetVpc c w identity in (r, w @ [EvGetVpc identity r]))"

definition callCreateLoadbalancer ::
  "iaasClient \<Rightarrow> CreateLoadbalancer \<Rightarrow> world \<Rightarrow> (error + VpcLoadbalancer option) \<times> world" where
  "callCreateLoadbalancer c req w =
     (let r = CreateLoadbalancer c w req in (r, w @ [EvCreateLoadbalancer req r]))"

definition callUpdateLoadbalancer ::
  "iaasClient \<Rightarrow> string \<Rightarrow> UpdateLoadbalancer \<Rightarrow> world
     \<Rightarrow> (error + VpcLoadbalancer option) \<times> world" where
  "callUpdateLoadbalancer c identity req w =
     (let r = UpdateLoadbalancer c w identity req in (r, w @ [EvUpdateLoadbalancer identity req r]))"

definition callDeleteLoadbalancer :: "iaasClient \<Rightarrow> string \<Rightarrow> world \<Rightarrow> error option \<times> world" where
  "callDeleteLoadbalancer c identity w =
     (let r = DeleteLoadbalancer c w identity in (r, w @ [EvDeleteLoadbalancer identity r]))"

definition callListSecurityGroups ::
  "iaasClient \<Rightarrow> Filter list \<Rightarrow> world \<Rightarrow> (error + SecurityGroup list) \<times> world" where
  "callListSecurityGroups c req w =
     (let r = ListSecurityGroups c w req in (r, w @ [EvListSecurityGroups req r]))"

definition callCreateSecurityGroup ::
  "iaasClient \<Rightarrow> CreateSecurityGroupRequest \<Rightarrow> world \<Rightarrow> (error + SecurityGroup option) \<times> world" where
  "callCreateSecurityGroup c req w =
     (let r = CreateSecurityGroup c w req in (r, w @ [EvCreateSecurityGroup req r]))"

definition callUpdateSecurityGroup ::
  "iaasClient \<Rightarrow> string \<Rightarrow> UpdateSecurityGroupRequest \<Rightarrow> world
     \<Rightarrow> (error + SecurityGroup option) \<times> world" where
  "callUpdateSecurityGroup c identity req w =
     (let r = UpdateSecurityGroup c w identity req
      in (r, w @ [EvUpdateSecurityGroup identity req r]))"

definition callDeleteSecurityGroup :: "iaasClient \<Rightarrow> string \<Rightarrow> world \<Rightarrow> error option \<times> world" where
  "callDeleteSecurityGroup c identity w =
     (let r = DeleteSecurityGroup c w identity in (r, w @ [EvDeleteSecurityGroup identity r]))"

definition callListTargetGroups ::
  "iaasClient \<Rightarrow> Filter list \<Rightarrow> world \<Rightarrow> (error + VpcLoadbalancerTargetGroup list) \<times> world" where
  "callListTargetGroups c req w =
     (let r = ListTargetGroups c w req in (r, w @ [EvListTargetGroups req r]))"

definition callCreateTargetGroup ::
  "iaasClient \<Rightarrow> CreateTargetGroup \<Rightarrow> world
     \<Rightarrow> (error + VpcLoadbalancerTargetGroup option) \<times> world" where
  "callCreateTargetGroup c req w =
     (let r = CreateTargetGroup c w req in (r, w @ [EvCreateTargetGroup req r]))"

definition callUpdateTargetGroup ::
  "iaasClient \<Rightarrow> UpdateTargetGroupRequest \<Rightarrow> world
     \<Rightarrow> (error + VpcLoadbalancerTargetGroup option) \<times> world" where
  "callUpdateTargetGroup c req w =
     (let r = UpdateTargetGroup c w req in (r, w @ [EvUpdateTargetGroup req r]))"

definition callDeleteTargetGroup :: "iaasClient \<Rightarrow> string \<Rightarrow> world \<Rightarrow> error option \<times> world" where
  "callDeleteTargetGroup c identity w =
     (let r = DeleteTargetGroup c w identity in (r, w @ [EvDeleteTargetGroup identity r]))"

definition callSetTargetGroupServerAttachments ::
  "iaasClient \<Rightarrow> TargetGroupAttachmentsBatch \<Rightarrow> world \<Rightarrow> error option \<times> world" where
  "callSetTargetGroupServerAttachments c req w =
     (let r = SetTargetGroupServerAttachments c w req
      in (r, w @ [EvSetTargetGroupServerAttachments req r]))"

definition callListListeners ::
  "iaasClient \<Rightarrow> string \<Rightarrow> world \<Rightarrow> (error + VpcLoadbalancerListener list) \<times> world" where
  "callListListeners c loadbalancer w =
     (let r = ListListeners c w loadbalancer in (r, w @ [EvListListeners loadbalancer r]))"

definition callCreateListener ::
  "iaasClient \<Rightarrow> string \<Rightarrow> CreateListener \<Rightarrow> world
     \<Rightarrow> (error + VpcLoadbalancerListener option) \<times> world" where
  "callCreateListener c loadbalancer req w =
     (let r = CreateListener c w loadbalancer req
      in (r, w @ [EvCreateListener loadbalancer req r]))"

definition callUpdateListener ::
  "iaasClient \<Rightarrow> string \<Rightarrow> string \<Rightarrow> UpdateListener \<Rightarrow> world
     \<Rightarrow> (error + VpcLoadbalancerListener option) \<times> world" where
  "callUpdateListener c loadbalancer listener req w =
     (let r = UpdateListener c w loadbalancer listener req
      in (r, w @ [EvUpdateListener loadbalancer listener req r]))"

definition callDeleteListener ::
  "iaasClient \<Rightarrow> string \<Rightarrow> string \<Rightarrow> world \<Rightarrow> error option \<times> world" where
  "callDeleteListener c loadbalancer listener w =
     (let r = DeleteListener c w loadbalancer listener
      in (r, w @ [EvDeleteListener loadbalancer listener r]))"

section \<open>Finding the load balancer and reporting its status\<close>

record LoadBalancerIngress =
  ing_IP :: string
  ing_Hostname :: string
  ing_IPMode :: "string option"

record LoadBalancerStatus =
  lbs_Ingress :: "LoadBalancerIngress list"

definition LoadBalancerIPModeProxy :: string where
  "LoadBalancerIPModeProxy = ''Proxy''"

definition fetchVpcLoadbalancerFromCloud ::
  "loadbalancer \<Rightarrow> string \<Rightarrow> Service \<Rightarrow> world \<Rightarrow> (error + VpcLoadbalancer option) \<times> world" where
  "fetchVpcLoadbalancerFromCloud lb clusterName service w =
     (case callListLoadbalancers (lb_iaasClient lb) [FilterKeyValue ''vpc'' (lb_vpcIdentity lb)] w of
        (Inl err, w1) \<Rightarrow> (Inl err, w1)
      | (Inr loadbalancersInVpc, w1) \<Rightarrow>
          if length loadbalancersInVpc = 0 then (Inr None, w1)
          else (let labels = GetLabelsForVpcLoadbalancer lb service
                in case find (\<lambda>loadbalancer. matchLabels labels (vlb_Labels loadbalancer))
                          loadbalancersInVpc of
                     Some loadbalancer \<Rightarrow> (Inr (Some loadbalancer), w1)
                   | None \<Rightarrow>
                       (let lbName = GetLoadBalancerName lb clusterName service
                        in case find (\<lambda>loadbalancer. vlb_Name loadbalancer = lbName)
                                  loadbalancersInVpc of
                             Some loadbalancer \<Rightarrow> (Inr (Some loadbalancer), w1)
                           | None \<Rightarrow> (Inr None, w1))))"

text \<open>
  The loop that \<open>GetLoadBalancer\<close>, \<open>EnsureLoadBalancer\<close> and
  \<open>updateVpcLoadbalancerListenersAndTargetGroups\<close> each end with: it appends one ingress
  entry for every external IP address that is not the empty string.
\<close>

fun ingressLoop ::
  "VpcLoadbalancer \<Rightarrow> LoadBalancerIngress list \<Rightarrow> string list \<Rightarrow> LoadBalancerIngress list" where
  "ingressLoop vpcLoadbalancer ingress [] = ingress"
| "ingressLoop vpcLoadbalancer ingress (ip # ips) =
     (if ip \<noteq> []
      then ingressLoop vpcLoadbalancer
             (ingress @ [\<lparr> ing_IP = ip, ing_Hostname = vlb_Hostname vpcLoadbalancer,
                           ing_IPMode = Some LoadBalancerIPModeProxy \<rparr>]) ips
      else ingressLoop vpcLoadbalancer ingress ips)"

definition loadbalancerStatus :: "VpcLoadbalancer \<Rightarrow> LoadBalancerStatus" where
  "loadbalancerStatus vpcLoadbalancer =
     \<lparr> lbs_Ingress = ingressLoop vpcLoadbalancer [] (vlb_ExternalIpAddresses vpcLoadbalancer) \<rparr>"

text \<open>
  \<open>GetLoadBalancer\<close> answers \<open>(status, exists, err)\<close>: \<open>Inr None\<close> is
  \<open>(nil, false, nil)\<close> and \<open>Inr (Some status)\<close> is \<open>(status, true, nil)\<close>.
\<close>

definition GetLoadBalancer ::
  "loadbalancer \<Rightarrow> string \<Rightarrow> Service \<Rightarrow> world \<Rightarrow> (error + LoadBalancerStatus option) \<times> world" where
  "GetLoadBalancer lb clusterName service w =
     (case fetchVpcLoadbalancerFromCloud lb clusterName service w of
        (Inl err, w1) \<Rightarrow> (Inl err, w1)
      | (Inr None, w1) \<Rightarrow> (Inr None, w1)
      | (Inr (Some vpcLoadbalancer), w1) \<Rightarrow> (Inr (Some (loadbalancerStatus vpcLoadbalancer)), w1))"

section \<open>Security groups\<close>

definition getSubnetIdentityForService :: "loadbalancer \<Rightarrow> Service \<Rightarrow> string" where
  "getSubnetIdentityForService lb service =
     (case svc_Annotations service LoadBalancerAnnotationSubnetID of
        Some val \<Rightarrow> if val \<noteq> [] then val else lb_defaultSubnet lb
      | None \<Rightarrow> lb_defaultSubnet lb)"

definition getSecurityGroupsForService :: "loadbalancer \<Rightarrow> Service \<Rightarrow> string list" where
  "getSecurityGroupsForService lb service =
     (case svc_Annotations service LoadBalancerAnnotationSecurityGroups of
        Some val \<Rightarrow> Split val '',''
      | None \<Rightarrow> [])"

definition shouldCreateSecurityGroup :: "loadbalancer \<Rightarrow> Service \<Rightarrow> bool" where
  "shouldCreateSecurityGroup lb service =
     (case svc_Annotations service LoadBalancerAnnotationCreateSecurityGroup of
        Some val \<Rightarrow> (case ParseBool val of Inr b \<Rightarrow> b | Inl err \<Rightarrow> False)
      | None \<Rightarrow> False)"

definition verifySecurityGroupsExist ::
  "loadbalancer \<Rightarrow> string list \<Rightarrow> world \<Rightarrow> error option \<times> world" where
  "verifySecurityGroupsExist lb securityGroups w =
     (if length securityGroups = 0 then (None, w)
      else (case callListSecurityGroups (lb_iaasClient lb)
                   [FilterKeyValue ''vpc'' (lb_vpcIdentity lb)] w of
              (Inl err, w1) \<Rightarrow> (Some (''failed to list security groups in vpc: '' @ err), w1)
            | (Inr securityGroupsInVpc, w1) \<Rightarrow>
                (case find (\<lambda>securityGroup.
                              \<not> list_ex (\<lambda>securityGroupInVpc.
                                           sg_Identity securityGroupInVpc = securityGroup)
                                   securityGroupsInVpc)
                        securityGroups of
                   Some securityGroup \<Rightarrow>
                     (Some (''security group '' @ securityGroup @ '' does not exist in vpc ''
                            @ lb_vpcIdentity lb), w1)
                 | None \<Rightarrow> (None, w1))))"

definition findManagedSecurityGroup ::
  "loadbalancer \<Rightarrow> Service \<Rightarrow> world \<Rightarrow> (error + SecurityGroup option) \<times> world" where
  "findManagedSecurityGroup lb service w =
     (let labels = GetLabelsForVpcLoadbalancer lb service
      in case callListSecurityGroups (lb_iaasClient lb)
                [FilterKeyValue ''vpc'' (lb_vpcIdentity lb), LabelFilter labels] w of
           (Inl err, w1) \<Rightarrow> (Inl (''failed to list security groups in vpc: '' @ err), w1)
         | (Inr securityGroupsInVpc, w1) \<Rightarrow>
             (Inr (find (\<lambda>sg. matchLabels labels (sg_Labels sg)) securityGroupsInVpc), w1))"

definition generateSecurityGroupName :: "loadbalancer \<Rightarrow> string \<Rightarrow> string" where
  "generateSecurityGroupName lb lbName =
     (let base = ''sg-'' @ lbName in if 16 < length base then take 16 base else base)"

definition ensureManagedSecurityGroup ::
  "loadbalancer \<Rightarrow> Service \<Rightarrow> VpcLoadbalancerListener list \<Rightarrow> world
     \<Rightarrow> (error + SecurityGroup option) \<times> world" where
  "ensureManagedSecurityGroup lb service desiredListeners w =
     (case findManagedSecurityGroup lb service w of
        (Inl err, w1) \<Rightarrow> (Inl (''failed to find managed security group: '' @ err), w1)
      | (Inr sg, w1) \<Rightarrow>
          (let labels = GetLabelsForVpcLoadbalancer lb service;
               annotations = GetAnnotationsForVpcLoadbalancer lb service;
               ingress = buildIngressRulesFromListeners lb desiredListeners;
               egress = managedEgressRules
           in case sg of
                None \<Rightarrow>
                  (case callCreateSecurityGroup (lb_iaasClient lb)
                          \<lparr> csg_Name = generateSecurityGroupName lb (svc_Name service),
                            csg_Description =
                              ''Security group for Kubernetes service '' @ svc_Name service,
                            csg_Labels = labels,
                            csg_Annotations = annotations,
                            csg_VpcIdentity = lb_vpcIdentity lb,
                            csg_AllowSameGroupTraffic = True,
                            csg_IngressRules = ingress,
                            csg_EgressRules = egress \<rparr> w1 of
                     (Inl err, w2) \<Rightarrow>
                       (Inl (''failed to create managed security group: '' @ err), w2)
                   | (Inr created, w2) \<Rightarrow> (Inr created, w2))
              | Some sg \<Rightarrow>
                  (case callUpdateSecurityGroup (lb_iaasClient lb) (sg_Identity sg)
                          \<lparr> usg_Name = sg_Name sg,
                            usg_Description = sg_Description sg,
                            usg_Labels = labels,
                            usg_Annotations = annotations,
                            usg_ObjectVersion = sg_ObjectVersion sg,
                            usg_AllowSameGroupTraffic = True,
                            usg_IngressRules = ingress,
                            usg_EgressRules = egress \<rparr> w1 of
                     (Inl err, w2) \<Rightarrow>
                       (Inl (''failed to update managed security group: '' @ err), w2)
                   | (Inr updated, w2) \<Rightarrow> (Inr updated, w2))))"

definition deleteManagedSecurityGroup :: "loadbalancer \<Rightarrow> Service \<Rightarrow> world \<Rightarrow> world" where
  "deleteManagedSecurityGroup lb service w =
     (case findManagedSecurityGroup lb service w of
        (Inl err, w1) \<Rightarrow> w1
      | (Inr None, w1) \<Rightarrow> w1
      | (Inr (Some sg), w1) \<Rightarrow> snd (callDeleteSecurityGroup (lb_iaasClient lb) (sg_Identity sg) w1))"

section \<open>Reconciling target groups\<close>

text \<open>
  Target groups are keyed by \<open>fmt.Sprintf("%s:%d", Protocol, TargetPort)\<close>; the Go maps
  from keys to target groups are filled in list order, a later entry replacing an
  earlier one with the same key.
\<close>

definition targetGroupKey :: "VpcLoadbalancerTargetGroup \<Rightarrow> string" where
  "targetGroupKey targetGroup =
     tg_Protocol targetGroup @ '':'' @ Sprintd (tg_TargetPort targetGroup)"

definition targetGroupsMap ::
  "VpcLoadbalancerTargetGroup list \<Rightarrow> (string \<rightharpoonup> VpcLoadbalancerTargetGroup)" where
  "targetGroupsMap targetGroups =
     foldl (\<lambda>m targetGroup. m(targetGroupKey targetGroup \<mapsto> targetGroup)) Map.empty
       targetGroups"

fun attachmentsLoop :: "AttachTarget list \<Rightarrow> Node list \<Rightarrow> AttachTarget list" where
  "attachmentsLoop attachments [] = attachments"
| "attachmentsLoop attachments (node # nodes) =
     (let providerId = node_ProviderID node
      in if providerId = [] then attachmentsLoop attachments nodes
         else (let providerIdParts = Split providerId ''://''
               in if length providerIdParts \<noteq> 2 then attachmentsLoop attachments nodes
                  else attachmentsLoop
                         (attachments @ [\<lparr> at_ServerIdentity = providerIdParts ! 1 \<rparr>]) nodes))"

definition upgradeTargetGroupAttachments ::
  "loadbalancer \<Rightarrow> VpcLoadbalancerTargetGroup \<Rightarrow> Node list \<Rightarrow> world \<Rightarrow> error option \<times> world" where
  "upgradeTargetGroupAttachments l targetGroup nodes w =
     (let attachments = attachmentsLoop [] nodes
      in case callSetTargetGroupServerAttachments (lb_iaasClient l)
                \<lparr> tgab_TargetGroupID = tg_Identity targetGroup,
                  tgab_Attachments = attachments \<rparr> w of
           (Some err, w1) \<Rightarrow> (Some (''failed to update target group attachments: '' @ err), w1)
         | (None, w1) \<Rightarrow> (None, w1))"

text \<open>First loop of \<open>createOrUpdateTargetGroups\<close>: create the missing target groups.\<close>

fun createMissingTargetGroups ::
  "loadbalancer \<Rightarrow> (string \<rightharpoonup> VpcLoadbalancerTargetGroup) \<Rightarrow> Node list
     \<Rightarrow> VpcLoadbalancerTargetGroup list \<Rightarrow> VpcLoadbalancerTargetGroup list \<Rightarrow> world
     \<Rightarrow> (error + VpcLoadbalancerTargetGroup list) \<times> world" where
  "createMissingTargetGroups l existingTargetGroupsMap nodes tgs [] w = (Inr tgs, w)"
| "createMissingTargetGroups l existingTargetGroupsMap nodes tgs (targetGroup # rest) w =
     (if existingTargetGroupsMap (targetGroupKey targetGroup) = None
      then (case callCreateTargetGroup (lb_iaasClient l)
                   \<lparr> ctg_Vpc = lb_vpcIdentity l,
                     ctg_Name = tg_Name targetGroup,
                     ctg_Description = tg_Description targetGroup,
                     ctg_Protocol = tg_Protocol targetGroup,
                     ctg_TargetPort = tg_TargetPort targetGroup,
                     ctg_Labels = tg_Labels targetGroup,
                     ctg_Annotations = tg_Annotations targetGroup,
                     ctg_HealthCheck = tg_HealthCheck targetGroup,
                     ctg_EnableProxyProtocol = tg_EnableProxyProtocol targetGroup,
                     ctg_LoadbalancingPolicy = tg_LoadbalancingPolicy targetGroup \<rparr> w of
              (Inl err, w1) \<Rightarrow> (Inl (''failed to create target group: '' @ err), w1)
            | (Inr None, w1) \<Rightarrow> (Inl ''failed to create target group: <nil>'', w1)
            | (Inr (Some created), w1) \<Rightarrow>
                (case upgradeTargetGroupAttachments l created nodes w1 of
                   (Some err, w2) \<Rightarrow>
                     (Inl (''failed to upgrade target group attachments: '' @ err), w2)
                 | (None, w2) \<Rightarrow>
                     createMissingTargetGroups l existingTargetGroupsMap nodes (tgs @ [created])
                       rest w2))
      else createMissingTargetGroups l existingTargetGroupsMap nodes tgs rest w)"

text \<open>Second loop: update every listed target group whose key is desired.\<close>

fun updateExistingTargetGroups ::
  "loadbalancer \<Rightarrow> (string \<rightharpoonup> VpcLoadbalancerTargetGroup) \<Rightarrow> Node list
     \<Rightarrow> VpcLoadbalancerTargetGroup list \<Rightarrow> VpcLoadbalancerTargetGroup list \<Rightarrow> world
     \<Rightarrow> (error + VpcLoadbalancerTargetGroup list) \<times> world" where
  "updateExistingTargetGroups l desiredTargetGroupsMap nodes tgs [] w = (Inr tgs, w)"
| "updateExistingTargetGroups l desiredTargetGroupsMap nodes tgs (targetGroup # rest) w =
     (case desiredTargetGroupsMap (targetGroupKey targetGroup) of
        None \<Rightarrow> updateExistingTargetGroups l desiredTargetGroupsMap nodes tgs rest w
      | Some desiredTargetGroup \<Rightarrow>
          if tg_Identity targetGroup = []
          then updateExistingTargetGroups l desiredTargetGroupsMap nodes tgs rest w
          else (case callUpdateTargetGroup (lb_iaasClient l)
                       \<lparr> utgr_Identity = tg_Identity targetGroup,
                         utgr_UpdateTargetGroup =
                           \<lparr> utg_Name = tg_Name desiredTargetGroup,
                             utg_Description = tg_Description desiredTargetGroup,
                             utg_Protocol = tg_Protocol desiredTargetGroup,
                             utg_TargetPort = tg_TargetPort desiredTargetGroup,
                             utg_Labels = tg_Labels desiredTargetGroup,
                             utg_Annotations = tg_Annotations desiredTargetGroup,
                             utg_HealthCheck = tg_HealthCheck desiredTargetGroup,
                             utg_EnableProxyProtocol = tg_EnableProxyProtocol desiredTargetGroup,
                             utg_LoadbalancingPolicy =
                               tg_LoadbalancingPolicy desiredTargetGroup \<rparr> \<rparr> w of
                  (Inl err, w1) \<Rightarrow> (Inl (''failed to update target group: '' @ err), w1)
                | (Inr None, w1) \<Rightarrow> (Inl ''failed to update target group: <nil>'', w1)
                | (Inr (Some updated), w1) \<Rightarrow>
                    (case upgradeTargetGroupAttachments l updated nodes w1 of
                       (Some err, w2) \<Rightarrow>
                         (Inl (''failed to upgrade target group attachments: '' @ err), w2)
                     | (None, w2) \<Rightarrow>
                         updateExistingTargetGroups l desiredTargetGroupsMap nodes
                           (tgs @ [updated]) rest w2)))"

definition createOrUpdateTargetGroups ::
  "loadbalancer \<Rightarrow> Service \<Rightarrow> VpcLoadbalancer \<Rightarrow> VpcLoadbalancerTargetGroup list \<Rightarrow> Node list
     \<Rightarrow> world \<Rightarrow> (error + VpcLoadbalancerTargetGroup list) \<times> world" where
  "createOrUpdateTargetGroups l service vpcLoadbalancer desiredTargetGroups nodes w =
     (case callListTargetGroups (lb_iaasClient l)
             [FilterKeyValue FilterVpcIdentity (lb_vpcIdentity l),
              LabelFilter (GetLabelsForVpcLoadbalancer l service)] w of
        (Inl err, w1) \<Rightarrow> (Inl (''failed to list target groups: '' @ err), w1)
      | (Inr existingTargetGroups, w1) \<Rightarrow>
          (let existingTargetGroupsMap = targetGroupsMap existingTargetGroups;
               desiredTargetGroupsMap = targetGroupsMap desiredTargetGroups
           in case createMissingTargetGroups l existingTargetGroupsMap nodes []
                     desiredTargetGroups w1 of
                (Inl err, w2) \<Rightarrow> (Inl err, w2)
              | (Inr tgs, w2) \<Rightarrow>
                  updateExistingTargetGroups l desiredTargetGroupsMap nodes tgs
                    existingTargetGroups w2))"

text \<open>The loop of \<open>cleanupUnusedTargetGroups\<close> over the listed target groups.\<close>

fun cleanupLoop ::
  "loadbalancer \<Rightarrow> (string \<rightharpoonup> VpcLoadbalancerTargetGroup) \<Rightarrow> VpcLoadbalancerTargetGroup list
     \<Rightarrow> world \<Rightarrow> error option \<times> world" where
  "cleanupLoop l desiredTargetGroupsMap [] w = (None, w)"
| "cleanupLoop l desiredTargetGroupsMap (targetGroup # rest) w =
     (if 0 < length (tg_LoadbalancerListeners targetGroup)
      then cleanupLoop l desiredTargetGroupsMap rest w
      else if desiredTargetGroupsMap (targetGroupKey targetGroup) = None
      then (case callDeleteTargetGroup (lb_iaasClient l) (tg_Identity targetGroup) w of
              (Some err, w1) \<Rightarrow> (Some (''failed to delete target group: '' @ err), w1)
            | (None, w1) \<Rightarrow> cleanupLoop l desiredTargetGroupsMap rest w1)
      else cleanupLoop l desiredTargetGroupsMap rest w)"

definition cleanupUnusedTargetGroups ::
  "loadbalancer \<Rightarrow> Service \<Rightarrow> VpcLoadbalancer \<Rightarrow> VpcLoadbalancerTargetGroup list \<Rightarrow> world
     \<Rightarrow> error option \<times> world" where
  "cleanupUnusedTargetGroups l service vpcLoadbalancer desiredTargetGroups w =
     (case callListTargetGroups (lb_iaasClient l)
             [FilterKeyValue FilterVpcIdentity (lb_vpcIdentity l),
              LabelFilter (GetLabelsForVpcLoadbalancer l service)] w of
        (Inl err, w1) \<Rightarrow> (Some (''failed to list target groups: '' @ err), w1)
      | (Inr existingTargetGroups, w1) \<Rightarrow>
          cleanupLoop l (targetGroupsMap desiredTargetGroups) existingTargetGroups w1)"

section \<open>Reconciling listeners\<close>

definition getTargetGroupIdentityForListener ::
  "loadbalancer \<Rightarrow> Service \<Rightarrow> VpcLoadbalancerListener \<Rightarrow> VpcLoadbalancerTargetGroup list
     \<Rightarrow> string" where
  "getTargetGroupIdentityForListener lb service listener targetGroups =
     (let desiredLabels =
            GetLabelsForVpcLoadbalancerTargetGroup lb service (lis_Port listener)
              (lis_Protocol listener)
      in case find (\<lambda>targetGroup. matchLabels desiredLabels (tg_Labels targetGroup))
                targetGroups of
           Some targetGroup \<Rightarrow> tg_Identity targetGroup
         | None \<Rightarrow> [])"

definition listenersPortMap ::
  "VpcLoadbalancerListener list \<Rightarrow> (int \<rightharpoonup> VpcLoadbalancerListener)" where
  "listenersPortMap listeners =
     foldl (\<lambda>m listener. m(lis_Port listener \<mapsto> listener)) Map.empty listeners"

text \<open>The loop over the existing listeners, entered when the two lists are not deeply equal.\<close>

fun updateOrDeleteListeners ::
  "loadbalancer \<Rightarrow> Service \<Rightarrow> VpcLoadbalancer \<Rightarrow> (int \<rightharpoonup> VpcLoadbalancerListener)
     \<Rightarrow> VpcLoadbalancerTargetGroup list \<Rightarrow> VpcLoadbalancerListener list \<Rightarrow> world
     \<Rightarrow> error option \<times> world" where
  "updateOrDeleteListeners lb service loadbalancer desiredListenersPortMap targetGroups [] w =
     (None, w)"
| "updateOrDeleteListeners lb service loadbalancer desiredListenersPortMap targetGroups
       (listener # rest) w =
     (case desiredListenersPortMap (lis_Port listener) of
        None \<Rightarrow>
          (case callDeleteListener (lb_iaasClient lb) (vlb_Identity loadbalancer)
                  (lis_Identity listener) w of
             (Some err, w1) \<Rightarrow> (Some (''failed to delete listener: '' @ err), w1)
           | (None, w1) \<Rightarrow>
               updateOrDeleteListeners lb service loadbalancer desiredListenersPortMap
                 targetGroups rest w1)
      | Some listenerToUpdate \<Rightarrow>
          (let targetGroupIdentity =
                 getTargetGroupIdentityForListener lb service listenerToUpdate targetGroups
           in if targetGroupIdentity = []
              then updateOrDeleteListeners lb service loadbalancer desiredListenersPortMap
                     targetGroups rest w
              else (case callUpdateListener (lb_iaasClient lb) (vlb_Identity loadbalancer)
                           (lis_Identity listener)
                           \<lparr> ul_Name = lis_Name listenerToUpdate,
                             ul_Description = lis_Description listenerToUpdate,
                             ul_Labels = lis_Labels listenerToUpdate,
                             ul_Annotations = lis_Annotations listenerToUpdate,
                             ul_Port = lis_Port listenerToUpdate,
                             ul_Protocol = lis_Protocol listenerToUpdate,
                             ul_TargetGroup = targetGroupIdentity,
                             ul_ConnectionIdleTimeout = lis_ConnectionIdleTimeout listenerToUpdate,
                             ul_MaxConnections = lis_MaxConnections listenerToUpdate,
                             ul_AllowedSources = lis_AllowedSources listenerToUpdate \<rparr> w of
                      (Inl err, w1) \<Rightarrow> (Some (''failed to update listener: '' @ err), w1)
                    | (Inr updated, w1) \<Rightarrow>
                        updateOrDeleteListeners lb service loadbalancer desiredListenersPortMap
                          targetGroups rest w1)))"

text \<open>The loop over the desired listeners that creates the missing ones.\<close>

fun createMissingListeners ::
  "loadbalancer \<Rightarrow> Service \<Rightarrow> VpcLoadbalancer \<Rightarrow> (int \<rightharpoonup> VpcLoadbalancerListener)
     \<Rightarrow> VpcLoadbalancerTargetGroup list \<Rightarrow> VpcLoadbalancerListener list \<Rightarrow> world
     \<Rightarrow> error option \<times> world" where
  "createMissingListeners lb service loadbalancer existingListenersPortMap targetGroups [] w =
     (None, w)"
| "createMissingListeners lb service loadbalancer existingListenersPortMap targetGroups
       (listener # rest) w =
     (if existingListenersPortMap (lis_Port listener) = None
      then (let targetGroupIdentity =
                  getTargetGroupIdentityForListener lb service listener targetGroups
            in if targetGroupIdentity = []
               then createMissingListeners lb service loadbalancer existingListenersPortMap
                      targetGroups rest w
               else (case callCreateListener (lb_iaasClient lb) (vlb_Identity loadbalancer)
                            \<lparr> cl_Name = lis_Name listener,
                              cl_Description = lis_Description listener,
                              cl_Labels = lis_Labels listener,
                              cl_Annotations = lis_Annotations listener,
                              cl_Port = lis_Port listener,
                              cl_Protocol = lis_Protocol listener,
                              cl_TargetGroup = targetGroupIdentity,
                              cl_AllowedSources = lis_AllowedSources listener,
                              cl_ConnectionIdleTimeout = lis_ConnectionIdleTimeout listener,
                              cl_MaxConnections = lis_MaxConnections listener \<rparr> w of
                       (Inl err, w1) \<Rightarrow> (Some (''failed to create listener: '' @ err), w1)
                     | (Inr created, w1) \<Rightarrow>
                         createMissingListeners lb service loadbalancer existingListenersPortMap
                           targetGroups rest w1))
      else createMissingListeners lb service loadbalancer existingListenersPortMap targetGroups
             rest w)"

text \<open>
  \<open>equality.Semantic.DeepEqual\<close> on the two listener lists is equality of the lists on
  the fields modelled (it takes a \<open>nil\<close> and an empty slice for equal).
\<close>

definition updateVpcLoadbalancerListener ::
  "loadbalancer \<Rightarrow> Service \<Rightarrow> VpcLoadbalancer \<Rightarrow> VpcLoadbalancerListener list
     \<Rightarrow> VpcLoadbalancerTargetGroup list \<Rightarrow> world \<Rightarrow> error option \<times> world" where
  "updateVpcLoadbalancerListener lb service loadbalancer desiredListeners targetGroups w =
     (case callListListeners (lb_iaasClient lb) (vlb_Identity loadbalancer) w of
        (Inl err, w1) \<Rightarrow> (Some (''failed to list listeners: '' @ err), w1)
      | (Inr existingListenersForLoadBalancer, w1) \<Rightarrow>
          (let desiredListenersPortMap = listenersPortMap desiredListeners;
               existingListenersPortMap = listenersPortMap existingListenersForLoadBalancer
           in case (if desiredListeners \<noteq> existingListenersForLoadBalancer
                    then updateOrDeleteListeners lb service loadbalancer desiredListenersPortMap
                           targetGroups existingListenersForLoadBalancer w1
                    else (None, w1)) of
                (Some err, w2) \<Rightarrow> (Some err, w2)
              | (None, w2) \<Rightarrow>
                  createMissingListeners lb service loadbalancer existingListenersPortMap
                    targetGroups desiredListeners w2))"

section \<open>Creating and updating the load balancer\<close>

text \<open>
  A function that can dereference a \<open>nil\<close> pointer answers \<open>Panic\<close> there; otherwise
  it answers \<open>Return\<close> with what the Go function returns.
\<close>

datatype 'a result = Return 'a | Panic

definition createVpcLoadbalancer ::
  "loadbalancer \<Rightarrow> string \<Rightarrow> Service \<Rightarrow> world
     \<Rightarrow> (error + VpcLoadbalancer option) result \<times> world" where
  "createVpcLoadbalancer lb lbName service w =
     (case callGetVpc (lb_iaasClient lb) (lb_vpcIdentity lb) w of
        (Inl err, w1) \<Rightarrow> (Return (Inl (''failed to get vpc: '' @ err)), w1)
      | (Inr None, w1) \<Rightarrow> (Panic, w1)
      | (Inr (Some vpc), w1) \<Rightarrow>
          if length (vpc_Subnets vpc) = 0
          then (Return (Inl (''vpc '' @ lb_vpcIdentity lb @ '' has no subnets'')), w1)
          else
            (let requestedSubnetIdentity = getSubnetIdentityForService lb service
             in case (if requestedSubnetIdentity \<noteq> []
                      then Inr (find (\<lambda>subnet. sub_Identity subnet = requestedSubnetIdentity
                                                \<or> sub_Slug subnet = requestedSubnetIdentity)
                                  (vpc_Subnets vpc))
                      else (case vpc_Subnets vpc of
                              [] \<Rightarrow> Inl (''vpc '' @ lb_vpcIdentity lb @ '' has no subnets'')
                            | first # others \<Rightarrow> Inr (Some first))) of
                  Inl err \<Rightarrow> (Return (Inl err), w1)
                | Inr None \<Rightarrow>
                    (Return (Inl (''no subnet found for deploying loadbalancer for service ''
                                  @ svc_Name service)), w1)
                | Inr (Some vpcSubnet) \<Rightarrow>
                    (let internalLoadbalancer =
                           (case svc_Annotations service LoadbalancerAnnotationInternal of
                              Some val \<Rightarrow> (case ParseBool val of Inr b \<Rightarrow> b | Inl err \<Rightarrow> False)
                            | None \<Rightarrow> False);
                         labels = GetLabelsForVpcLoadbalancer lb service;
                         annotations = GetAnnotationsForVpcLoadbalancer lb service;
                         securityGroups = getSecurityGroupsForService lb service
                     in case verifySecurityGroupsExist lb securityGroups w1 of
                          (Some err, w2) \<Rightarrow>
                            (Return (Inl (''failed to verify security groups: '' @ err)), w2)
                        | (None, w2) \<Rightarrow>
                            (case (if shouldCreateSecurityGroup lb service
                                   then (case ensureManagedSecurityGroup lb service
                                                (desiredVpcLoadbalancerListener lb service) w2 of
                                           (Inl err, w3) \<Rightarrow> (Inl err, w3)
                                         | (Inr None, w3) \<Rightarrow> (Inr securityGroups, w3)
                                         | (Inr (Some sg), w3) \<Rightarrow>
                                             (Inr (securityGroups @ [sg_Identity sg]), w3))
                                   else (Inr securityGroups, w2)) of
                               (Inl err, w3) \<Rightarrow> (Return (Inl err), w3)
                             | (Inr securityGroups, w3) \<Rightarrow>
                                 (case callCreateLoadbalancer (lb_iaasClient lb)
                                         \<lparr> clb_Name = lbName,
                                           clb_Description =
                                             ''Loadbalancer for Kubernetes service ''
                                             @ svc_Name service,
                                           clb_Labels = labels,
                                           clb_Annotations = annotations,
                                           clb_Subnet = sub_Identity vpcSubnet,
                                           clb_InternalLoadbalancer = internalLoadbalancer,
                                           clb_SecurityGroupAttachments = securityGroups \<rparr> w3 of
                                    (Inl err, w4) \<Rightarrow> (Return (Inl err), w4)
                                  | (Inr created, w4) \<Rightarrow> (Return (Inr created), w4))))))"

definition updateVpcLoadbalancer ::
  "loadbalancer \<Rightarrow> Service \<Rightarrow> VpcLoadbalancer \<Rightarrow> VpcLoadbalancerListener list \<Rightarrow> world
     \<Rightarrow> error option \<times> world" where
  "updateVpcLoadbalancer lb service vpcLoadbalancer desiredListeners w =
     (let desiredSecurityGroups = getSecurityGroupsForService lb service
      in case verifySecurityGroupsExist lb desiredSecurityGroups w of
           (Some err, w1) \<Rightarrow> (Some (''failed to verify security groups: '' @ err), w1)
         | (None, w1) \<Rightarrow>
             (let currentSecurityGroupIdentities =
                    map sg_Identity (vlb_SecurityGroups vpcLoadbalancer)
              in case (if shouldCreateSecurityGroup lb service
                       then (case ensureManagedSecurityGroup lb service desiredListeners w1 of
                               (Inl err, w2) \<Rightarrow>
                                 (Inl (''failed to ensure managed security group: '' @ err), w2)
                             | (Inr None, w2) \<Rightarrow> (Inr desiredSecurityGroups, w2)
                             | (Inr (Some sg), w2) \<Rightarrow>
                                 (Inr (desiredSecurityGroups @ [sg_Identity sg]), w2))
                       else (Inr desiredSecurityGroups, w1)) of
                   (Inl err, w2) \<Rightarrow> (Some err, w2)
                 | (Inr desiredSecurityGroups, w2) \<Rightarrow>
                     (let preferredSubnetIdentity = getSubnetIdentityForService lb service;
                          preferredSubnetIdentity =
                            (if preferredSubnetIdentity = []
                             then sub_Identity (vlb_Subnet vpcLoadbalancer)
                             else preferredSubnetIdentity)
                      in if desiredSecurityGroups \<noteq> currentSecurityGroupIdentities
                            \<or> length desiredSecurityGroups \<noteq> length currentSecurityGroupIdentities
                            \<or> sub_Identity (vlb_Subnet vpcLoadbalancer) \<noteq> preferredSubnetIdentity
                         then (case callUpdateLoadbalancer (lb_iaasClient lb)
                                      (vlb_Identity vpcLoadbalancer)
                                      \<lparr> ulb_Name = vlb_Name vpcLoadbalancer,
                                        ulb_Description = vlb_Description vpcLoadbalancer,
                                        ulb_Labels = vlb_Labels vpcLoadbalancer,
                                        ulb_Annotations = vlb_Annotations vpcLoadbalancer,
                                        ulb_Subnet = Some preferredSubnetIdentity,
                                        ulb_DeleteProtection = vlb_DeleteProtection vpcLoadbalancer,
                                        ulb_SecurityGroupAttachments = desiredSecurityGroups \<rparr>
                                      w2 of
                                 (Inl err, w3) \<Rightarrow>
                                   (Some (''failed to update loadbalancer: '' @ err), w3)
                               | (Inr updated, w3) \<Rightarrow> (None, w3))
                         else (None, w2))))"

section \<open>The reconcile body and the controller entry points\<close>

definition updateVpcLoadbalancerListenersAndTargetGroups ::
  "loadbalancer \<Rightarrow> string \<Rightarrow> Service \<Rightarrow> Node list \<Rightarrow> VpcLoadbalancer option \<Rightarrow> world
     \<Rightarrow> (error + LoadBalancerStatus) \<times> world" where
  "updateVpcLoadbalancerListenersAndTargetGroups lb clusterName service nodes vpcLoadbalancer w =
     (case (case vpcLoadbalancer of
              Some given \<Rightarrow> (Inr given, w)
            | None \<Rightarrow>
                (case fetchVpcLoadbalancerFromCloud lb clusterName service w of
                   (Inl err, w0) \<Rightarrow>
                     (Inl (''failed to fetch loadbalancer from cloud: '' @ err), w0)
                 | (Inr None, w0) \<Rightarrow> (Inl ''loadbalancer not found in cloud'', w0)
                 | (Inr (Some fetched), w0) \<Rightarrow> (Inr fetched, w0))) of
        (Inl err, w0) \<Rightarrow> (Inl err, w0)
      | (Inr vpcLoadbalancer, w0) \<Rightarrow>
          (let desiredListeners = desiredVpcLoadbalancerListener lb service
           in case getDesiredVpcLoadbalancerTargetGroups lb service nodes of
                Inl err \<Rightarrow> (Inl (''failed to create loadbalancer backends: '' @ err), w0)
              | Inr desiredTgs \<Rightarrow>
                  (case createOrUpdateTargetGroups lb service vpcLoadbalancer desiredTgs nodes
                          w0 of
                     (Inl err, w1) \<Rightarrow>
                       (Inl (''failed to create or update target groups: '' @ err), w1)
                   | (Inr tgs, w1) \<Rightarrow>
                       (case updateVpcLoadbalancerListener lb service vpcLoadbalancer
                               desiredListeners tgs w1 of
                          (Some err, w2) \<Rightarrow>
                            (Inl (''failed to update loadbalancer listener: '' @ err), w2)
                        | (None, w2) \<Rightarrow>
                            (case cleanupUnusedTargetGroups lb service vpcLoadbalancer tgs w2 of
                               (Some err, w3) \<Rightarrow>
                                 (Inl (''failed to cleanup unused target groups: '' @ err), w3)
                             | (None, w3) \<Rightarrow>
                                 (case updateVpcLoadbalancer lb service vpcLoadbalancer
                                         desiredListeners w3 of
                                    (Some err, w4) \<Rightarrow>
                                      (Inl (''failed to update loadbalancer: '' @ err), w4)
                                  | (None, w4) \<Rightarrow>
                                      (Inr (loadbalancerStatus vpcLoadbalancer), w4)))))))"

text \<open>
  \<open>wait.PollUntilContextTimeout\<close> with \<open>immediate = true\<close> evaluates its condition,
  sleeps, and evaluates it again until the condition holds, fails, or the time is up.
  How many evaluations fit before the timeout is for the clock to say: it is the
  parameter \<open>polls\<close>, and running out of it is the timeout error.
\<close>

definition isReady :: "VpcLoadbalancer \<Rightarrow> bool" where
  "isReady vpcLoadbalancer =
     (vlb_Status vpcLoadbalancer = ''ready''
      \<and> 0 < length (vlb_ExternalIpAddresses vpcLoadbalancer))"

fun pollUntilReady ::
  "loadbalancer \<Rightarrow> string \<Rightarrow> Service \<Rightarrow> VpcLoadbalancer \<Rightarrow> nat \<Rightarrow> world
     \<Rightarrow> (error + VpcLoadbalancer) result \<times> world" where
  "pollUntilReady lb clusterName service vpcLoadbalancer 0 w =
     (Return (Inl ''context deadline exceeded''), w)"
| "pollUntilReady lb clusterName service vpcLoadbalancer (Suc polls) w =
     (if isReady vpcLoadbalancer then (Return (Inr vpcLoadbalancer), w)
      else (case fetchVpcLoadbalancerFromCloud lb clusterName service w of
              (Inl err, w1) \<Rightarrow> (Return (Inl err), w1)
            | (Inr None, w1) \<Rightarrow> (Panic, w1)
            | (Inr (Some vpcLB), w1) \<Rightarrow>
                if isReady vpcLB then (Return (Inr vpcLB), w1)
                else pollUntilReady lb clusterName service vpcLoadbalancer polls w1))"

definition EnsureLoadBalancer ::
  "loadbalancer \<Rightarrow> string \<Rightarrow> Service \<Rightarrow> Node list \<Rightarrow> nat \<Rightarrow> world
     \<Rightarrow> (error + LoadBalancerStatus) result \<times> world" where
  "EnsureLoadBalancer lb clusterName service nodes polls w =
     (case fetchVpcLoadbalancerFromCloud lb clusterName service w of
        (Inl err, w1) \<Rightarrow> (Return (Inl err), w1)
      | (Inr vpcLoadbalancer, w1) \<Rightarrow>
          (case NodeFilter_Filter (lb_nodeFilter lb) service nodes of
             Inl err \<Rightarrow> (Return (Inl err), w1)
           | Inr nodes \<Rightarrow>
               (case vpcLoadbalancer of
                  Some existing \<Rightarrow>
                    (case updateVpcLoadbalancerListenersAndTargetGroups lb clusterName service
                            nodes (Some existing) w1 of
                       (r, w2) \<Rightarrow> (Return r, w2))
                | None \<Rightarrow>
                    (let lbName = GetLoadBalancerName lb clusterName service
                     in case createVpcLoadbalancer lb lbName service w1 of
                          (Panic, w2) \<Rightarrow> (Panic, w2)
                        | (Return (Inl err), w2) \<Rightarrow> (Return (Inl err), w2)
                        | (Return (Inr None), w2) \<Rightarrow> (Panic, w2)
                        | (Return (Inr (Some created)), w2) \<Rightarrow>
                            (case updateVpcLoadbalancerListenersAndTargetGroups lb clusterName
                                    service nodes (Some created) w2 of
                               (Inl err, w3) \<Rightarrow> (Return (Inl err), w3)
                             | (Inr status, w3) \<Rightarrow>
                                 (case pollUntilReady lb clusterName service created polls w3 of
                                    (Panic, w4) \<Rightarrow> (Panic, w4)
                                  | (Return (Inl err), w4) \<Rightarrow> (Return (Inl err), w4)
                                  | (Return (Inr ready), w4) \<Rightarrow>
                                      (Return (Inr (loadbalancerStatus ready)), w4)))))))"

definition UpdateLoadBalancer ::
  "loadbalancer \<Rightarrow> string \<Rightarrow> Service \<Rightarrow> Node list \<Rightarrow> world \<Rightarrow> error option \<times> world" where
  "UpdateLoadBalancer lb clusterName service nodes w =
     (case fetchVpcLoadbalancerFromCloud lb clusterName service w of
        (Inl err, w1) \<Rightarrow> (Some (''failed to get LoadBalancer service: '' @ err), w1)
      | (Inr None, w1) \<Rightarrow>
          (Some (''LoadBalancer not found in Cloud API for service '' @ svc_Name service), w1)
      | (Inr (Some lbService), w1) \<Rightarrow>
          (case NodeFilter_Filter (lb_nodeFilter lb) service nodes of
             Inl err \<Rightarrow> (Some err, w1)
           | Inr nodes \<Rightarrow>
               (case updateVpcLoadbalancerListenersAndTargetGroups lb clusterName service nodes
                       (Some lbService) w1 of
                  (Inl err, w2) \<Rightarrow>
                    (Some (''failed to update loadbalancer listeners and target groups: '' @ err),
                     w2)
                | (Inr status, w2) \<Rightarrow> (None, w2))))"

text \<open>
  The wait of \<open>EnsureLoadBalancerDeleted\<close>: an error of the lookup counts as "not yet".
\<close>

fun pollUntilDeleted ::
  "loadbalancer \<Rightarrow> string \<Rightarrow> Service \<Rightarrow> nat \<Rightarrow> world \<Rightarrow> error option \<times> world" where
  "pollUntilDeleted lb clusterName service 0 w = (Some ''context deadline exceeded'', w)"
| "pollUntilDeleted lb clusterName service (Suc polls) w =
     (case fetchVpcLoadbalancerFromCloud lb clusterName service w of
        (Inl err, w1) \<Rightarrow> pollUntilDeleted lb clusterName service polls w1
      | (Inr None, w1) \<Rightarrow> (None, w1)
      | (Inr (Some vpclb), w1) \<Rightarrow> pollUntilDeleted lb clusterName service polls w1)"

text \<open>The deletion pass of \<open>EnsureLoadBalancerDeleted\<close> over the listed target groups.\<close>

fun deleteTargetGroupsLoop ::
  "loadbalancer \<Rightarrow> VpcLoadbalancerTargetGroup list \<Rightarrow> world \<Rightarrow> error option \<times> world" where
  "deleteTargetGroupsLoop lb [] w = (None, w)"
| "deleteTargetGroupsLoop lb (targetGroup # rest) w =
     (if 0 < length (tg_LoadbalancerListeners targetGroup)
      then deleteTargetGroupsLoop lb rest w
      else (case callDeleteTargetGroup (lb_iaasClient lb) (tg_Identity targetGroup) w of
              (Some err, w1) \<Rightarrow> (Some err, w1)
            | (None, w1) \<Rightarrow> deleteTargetGroupsLoop lb rest w1))"

definition EnsureLoadBalancerDeleted ::
  "loadbalancer \<Rightarrow> string \<Rightarrow> Service \<Rightarrow> nat \<Rightarrow> world \<Rightarrow> error option \<times> world" where
  "EnsureLoadBalancerDeleted lb clusterName service polls w =
     (case fetchVpcLoadbalancerFromCloud lb clusterName service w of
        (Inl err, w1) \<Rightarrow> (Some err, w1)
      | (Inr None, w1) \<Rightarrow> (None, w1)
      | (Inr (Some vpcLoadbalancer), w1) \<Rightarrow>
          (case cleanupUnusedTargetGroups lb service vpcLoadbalancer [] w1 of
             (Some err, w2) \<Rightarrow> (Some err, w2)
           | (None, w2) \<Rightarrow>
               (case callDeleteLoadbalancer (lb_iaasClient lb) (vlb_Identity vpcLoadbalancer)
                       w2 of
                  (Some err, w3) \<Rightarrow> (Some err, w3)
                | (None, w3) \<Rightarrow>
                    (case pollUntilDeleted lb clusterName service polls w3 of
                       (Some err, w4) \<Rightarrow> (Some err, w4)
                     | (None, w4) \<Rightarrow>
                         (case callListTargetGroups (lb_iaasClient lb)
                                 [LabelFilter (GetLabelsForVpcLoadbalancer lb service)] w4 of
                            (Inl err, w5) \<Rightarrow> (Some err, w5)
                          | (Inr targetGroups, w5) \<Rightarrow>
                              (case deleteTargetGroupsLoop lb targetGroups w5 of
                                 (Some err, w6) \<Rightarrow> (Some err, w6)
                               | (None, w6) \<Rightarrow>
                                   (None, deleteManagedSecurityGroup lb service w6)))))))"

section \<open>Reference definitions and concrete inputs\<close>

text \<open>
  The definitions of this section are not code of the provider: they state what the
  functions of the provider are claimed to compute, describe dialogues with the cloud, and
  fix concrete inputs on which the theorems are instantiated.
\<close>

subsection \<open>What the functions are claimed to compute\<close>

text \<open>
  Deduplication that keeps the first occurrence of every string, and the valid CIDRs of an
  annotation value: the comma-separated entries, trimmed, without the empty ones and
  without those that \<open>net.ParseCIDR\<close> rejects.
\<close>

fun spec_dedup :: "string list \<Rightarrow> string list" where
  "spec_dedup [] = []"
| "spec_dedup (x # xs) = x # spec_dedup (filter (\<lambda>y. y \<noteq> x) xs)"

definition spec_validCIDRs :: "loadbalancer \<Rightarrow> string option \<Rightarrow> string list" where
  "spec_validCIDRs lb annotation =
     (case annotation of
        None \<Rightarrow> []
      | Some val \<Rightarrow>
          filter (\<lambda>entry. entry \<noteq> [] \<and> \<not> isl (net_ParseCIDR lb entry))
            (map TrimSpace (Split val '','')))"

text \<open>
  The node names that host an endpoint with ready not false and terminating not true (what
  the node filter keeps), and the node names that host an endpoint with ready true (what
  the watcher compares).
\<close>

definition spec_readyNodeNames :: "EndpointSlice list \<Rightarrow> string set" where
  "spec_readyNodeNames slices =
     set (List.map_filter
            (\<lambda>ep. if ep_Ready ep \<noteq> Some False \<and> ep_Terminating ep \<noteq> Some True
                  then ep_NodeName ep else None)
            (concat (map eps_Endpoints slices)))"

definition spec_readyNodes :: "EndpointSlice \<Rightarrow> string set" where
  "spec_readyNodes epSlice =
     set (List.map_filter (\<lambda>ep. if ep_Ready ep = Some True then ep_NodeName ep else None)
            (eps_Endpoints epSlice))"

subsection \<open>Predicates on the dialogue with the cloud\<close>

text \<open>
  The operation of an event, and \<open>appended A w0 w\<close>: the dialogue \<open>w\<close> is \<open>w0\<close> followed
  by events whose operations are all in \<open>A\<close>.
\<close>

datatype op =
    OpListLoadbalancers | OpGetVpc | OpCreateLoadbalancer | OpUpdateLoadbalancer
  | OpDeleteLoadbalancer | OpListSecurityGroups | OpCreateSecurityGroup
  | OpUpdateSecurityGroup | OpDeleteSecurityGroup | OpListTargetGroups
  | OpCreateTargetGroup | OpUpdateTargetGroup | OpDeleteTargetGroup
  | OpSetTargetGroupServerAttachments | OpListListeners | OpCreateListener
  | OpUpdateListener | OpDeleteListener

fun opOf :: "event \<Rightarrow> op" where
  "opOf (EvListLoadbalancers req r) = OpListLoadbalancers"
| "opOf (EvGetVpc identity r) = OpGetVpc"
| "opOf (EvCreateLoadbalancer req r) = OpCreateLoadbalancer"
| "opOf (EvUpdateLoadbalancer identity req r) = OpUpdateLoadbalancer"
| "opOf (EvDeleteLoadbalancer identity r) = OpDeleteLoadbalancer"
| "opOf (EvListSecurityGroups req r) = OpListSecurityGroups"
| "opOf (EvCreateSecurityGroup req r) = OpCreateSecurityGroup"
| "opOf (EvUpdateSecurityGroup identity req r) = OpUpdateSecurityGroup"
| "opOf (EvDeleteSecurityGroup identity r) = OpDeleteSecurityGroup"
| "opOf (EvListTargetGroups req r) = OpListTargetGroups"
| "opOf (EvCreateTargetGroup req r) = OpCreateTargetGroup"
| "opOf (EvUpdateTargetGroup req r) = OpUpdateTargetGroup"
| "opOf (EvDeleteTargetGroup identity r) = OpDeleteTargetGroup"
| "opOf (EvSetTargetGroupServerAttachments req r) = OpSetTargetGroupServerAttachments"
| "opOf (EvListListeners loadbalancer r) = OpListListeners"
| "opOf (EvCreateListener loadbalancer req r) = OpCreateListener"
| "opOf (EvUpdateListener loadbalancer listener req r) = OpUpdateListener"
| "opOf (EvDeleteListener loadbalancer listener r) = OpDeleteListener"

definition appended :: "op set \<Rightarrow> world \<Rightarrow> world \<Rightarrow> bool" where
  "appended A w0 w = (\<exists>es. w = w0 @ es \<and> list_all (\<lambda>e. opOf e \<in> A) es)"

text \<open>
  \<open>deletesJustified ok es\<close> reads the events \<open>es\<close> from left to right, \<open>ok\<close> being the
  identities that may be deleted at the start: a successful \<open>ListTargetGroups\<close> answer
  replaces \<open>ok\<close> by the identities of the listed target groups that have no listener, and
  a \<open>DeleteTargetGroup\<close> must name an identity of \<open>ok\<close>. \<open>lastListed\<close> is \<open>ok\<close> after
  the events; \<open>justifiedFrom n\<close> and \<open>listedFrom n\<close> read a dialogue from position \<open>n\<close>.
\<close>

fun deletesJustified :: "string list \<Rightarrow> event list \<Rightarrow> bool" where
  "deletesJustified ok [] = True"
| "deletesJustified ok (EvListTargetGroups req (Inr targetGroups) # es) =
     deletesJustified
       (map tg_Identity (filter (\<lambda>tg. tg_LoadbalancerListeners tg = []) targetGroups)) es"
| "deletesJustified ok (EvDeleteTargetGroup identity r # es) =
     (identity \<in> set ok \<and> deletesJustified ok es)"
| "deletesJustified ok (e # es) = deletesJustified ok es"

fun lastListed :: "string list \<Rightarrow> event list \<Rightarrow> string list" where
  "lastListed ok [] = ok"
| "lastListed ok (EvListTargetGroups req (Inr targetGroups) # es) =
     lastListed
       (map tg_Identity (filter (\<lambda>tg. tg_LoadbalancerListeners tg = []) targetGroups)) es"
| "lastListed ok (e # es) = lastListed ok es"

definition justifiedFrom :: "nat \<Rightarrow> string list \<Rightarrow> world \<Rightarrow> bool" where
  "justifiedFrom n ok w = (n \<le> length w \<and> deletesJustified ok (drop n w))"

definition listedFrom :: "nat \<Rightarrow> string list \<Rightarrow> world \<Rightarrow> string list" where
  "listedFrom n ok w = lastListed ok (drop n w)"

text \<open>
  The status claimed for a cloud load balancer: one ingress entry per non-empty external
  address, in order. \<open>spec_targetGroupOps\<close> is the sequence of operations of the
  target-group pass, from the desired and the listed target groups.
\<close>

definition spec_status :: "VpcLoadbalancer \<Rightarrow> LoadBalancerStatus" where
  "spec_status vpcLoadbalancer =
     \<lparr> lbs_Ingress =
         map (\<lambda>ip. \<lparr> ing_IP = ip, ing_Hostname = vlb_Hostname vpcLoadbalancer,
                      ing_IPMode = Some ''Proxy'' \<rparr>)
           (filter (\<lambda>ip. ip \<noteq> []) (vlb_ExternalIpAddresses vpcLoadbalancer)) \<rparr>"

definition spec_targetGroupOps ::
  "VpcLoadbalancerTargetGroup list \<Rightarrow> VpcLoadbalancerTargetGroup list \<Rightarrow> op list" where
  "spec_targetGroupOps desired existing =
     OpListTargetGroups
     # concat (map (\<lambda>d. if targetGroupKey d \<in> targetGroupKey ` set existing then []
                         else [OpCreateTargetGroup, OpSetTargetGroupServerAttachments]) desired)
     @ concat (map (\<lambda>t. if targetGroupKey t \<in> targetGroupKey ` set desired
                            \<and> tg_Identity t \<noteq> []
                         then [OpUpdateTargetGroup, OpSetTargetGroupServerAttachments]
                         else []) existing)"

text \<open>
  \<open>withInternal v service\<close> is \<open>service\<close> with the internal annotation set to \<open>v\<close>
  (removed when \<open>v\<close> is \<open>None\<close>). \<open>updatePreserves vlb\<close> holds of an event unless it is an
  update of a load balancer that changes the identity, name, description, labels or
  annotations of \<open>vlb\<close>; \<open>createSetsInternal service\<close> holds of an event unless it is a
  creation of a load balancer whose internal flag is not the parsed internal annotation of
  \<open>service\<close>; \<open>issuedSince n Q w\<close> says that \<open>Q\<close> holds of every event of \<open>w\<close> from
  position \<open>n\<close> on.
\<close>

definition withInternal :: "string option \<Rightarrow> Service \<Rightarrow> Service" where
  "withInternal v service =
     service \<lparr> svc_Annotations := (svc_Annotations service)(LoadbalancerAnnotationInternal := v) \<rparr>"

fun updatePreserves :: "VpcLoadbalancer \<Rightarrow> event \<Rightarrow> bool" where
  "updatePreserves vlb (EvUpdateLoadbalancer identity req r) =
     (identity = vlb_Identity vlb \<and> ulb_Name req = vlb_Name vlb
      \<and> ulb_Description req = vlb_Description vlb \<and> ulb_Labels req = vlb_Labels vlb
      \<and> ulb_Annotations req = vlb_Annotations vlb)"
| "updatePreserves vlb e = True"

fun createSetsInternal :: "Service \<Rightarrow> event \<Rightarrow> bool" where
  "createSetsInternal service (EvCreateLoadbalancer req r) =
     (clb_InternalLoadbalancer req
        = (case svc_Annotations service LoadbalancerAnnotationInternal of
             None \<Rightarrow> False
           | Some val \<Rightarrow> ParseBool val = Inr True))"
| "createSetsInternal service e = True"

definition issuedSince :: "nat \<Rightarrow> (event \<Rightarrow> bool) \<Rightarrow> world \<Rightarrow> bool" where
  "issuedSince n Q w = list_all Q (drop n w)"

subsection \<open>Concrete inputs\<close>

text \<open>
  A \<open>net.ParseCIDR\<close> that knows four networks; the Service \<open>svcA\<close> (one port named
  \<open>http\<close>, TCP 80 to node port 30000) with two nodes; the cloud objects that reconciling
  \<open>svcA\<close> leads to; and \<open>settledCloud\<close>, a cloud that holds exactly these objects and
  answers every call accordingly.
\<close>

definition tableParseCIDR :: "string \<Rightarrow> error + IP \<times> IPNet" where
  "tableParseCIDR s =
     (if s = ''10.0.0.0/8''
      then Inr ([10, 0, 0, 0], \<lparr> net_IP = [10, 0, 0, 0], net_Mask = [255, 0, 0, 0] \<rparr>)
      else if s = ''192.168.1.0/24''
      then Inr ([192, 168, 1, 0], \<lparr> net_IP = [192, 168, 1, 0], net_Mask = [255, 255, 255, 0] \<rparr>)
      else if s = ''172.16.0.0/12''
      then Inr ([172, 16, 0, 0], \<lparr> net_IP = [172, 16, 0, 0], net_Mask = [255, 240, 0, 0] \<rparr>)
      else if s = ''::/0''
      then Inr (replicate 16 0, \<lparr> net_IP = replicate 16 0, net_Mask = replicate 16 0 \<rparr>)
      else Inl (''invalid CIDR address: '' @ s))"

definition svcA :: Service where
  "svcA =
     \<lparr> svc_Name = ''web'', svc_Namespace = ''default'', svc_UID = ''uid-1'',
       svc_Annotations = Map.empty,
       svc_Ports = [\<lparr> sp_Name = ''http'', sp_Protocol = ''TCP'', sp_Port = 80,
                       sp_NodePort = 30000 \<rparr>],
       svc_ExternalTrafficPolicy = ''Cluster'',
       svc_HealthCheckNodePort = 0 \<rparr>"

definition nodesA :: "Node list" where
  "nodesA = [\<lparr> node_Name = ''node-1'', node_ProviderID = ''thalassa://srv-1'' \<rparr>,
             \<lparr> node_Name = ''node-2'', node_ProviderID = ''thalassa://srv-2'' \<rparr>]"

definition labelsA :: labels where
  "labelsA =
     [(''k8s.thalassa.cloud/kubernetes-cluster'', ''c1''),
      (''k8s.thalassa.cloud/cloud-provider-managed'', ''true''),
      (''k8s.thalassa.cloud/kubernetes-service-name'', ''web''),
      (''k8s.thalassa.cloud/kubernetes-service-namespace'', ''default''),
      (''k8s.thalassa.cloud/kubernetes-service-uid'', ''uid-1'')]"

definition tgLabelsA :: labels where
  "tgLabelsA =
     labelsA @ [(''k8s.thalassa.cloud/kubernetes-service-port'', ''80''),
                (''k8s.thalassa.cloud/kubernetes-service-protocol'', ''tcp'')]"

definition tgA :: VpcLoadbalancerTargetGroup where
  "tgA =
     \<lparr> tg_Identity = ''tg-1'', tg_Name = ''auid1-http'', tg_Description = [],
       tg_Protocol = ''tcp'', tg_TargetPort = 30000, tg_Labels = tgLabelsA,
       tg_Annotations = [], tg_HealthCheck = None, tg_EnableProxyProtocol = Some False,
       tg_LoadbalancingPolicy = Some ''ROUND_ROBIN'',
       tg_LoadbalancerListeners = [''lis-1''] \<rparr>"

definition lisA :: VpcLoadbalancerListener where
  "lisA =
     \<lparr> lis_Identity = ''lis-1'', lis_Name = ''auid1-http'',
       lis_Description = ''Listener for Kubernetes service web'', lis_Protocol = ''tcp'',
       lis_Port = 80, lis_TargetGroup = Some tgA, lis_Labels = tgLabelsA,
       lis_Annotations = [], lis_AllowedSources = [],
       lis_ConnectionIdleTimeout = Some 6000, lis_MaxConnections = Some 10000 \<rparr>"

definition vlbA :: VpcLoadbalancer where
  "vlbA =
     \<lparr> vlb_Identity = ''lb-1'', vlb_Name = ''auid1'',
       vlb_Description = ''Loadbalancer for Kubernetes service web'', vlb_Labels = labelsA,
       vlb_Annotations = [],
       vlb_Subnet = \<lparr> sub_Identity = ''subnet-1'', sub_Slug = ''main'' \<rparr>,
       vlb_SecurityGroups = [],
       vlb_ExternalIpAddresses = [''203.0.113.10'', [], ''2001:db8::10''],
       vlb_Hostname = ''lb-1.example'', vlb_Status = ''ready'',
       vlb_DeleteProtection = False \<rparr>"

definition sgA :: SecurityGroup where
  "sgA =
     \<lparr> sg_Identity = ''sg-1'', sg_Name = ''sg-web'', sg_Description = [],
       sg_Labels = labelsA, sg_ObjectVersion = 1 \<rparr>"

definition settledCloud :: iaasClient where
  "settledCloud =
     \<lparr> ListLoadbalancers = (\<lambda>w req. Inr [vlbA]),
       GetVpc = (\<lambda>w identity.
                  Inr (Some \<lparr> vpc_Subnets = [\<lparr> sub_Identity = ''subnet-1'',
                                                  sub_Slug = ''main'' \<rparr>] \<rparr>)),
       CreateLoadbalancer = (\<lambda>w req. Inr (Some vlbA)),
       UpdateLoadbalancer = (\<lambda>w identity req. Inr (Some vlbA)),
       DeleteLoadbalancer = (\<lambda>w identity. None),
       ListSecurityGroups = (\<lambda>w req. Inr []),
       CreateSecurityGroup = (\<lambda>w req. Inr (Some sgA)),
       UpdateSecurityGroup = (\<lambda>w identity req. Inr (Some sgA)),
       DeleteSecurityGroup = (\<lambda>w identity. None),
       ListTargetGroups = (\<lambda>w req. Inr [tgA]),
       CreateTargetGroup = (\<lambda>w req. Inr (Some tgA)),
       UpdateTargetGroup = (\<lambda>w req. Inr (Some tgA)),
       DeleteTargetGroup = (\<lambda>w identity. None),
       SetTargetGroupServerAttachments = (\<lambda>w req. None),
       ListListeners = (\<lambda>w loadbalancer. Inr [lisA]),
       CreateListener = (\<lambda>w loadbalancer req. Inr (Some lisA)),
       UpdateListener = (\<lambda>w loadbalancer listener req. Inr (Some lisA)),
       DeleteListener = (\<lambda>w loadbalancer listener. None) \<rparr>"

definition lbA :: loadbalancer where
  "lbA =
     \<lparr> lb_iaasClient = settledCloud, lb_additionalLabels = [], lb_vpcIdentity = ''vpc-1'',
       lb_defaultSubnet = ''subnet-1'', lb_cluster = ''c1'',
       lb_nodeFilter = \<lparr> epSliceLister = (\<lambda>namespace name. Inr []) \<rparr>,
       net_ParseCIDR = tableParseCIDR \<rparr>"

text \<open>
  The desired target group and listener of \<open>svcA\<close>, and the requests and events of one
  reconcile pass on \<open>settledCloud\<close>.
\<close>

definition desiredTgA :: VpcLoadbalancerTargetGroup where
  "desiredTgA = tgA \<lparr> tg_Identity := [], tg_LoadbalancerListeners := [] \<rparr>"

definition desiredLisA :: VpcLoadbalancerListener where
  "desiredLisA =
     lisA \<lparr> lis_Identity := [],
            lis_TargetGroup := Some (zeroTargetGroup \<lparr> tg_Name := ''http'' \<rparr>) \<rparr>"

definition tgFiltersA :: "Filter list" where
  "tgFiltersA = [FilterKeyValue ''vpc'' ''vpc-1'', LabelFilter labelsA]"

definition updateTgA :: UpdateTargetGroupRequest where
  "updateTgA =
     \<lparr> utgr_Identity = ''tg-1'',
       utgr_UpdateTargetGroup =
         \<lparr> utg_Name = ''auid1-http'', utg_Description = [], utg_Protocol = ''tcp'',
           utg_TargetPort = 30000, utg_Labels = tgLabelsA, utg_Annotations = [],
           utg_HealthCheck = None, utg_EnableProxyProtocol = Some False,
           utg_LoadbalancingPolicy = Some ''ROUND_ROBIN'' \<rparr> \<rparr>"

definition attachA :: TargetGroupAttachmentsBatch where
  "attachA =
     \<lparr> tgab_TargetGroupID = ''tg-1'',
       tgab_Attachments = [\<lparr> at_ServerIdentity = ''srv-1'' \<rparr>,
                           \<lparr> at_ServerIdentity = ''srv-2'' \<rparr>] \<rparr>"

definition updateLisA :: UpdateListener where
  "updateLisA =
     \<lparr> ul_Name = ''auid1-http'', ul_Description = ''Listener for Kubernetes service web'',
       ul_Labels = tgLabelsA, ul_Annotations = [], ul_Port = 80, ul_Protocol = ''tcp'',
       ul_TargetGroup = ''tg-1'', ul_ConnectionIdleTimeout = Some 6000,
       ul_MaxConnections = Some 10000, ul_AllowedSources = [] \<rparr>"

definition passA :: "event list" where
  "passA =
     [EvListTargetGroups tgFiltersA (Inr [tgA]),
      EvUpdateTargetGroup updateTgA (Inr (Some tgA)),
      EvSetTargetGroupServerAttachments attachA None,
      EvListListeners ''lb-1'' (Inr [lisA]),
      EvUpdateListener ''lb-1'' ''lis-1'' updateLisA (Inr (Some lisA)),
      EvListTargetGroups tgFiltersA (Inr [tgA])]"

text \<open>
  \<open>freshCloud\<close> is a cloud without a load balancer for \<open>svcA\<close>: it lists none until a
  creation has been issued and \<open>vlbA\<close> afterwards, answers the creation with
  \<open>vlbPending\<close> (still provisioning, no address), and lists the target group and the
  listener once they have been created. \<open>freshDialogue\<close> is the dialogue of
  \<open>EnsureLoadBalancer\<close> with this cloud.
\<close>

definition issued :: "op \<Rightarrow> world \<Rightarrow> bool" where
  "issued operation w = list_ex (\<lambda>e. opOf e = operation) w"

definition vlbPending :: VpcLoadbalancer where
  "vlbPending = vlbA \<lparr> vlb_ExternalIpAddresses := [], vlb_Status := ''provisioning'' \<rparr>"

definition tgNew :: VpcLoadbalancerTargetGroup where
  "tgNew = tgA \<lparr> tg_LoadbalancerListeners := [] \<rparr>"

definition freshCloud :: iaasClient where
  "freshCloud =
     settledCloud
       \<lparr> ListLoadbalancers :=
           (\<lambda>w req. if issued OpCreateLoadbalancer w then Inr [vlbA] else Inr []),
         CreateLoadbalancer := (\<lambda>w req. Inr (Some vlbPending)),
         ListTargetGroups :=
           (\<lambda>w req. if issued OpCreateListener w then Inr [tgA]
                     else if issued OpCreateTargetGroup w then Inr [tgNew] else Inr []),
         CreateTargetGroup := (\<lambda>w req. Inr (Some tgNew)),
         ListListeners :=
           (\<lambda>w loadbalancer. if issued OpCreateListener w then Inr [lisA] else Inr []) \<rparr>"

definition lbFresh :: loadbalancer where
  "lbFresh = lbA \<lparr> lb_iaasClient := freshCloud \<rparr>"

definition createLbA :: CreateLoadbalancer where
  "createLbA =
     \<lparr> clb_Name = ''auid1'', clb_Description = ''Loadbalancer for Kubernetes service web'',
       clb_Labels = labelsA, clb_Annotations = [], clb_Subnet = ''subnet-1'',
       clb_InternalLoadbalancer = False, clb_SecurityGroupAttachments = [] \<rparr>"

definition createTgA :: CreateTargetGroup where
  "createTgA =
     \<lparr> ctg_Vpc = ''vpc-1'', ctg_Name = ''auid1-http'', ctg_Description = [],
       ctg_Protocol = ''tcp'', ctg_TargetPort = 30000, ctg_Labels = tgLabelsA,
       ctg_Annotations = [], ctg_HealthCheck = None, ctg_EnableProxyProtocol = Some False,
       ctg_LoadbalancingPolicy = Some ''ROUND_ROBIN'' \<rparr>"

definition createLisA :: CreateListener where
  "createLisA =
     \<lparr> cl_Name = ''auid1-http'', cl_Description = ''Listener for Kubernetes service web'',
       cl_Labels = tgLabelsA, cl_Annotations = [], cl_Port = 80, cl_Protocol = ''tcp'',
       cl_TargetGroup = ''tg-1'', cl_AllowedSources = [],
       cl_ConnectionIdleTimeout = Some 6000, cl_MaxConnections = Some 10000 \<rparr>"

definition freshDialogue :: "event list" where
  "freshDialogue =
     [EvListLoadbalancers [FilterKeyValue ''vpc'' ''vpc-1''] (Inr []),
      EvGetVpc ''vpc-1''
        (Inr (Some \<lparr> vpc_Subnets = [\<lparr> sub_Identity = ''subnet-1'', sub_Slug = ''main'' \<rparr>] \<rparr>)),
      EvCreateLoadbalancer createLbA (Inr (Some vlbPending)),
      EvListTargetGroups tgFiltersA (Inr []),
      EvCreateTargetGroup createTgA (Inr (Some tgNew)),
      EvSetTargetGroupServerAttachments attachA None,
      EvListListeners ''lb-1'' (Inr []),
      EvCreateListener ''lb-1'' createLisA (Inr (Some lisA)),
      EvListTargetGroups tgFiltersA (Inr [tgA]),
      EvListLoadbalancers [FilterKeyValue ''vpc'' ''vpc-1''] (Inr [vlbA])]"

text \<open>
  Variants of \<open>svcA\<close> and further inputs for the individual claims.
\<close>

definition svcBadPolicy :: Service where
  "svcBadPolicy =
     svcA \<lparr> svc_Annotations :=
              [LoadbalancerAnnotationLoadbalancingPolicy \<mapsto> ''INVALID_POLICY''] \<rparr>"

definition svcAcl :: Service where
  "svcAcl =
     svcA \<lparr> svc_Annotations :=
              [''loadbalancer.k8s.thalassa.cloud/acl-allowed-sources''
                 \<mapsto> ''10.0.0.0/8,192.168.1.0/24'',
               ''loadbalancer.k8s.thalassa.cloud/acl-port-http''
                 \<mapsto> '' 172.16.0.0/12 ,10.0.0.0/8'',
               ''loadbalancer.k8s.thalassa.cloud/acl-port-80''
                 \<mapsto> ''invalid-cidr,,'' @ [CHR 0xC2, CHR 0xA0] @ ''::/0''
                     @ [CHR 0xE3, CHR 0x80, CHR 0x80]] \<rparr>"

definition watcherA :: EndpointSliceWatcher where
  "watcherA = \<lparr> localTrafficServices = {''default/web''} \<rparr>"

definition epReady :: "string \<Rightarrow> Endpoint" where
  "epReady nodeName = \<lparr> ep_NodeName = Some nodeName, ep_Ready = Some True,
                         ep_Terminating = Some False \<rparr>"

definition epNotReady :: "string \<Rightarrow> Endpoint" where
  "epNotReady nodeName = \<lparr> ep_NodeName = Some nodeName, ep_Ready = Some False,
                            ep_Terminating = Some False \<rparr>"

definition epTerminating :: "string \<Rightarrow> Endpoint" where
  "epTerminating nodeName = \<lparr> ep_NodeName = Some nodeName, ep_Ready = None,
                               ep_Terminating = Some True \<rparr>"

definition sliceOf :: "string \<Rightarrow> Endpoint list \<Rightarrow> EndpointSlice" where
  "sliceOf serviceName endpoints =
     \<lparr> eps_Name = serviceName @ ''-abcde'', eps_Namespace = ''default'',
       eps_Labels = [''kubernetes.io/service-name'' \<mapsto> serviceName],
       eps_Endpoints = endpoints \<rparr>"

definition svcLocal :: Service where
  "svcLocal = svcA \<lparr> svc_ExternalTrafficPolicy := ''Local'' \<rparr>"

definition filterA :: NodeFilter where
  "filterA =
     \<lparr> epSliceLister =
         (\<lambda>namespace name.
            if namespace = ''default'' \<and> name = ''web''
            then Inr [sliceOf ''web'' [epReady ''node-2'', epNotReady ''node-1'',
                                       epTerminating ''node-1'',
                                       \<lparr> ep_NodeName = None, ep_Ready = Some True,
                                         ep_Terminating = None \<rparr>]]
            else Inr []) \<rparr>"

definition lisTwoSources :: VpcLoadbalancerListener where
  "lisTwoSources = lisA \<lparr> lis_AllowedSources := [''10.0.0.0/8'', ''::/0''] \<rparr>"

definition statusA :: LoadBalancerStatus where
  "statusA =
     \<lparr> lbs_Ingress =
         [\<lparr> ing_IP = ''203.0.113.10'', ing_Hostname = ''lb-1.example'',
            ing_IPMode = Some ''Proxy'' \<rparr>,
          \<lparr> ing_IP = ''2001:db8::10'', ing_Hostname = ''lb-1.example'',
            ing_IPMode = Some ''Proxy'' \<rparr>] \<rparr>"




definition firstPassA :: "event list" where
  "firstPassA = EvListLoadbalancers [FilterKeyValue ''vpc'' ''vpc-1''] (Inr [vlbA]) # passA"

definition tgOld :: VpcLoadbalancerTargetGroup where
  "tgOld = tgA \<lparr> tg_Identity := ''tg-old'', tg_TargetPort := 31000,
                 tg_LoadbalancerListeners := [] \<rparr>"

definition tgBusy :: VpcLoadbalancerTargetGroup where
  "tgBusy = tgA \<lparr> tg_Identity := ''tg-busy'', tg_TargetPort := 32000,
                  tg_LoadbalancerListeners := [''lis-9''] \<rparr>"

definition lbThree :: loadbalancer where
  "lbThree =
     lbA \<lparr> lb_iaasClient :=
             settledCloud \<lparr> ListTargetGroups := (\<lambda>w req. Inr [tgA, tgOld, tgBusy]) \<rparr> \<rparr>"

section \<open>Auxiliary lemmas\<close>

subsection \<open>The loops of the allowed sources as list functions\<close>

lemma spec_dedup_filter: "spec_dedup (filter P xs) = filter P (spec_dedup xs)"
proof (induction xs rule: spec_dedup.induct)
  case 1
  show ?case by simp
next
  case (2 x xs)
  have comm: "filter (\<lambda>y. y \<noteq> x) (filter P xs) = filter P (filter (\<lambda>y. y \<noteq> x) xs)"
    by (simp add: conj_commute)
  show ?case
  proof (cases "P x")
    case True
    then show ?thesis using 2 comm by simp
  next
    case False
    then have "filter P (filter (\<lambda>y. y \<noteq> x) xs) = filter P xs"
      by (auto intro: filter_cong)
    then show ?thesis using 2 False by simp
  qed
qed

lemma spec_dedup_append:
  "spec_dedup (xs @ ys) = spec_dedup xs @ spec_dedup (filter (\<lambda>y. y \<notin> set xs) ys)"
proof (induction xs arbitrary: ys rule: spec_dedup.induct)
  case 1
  show ?case by simp
next
  case (2 x xs)
  let ?f = "filter (\<lambda>y. y \<noteq> x)"
  have e: "filter (\<lambda>y. y \<notin> set (?f xs)) (?f ys) = ?f (filter (\<lambda>y. y \<notin> set (x # xs)) ys)"
    by (auto intro: filter_cong)
  have "spec_dedup ((x # xs) @ ys) = x # spec_dedup (?f xs @ ?f ys)"
    by simp
  also have "\<dots> = x # spec_dedup (?f xs) @ spec_dedup (filter (\<lambda>y. y \<notin> set (?f xs)) (?f ys))"
    using 2[of "?f ys"] by simp
  also have "\<dots> = x # spec_dedup (?f xs) @ spec_dedup (?f (filter (\<lambda>y. y \<notin> set (x # xs)) ys))"
    by (simp only: e)
  also have "\<dots> = x # spec_dedup (?f xs) @ ?f (spec_dedup (filter (\<lambda>y. y \<notin> set (x # xs)) ys))"
    by (simp only: spec_dedup_filter)
  also have "?f (spec_dedup (filter (\<lambda>y. y \<notin> set (x # xs)) ys))
             = spec_dedup (filter (\<lambda>y. y \<notin> set (x # xs)) ys)"
  proof -
    have "?f (filter (\<lambda>y. y \<notin> set (x # xs)) ys) = filter (\<lambda>y. y \<notin> set (x # xs)) ys"
      by (auto intro: filter_cong)
    then show ?thesis by (metis spec_dedup_filter)
  qed
  finally show ?case by simp
qed

lemma spec_dedup_idem: "spec_dedup (spec_dedup xs) = spec_dedup xs"
proof (induction xs rule: spec_dedup.induct)
  case 1
  show ?case by simp
next
  case (2 x xs)
  have "filter (\<lambda>y. y \<noteq> x) (spec_dedup (filter (\<lambda>y. y \<noteq> x) xs)) = spec_dedup (filter (\<lambda>y. y \<noteq> x) xs)"
    by (simp add: spec_dedup_filter[symmetric])
  then show ?case using 2 by simp
qed

lemma spec_dedup_append_dedup: "spec_dedup (xs @ spec_dedup ys) = spec_dedup (xs @ ys)"
proof -
  have "spec_dedup (filter (\<lambda>y. y \<notin> set xs) (spec_dedup ys))
        = spec_dedup (filter (\<lambda>y. y \<notin> set xs) ys)"
    by (metis spec_dedup_filter spec_dedup_idem)
  then show ?thesis by (simp only: spec_dedup_append[of xs])
qed

lemma removeDuplicateStringsLoop_eq:
  "removeDuplicateStringsLoop keys result input
     = result @ spec_dedup (filter (\<lambda>x. x \<notin> keys) input)"
proof (induction input arbitrary: keys result)
  case Nil
  show ?case by simp
next
  case (Cons item input)
  have "filter (\<lambda>x. x \<notin> insert item keys) input
        = filter (\<lambda>y. y \<noteq> item) (filter (\<lambda>x. x \<notin> keys) input)"
    by (auto intro: filter_cong)
  then show ?case using Cons by simp
qed

lemma removeDuplicateStrings_eq: "removeDuplicateStrings lb input = spec_dedup input"
  by (simp add: removeDuplicateStrings_def removeDuplicateStringsLoop_eq)

lemma parseAclSourcesLoop_eq:
  "parseAclSourcesLoop lb validSources sources
     = validSources @ filter (\<lambda>entry. entry \<noteq> [] \<and> \<not> isl (net_ParseCIDR lb entry))
                        (map TrimSpace sources)"
  by (induction sources arbitrary: validSources) (auto simp: Let_def split: sum.splits)

lemma parseAclSources_eq: "parseAclSources lb val = spec_validCIDRs lb (Some val)"
  by (simp add: parseAclSources_def parseAclSourcesLoop_eq spec_validCIDRs_def)

lemma getPerPortAclAllowedSources_eq:
  "getPerPortAclAllowedSources lb service port
     = spec_dedup
         ((if sp_Name port \<noteq> []
           then spec_validCIDRs lb (svc_Annotations service
                  (LoadbalancerAnnotationAclAllowedSourcesPort @ ''-'' @ sp_Name port))
           else [])
          @ spec_validCIDRs lb (svc_Annotations service
              (LoadbalancerAnnotationAclAllowedSourcesPort @ ''-''
                 @ Sprintd (sint (sp_Port port)))))"
  by (simp add: getPerPortAclAllowedSources_def removeDuplicateStrings_eq parseAclSources_eq
        Let_def spec_validCIDRs_def split: option.splits)

subsection \<open>The desired target groups\<close>


subsection \<open>Node filter and watcher: the sets the loops collect\<close>

lemma set_map_filter: "set (List.map_filter g xs) = {y. \<exists>x \<in> set xs. g x = Some y}"
  by (induction xs) (auto split: option.splits)

lemma spec_readyNodeNames_iff:
  "spec_readyNodeNames slices =
     {nodeName. \<exists>sl \<in> set slices. \<exists>ep \<in> set (eps_Endpoints sl).
        ep_NodeName ep = Some nodeName \<and> ep_Ready ep \<noteq> Some False
        \<and> ep_Terminating ep \<noteq> Some True}"
  unfolding spec_readyNodeNames_def set_map_filter
  by (auto split: if_splits)

lemma readyNodesOfEndpoints_eq:
  "readyNodesOfEndpoints readyNodes eps
     = readyNodes \<union> {nodeName. \<exists>ep \<in> set eps. ep_NodeName ep = Some nodeName
                        \<and> ep_Ready ep \<noteq> Some False \<and> ep_Terminating ep \<noteq> Some True}"
  by (induction eps arbitrary: readyNodes) (auto split: option.splits)

lemma readyNodesOfSlices_eq:
  "readyNodesOfSlices readyNodes slices = readyNodes \<union> spec_readyNodeNames slices"
  by (induction slices arbitrary: readyNodes)
     (auto simp: readyNodesOfEndpoints_eq spec_readyNodeNames_iff)

lemma filterLoop_eq:
  "filterLoop readyNodes filtered nodes
     = filtered @ filter (\<lambda>n. node_Name n \<in> readyNodes) nodes"
  by (induction nodes arbitrary: filtered) simp_all

lemma spec_readyNodes_iff:
  "spec_readyNodes epSlice =
     {nodeName. \<exists>ep \<in> set (eps_Endpoints epSlice).
        ep_NodeName ep = Some nodeName \<and> ep_Ready ep = Some True}"
  unfolding spec_readyNodes_def set_map_filter
  by (auto split: if_splits)

lemma collectNodes_eq:
  "collectNodes nodes eps
     = nodes \<union> {nodeName. \<exists>ep \<in> set eps. ep_NodeName ep = Some nodeName
                   \<and> ep_Ready ep = Some True}"
  by (induction eps arbitrary: nodes) (auto split: option.splits)

lemma finite_spec_readyNodes: "finite (spec_readyNodes epSlice)"
proof -
  have "spec_readyNodes epSlice \<subseteq> (\<lambda>ep. the (ep_NodeName ep)) ` set (eps_Endpoints epSlice)"
    by (force simp: spec_readyNodes_iff)
  then show ?thesis by (rule finite_subset) simp
qed

lemma hasNodeAssignmentChanged_eq:
  "hasNodeAssignmentChanged w oldEpSlice newEpSlice
     = (spec_readyNodes oldEpSlice \<noteq> spec_readyNodes newEpSlice)"
proof -
  let ?A = "spec_readyNodes oldEpSlice" and ?B = "spec_readyNodes newEpSlice"
  have "(card ?A \<noteq> card ?B \<or> (\<exists>n \<in> ?A. n \<notin> ?B)) = (?A \<noteq> ?B)"
  proof
    assume "card ?A \<noteq> card ?B \<or> (\<exists>n \<in> ?A. n \<notin> ?B)"
    then show "?A \<noteq> ?B" by auto
  next
    assume ne: "?A \<noteq> ?B"
    show "card ?A \<noteq> card ?B \<or> (\<exists>n \<in> ?A. n \<notin> ?B)"
    proof (rule ccontr)
      assume "\<not> ?thesis"
      then have "card ?A = card ?B" and "?A \<subseteq> ?B" by auto
      then have "?A = ?B"
        using card_subset_eq[OF finite_spec_readyNodes] by metis
      with ne show False by simp
    qed
  qed
  moreover have cA: "collectNodes {} (eps_Endpoints oldEpSlice) = ?A"
    and cB: "collectNodes {} (eps_Endpoints newEpSlice) = ?B"
    by (simp_all add: collectNodes_eq spec_readyNodes_iff)
  have "hasNodeAssignmentChanged w oldEpSlice newEpSlice
          = (card ?A \<noteq> card ?B \<or> (\<exists>n \<in> ?A. n \<notin> ?B))"
    unfolding hasNodeAssignmentChanged_def Let_def cA cB by simp
  ultimately show ?thesis by simp
qed

subsection \<open>Which cloud operations each function can issue\<close>

lemma appended_refl: "appended A w w"
  by (simp add: appended_def)

lemma appended_step: "appended A w0 w \<Longrightarrow> opOf e \<in> A \<Longrightarrow> appended A w0 (w @ [e])"
  by (auto simp: appended_def)

lemma appended_trans: "appended A w0 w1 \<Longrightarrow> appended A w1 w2 \<Longrightarrow> appended A w0 w2"
  by (auto simp: appended_def)

lemma appended_mono: "appended A w0 w \<Longrightarrow> A \<subseteq> B \<Longrightarrow> appended B w0 w"
  by (auto simp: appended_def list_all_iff)

lemmas call_defs =
  callListLoadbalancers_def callGetVpc_def callCreateLoadbalancer_def
  callUpdateLoadbalancer_def callDeleteLoadbalancer_def callListSecurityGroups_def
  callCreateSecurityGroup_def callUpdateSecurityGroup_def callDeleteSecurityGroup_def
  callListTargetGroups_def callCreateTargetGroup_def callUpdateTargetGroup_def
  callDeleteTargetGroup_def callSetTargetGroupServerAttachments_def callListListeners_def
  callCreateListener_def callUpdateListener_def callDeleteListener_def

lemma call_fp:
  "callListLoadbalancers c fs w = (r1, w') \<Longrightarrow> appended A w0 w \<Longrightarrow> OpListLoadbalancers \<in> A \<Longrightarrow> appended A w0 w'"
  "callGetVpc c i w = (r2, w') \<Longrightarrow> appended A w0 w \<Longrightarrow> OpGetVpc \<in> A \<Longrightarrow> appended A w0 w'"
  "callCreateLoadbalancer c q3 w = (r3, w') \<Longrightarrow> appended A w0 w \<Longrightarrow> OpCreateLoadbalancer \<in> A \<Longrightarrow> appended A w0 w'"
  "callUpdateLoadbalancer c i q4 w = (r4, w') \<Longrightarrow> appended A w0 w \<Longrightarrow> OpUpdateLoadbalancer \<in> A \<Longrightarrow> appended A w0 w'"
  "callDeleteLoadbalancer c i w = (r5, w') \<Longrightarrow> appended A w0 w \<Longrightarrow> OpDeleteLoadbalancer \<in> A \<Longrightarrow> appended A w0 w'"
  "callListSecurityGroups c fs w = (r6, w') \<Longrightarrow> appended A w0 w \<Longrightarrow> OpListSecurityGroups \<in> A \<Longrightarrow> appended A w0 w'"
  "callCreateSecurityGroup c q7 w = (r7, w') \<Longrightarrow> appended A w0 w \<Longrightarrow> OpCreateSecurityGroup \<in> A \<Longrightarrow> appended A w0 w'"
  "callUpdateSecurityGroup c i q8 w = (r8, w') \<Longrightarrow> appended A w0 w \<Longrightarrow> OpUpdateSecurityGroup \<in> A \<Longrightarrow> appended A w0 w'"
  "callDeleteSecurityGroup c i w = (r9, w') \<Longrightarrow> appended A w0 w \<Longrightarrow> OpDeleteSecurityGroup \<in> A \<Longrightarrow> appended A w0 w'"
  "callListTargetGroups c fs w = (r10, w') \<Longrightarrow> appended A w0 w \<Longrightarrow> OpListTargetGroups \<in> A \<Longrightarrow> appended A w0 w'"
  "callCreateTargetGroup c q11 w = (r11, w') \<Longrightarrow> appended A w0 w \<Longrightarrow> OpCreateTargetGroup \<in> A \<Longrightarrow> appended A w0 w'"
  "callUpdateTargetGroup c q12 w = (r12, w') \<Longrightarrow> appended A w0 w \<Longrightarrow> OpUpdateTargetGroup \<in> A \<Longrightarrow> appended A w0 w'"
  "callDeleteTargetGroup c i w = (r13, w') \<Longrightarrow> appended A w0 w \<Longrightarrow> OpDeleteTargetGroup \<in> A \<Longrightarrow> appended A w0 w'"
  "callSetTargetGroupServerAttachments c q14 w = (r14, w') \<Longrightarrow> appended A w0 w \<Longrightarrow> OpSetTargetGroupServerAttachments \<in> A \<Longrightarrow> appended A w0 w'"
  "callListListeners c i w = (r15, w') \<Longrightarrow> appended A w0 w \<Longrightarrow> OpListListeners \<in> A \<Longrightarrow> appended A w0 w'"
  "callCreateListener c i q16 w = (r16, w') \<Longrightarrow> appended A w0 w \<Longrightarrow> OpCreateListener \<in> A \<Longrightarrow> appended A w0 w'"
  "callUpdateListener c i j q17 w = (r17, w') \<Longrightarrow> appended A w0 w \<Longrightarrow> OpUpdateListener \<in> A \<Longrightarrow> appended A w0 w'"
  "callDeleteListener c i j w = (r18, w') \<Longrightarrow> appended A w0 w \<Longrightarrow> OpDeleteListener \<in> A \<Longrightarrow> appended A w0 w'"
  by (auto simp: call_defs Let_def intro: appended_step)

lemma fetch_fp:
  "fetchVpcLoadbalancerFromCloud lb cn service w = (r, w') \<Longrightarrow> appended A w0 w
   \<Longrightarrow> OpListLoadbalancers \<in> A \<Longrightarrow> appended A w0 w'"
  unfolding fetchVpcLoadbalancerFromCloud_def Let_def
  by (auto split: prod.splits sum.splits option.splits if_splits dest: call_fp)

lemma verify_fp:
  "verifySecurityGroupsExist lb sgs w = (r, w') \<Longrightarrow> appended A w0 w
   \<Longrightarrow> OpListSecurityGroups \<in> A \<Longrightarrow> appended A w0 w'"
  unfolding verifySecurityGroupsExist_def Let_def
  by (auto split: prod.splits sum.splits option.splits if_splits dest: call_fp)

lemma findManaged_fp:
  "findManagedSecurityGroup lb service w = (r, w') \<Longrightarrow> appended A w0 w
   \<Longrightarrow> OpListSecurityGroups \<in> A \<Longrightarrow> appended A w0 w'"
  unfolding findManagedSecurityGroup_def Let_def
  by (auto split: prod.splits sum.splits option.splits if_splits dest: call_fp)

lemma ensureManaged_fp:
  "ensureManagedSecurityGroup lb service dl w = (r, w') \<Longrightarrow> appended A w0 w
   \<Longrightarrow> {OpListSecurityGroups, OpCreateSecurityGroup, OpUpdateSecurityGroup} \<subseteq> A
   \<Longrightarrow> appended A w0 w'"
  unfolding ensureManagedSecurityGroup_def Let_def
  by (auto split: prod.splits sum.splits option.splits if_splits dest: call_fp findManaged_fp)

lemma deleteManaged_fp:
  "deleteManagedSecurityGroup lb service w = w' \<Longrightarrow> appended A w0 w
   \<Longrightarrow> {OpListSecurityGroups, OpDeleteSecurityGroup} \<subseteq> A
   \<Longrightarrow> appended A w0 w'"
  unfolding deleteManagedSecurityGroup_def Let_def
  by (auto split: prod.splits sum.splits option.splits if_splits dest: call_fp findManaged_fp
      simp: callDeleteSecurityGroup_def Let_def intro: appended_step)

lemma upgrade_fp:
  "upgradeTargetGroupAttachments l tg nodes w = (r, w') \<Longrightarrow> appended A w0 w
   \<Longrightarrow> OpSetTargetGroupServerAttachments \<in> A \<Longrightarrow> appended A w0 w'"
  unfolding upgradeTargetGroupAttachments_def Let_def
  by (auto split: prod.splits sum.splits option.splits if_splits dest: call_fp)

lemma createMissingTargetGroups_fp:
  "createMissingTargetGroups l m nodes tgs ds w = (r, w') \<Longrightarrow> appended A w0 w
   \<Longrightarrow> {OpCreateTargetGroup, OpSetTargetGroupServerAttachments} \<subseteq> A
   \<Longrightarrow> appended A w0 w'"
proof (induction ds arbitrary: tgs w)
  case Nil
  then show ?case by simp
next
  case (Cons d ds)
  then show ?case
    by (auto split: prod.splits sum.splits option.splits if_splits dest: call_fp upgrade_fp)
qed

lemma updateExistingTargetGroups_fp:
  "updateExistingTargetGroups l m nodes tgs ex w = (r, w') \<Longrightarrow> appended A w0 w
   \<Longrightarrow> {OpUpdateTargetGroup, OpSetTargetGroupServerAttachments} \<subseteq> A
   \<Longrightarrow> appended A w0 w'"
proof (induction ex arbitrary: tgs w)
  case Nil
  then show ?case by simp
next
  case (Cons d ds)
  then show ?case
    by (auto split: prod.splits sum.splits option.splits if_splits dest: call_fp upgrade_fp)
qed

lemma createOrUpdateTargetGroups_fp:
  "createOrUpdateTargetGroups l service vlb desired nodes w = (r, w') \<Longrightarrow> appended A w0 w
   \<Longrightarrow> {OpListTargetGroups, OpCreateTargetGroup, OpUpdateTargetGroup,
        OpSetTargetGroupServerAttachments} \<subseteq> A
   \<Longrightarrow> appended A w0 w'"
  unfolding createOrUpdateTargetGroups_def Let_def
  by (auto split: prod.splits sum.splits option.splits if_splits
      dest: call_fp createMissingTargetGroups_fp updateExistingTargetGroups_fp)

lemma updateOrDeleteListeners_fp:
  "updateOrDeleteListeners lb service vlb m tgs ex w = (r, w') \<Longrightarrow> appended A w0 w
   \<Longrightarrow> {OpUpdateListener, OpDeleteListener} \<subseteq> A
   \<Longrightarrow> appended A w0 w'"
proof (induction ex arbitrary: w)
  case Nil
  then show ?case by simp
next
  case (Cons d ds)
  then show ?case
    by (auto simp: Let_def split: prod.splits sum.splits option.splits if_splits dest: call_fp)
qed

lemma createMissingListeners_fp:
  "createMissingListeners lb service vlb m tgs ds w = (r, w') \<Longrightarrow> appended A w0 w
   \<Longrightarrow> OpCreateListener \<in> A
   \<Longrightarrow> appended A w0 w'"
proof (induction ds arbitrary: w)
  case Nil
  then show ?case by simp
next
  case (Cons d ds)
  then show ?case
    by (auto simp: Let_def split: prod.splits sum.splits option.splits if_splits dest: call_fp)
qed

lemma updateVpcLoadbalancerListener_fp:
  "updateVpcLoadbalancerListener lb service vlb dl tgs w = (r, w') \<Longrightarrow> appended A w0 w
   \<Longrightarrow> {OpListListeners, OpCreateListener, OpUpdateListener, OpDeleteListener} \<subseteq> A
   \<Longrightarrow> appended A w0 w'"
  unfolding updateVpcLoadbalancerListener_def Let_def
  by (auto split: prod.splits sum.splits option.splits if_splits
      dest: call_fp updateOrDeleteListeners_fp createMissingListeners_fp)

lemma updateVpcLoadbalancer_fp:
  "updateVpcLoadbalancer lb service vlb dl w = (r, w') \<Longrightarrow> appended A w0 w
   \<Longrightarrow> {OpListSecurityGroups, OpCreateSecurityGroup, OpUpdateSecurityGroup,
        OpUpdateLoadbalancer} \<subseteq> A
   \<Longrightarrow> appended A w0 w'"
  unfolding updateVpcLoadbalancer_def Let_def
  by (auto split: prod.splits sum.splits option.splits if_splits
      dest: call_fp verify_fp ensureManaged_fp)

lemma pollUntilDeleted_fp:
  "pollUntilDeleted lb cn service polls w = (r, w') \<Longrightarrow> appended A w0 w
   \<Longrightarrow> OpListLoadbalancers \<in> A \<Longrightarrow> appended A w0 w'"
proof (induction polls arbitrary: w)
  case 0
  then show ?case by simp
next
  case (Suc polls)
  then show ?case
    by (auto split: prod.splits sum.splits option.splits dest: fetch_fp)
qed

subsection \<open>Deletions of target groups follow a listing without listeners\<close>

lemma deletesJustified_append:
  "deletesJustified ok (w @ es) = (deletesJustified ok w \<and> deletesJustified (lastListed ok w) es)"
  by (induction ok w rule: deletesJustified.induct) simp_all

lemma lastListed_append: "lastListed ok (w @ es) = lastListed (lastListed ok w) es"
  by (induction ok w rule: lastListed.induct) simp_all

lemma deletesJustified_no_delete:
  "list_all (\<lambda>e. opOf e \<noteq> OpDeleteTargetGroup) es \<Longrightarrow> deletesJustified ok es"
  by (induction ok es rule: deletesJustified.induct) simp_all

lemma justifiedFrom_self: "justifiedFrom (length w) ok w"
  by (simp add: justifiedFrom_def)

lemma justifiedFrom_append:
  "justifiedFrom n ok w \<Longrightarrow>
   justifiedFrom n ok (w @ es) = deletesJustified (listedFrom n ok w) es"
  by (simp add: justifiedFrom_def listedFrom_def deletesJustified_append)

lemma listedFrom_append:
  "justifiedFrom n ok w \<Longrightarrow> listedFrom n ok (w @ es) = lastListed (listedFrom n ok w) es"
  by (simp add: justifiedFrom_def listedFrom_def lastListed_append)

lemma appended_justifiedFrom:
  "appended A w w' \<Longrightarrow> OpDeleteTargetGroup \<notin> A \<Longrightarrow> justifiedFrom n ok w
   \<Longrightarrow> justifiedFrom n ok w'"
proof -
  assume a: "appended A w w'" and n: "OpDeleteTargetGroup \<notin> A" and d: "justifiedFrom n ok w"
  from a obtain es where es: "w' = w @ es" "list_all (\<lambda>e. opOf e \<in> A) es"
    by (auto simp: appended_def)
  from es(2) n have "list_all (\<lambda>e. opOf e \<noteq> OpDeleteTargetGroup) es"
    by (auto simp: list_all_iff)
  then show ?thesis using d es(1)
    by (simp add: justifiedFrom_append deletesJustified_no_delete)
qed

lemma cleanupLoop_justified:
  "cleanupLoop l m rest w = (r, w') \<Longrightarrow> justifiedFrom n ok w
   \<Longrightarrow> set (map tg_Identity (filter (\<lambda>tg. tg_LoadbalancerListeners tg = []) rest))
        \<subseteq> set (listedFrom n ok w)
   \<Longrightarrow> justifiedFrom n ok w'"
proof (induction rest arbitrary: w)
  case Nil
  then show ?case by simp
next
  case (Cons tg rest)
  then show ?case
    by (auto simp: callDeleteTargetGroup_def Let_def justifiedFrom_append listedFrom_append
        split: prod.splits option.splits if_splits)
qed

lemma cleanupUnusedTargetGroups_justified:
  "cleanupUnusedTargetGroups l service vlb desired w = (r, w') \<Longrightarrow> justifiedFrom n ok w
   \<Longrightarrow> justifiedFrom n ok w'"
  unfolding cleanupUnusedTargetGroups_def callListTargetGroups_def Let_def
  by (auto simp: justifiedFrom_append listedFrom_append
      split: prod.splits sum.splits dest!: cleanupLoop_justified)

lemma deleteTargetGroupsLoop_justified:
  "deleteTargetGroupsLoop lb rest w = (r, w') \<Longrightarrow> justifiedFrom n ok w
   \<Longrightarrow> set (map tg_Identity (filter (\<lambda>tg. tg_LoadbalancerListeners tg = []) rest))
        \<subseteq> set (listedFrom n ok w)
   \<Longrightarrow> justifiedFrom n ok w'"
proof (induction rest arbitrary: w)
  case Nil
  then show ?case by simp
next
  case (Cons tg rest)
  then show ?case
    by (auto simp: callDeleteTargetGroup_def Let_def justifiedFrom_append listedFrom_append
        split: prod.splits option.splits if_splits)
qed

lemma fetch_justified:
  "fetchVpcLoadbalancerFromCloud lb cn service w = (r, w') \<Longrightarrow> justifiedFrom n ok w
   \<Longrightarrow> justifiedFrom n ok w'"
  by (rule appended_justifiedFrom
        [OF fetch_fp [OF _ appended_refl, where A = "{OpListLoadbalancers}"]]) simp_all

lemma createOrUpdateTargetGroups_justified:
  "createOrUpdateTargetGroups l service vlb desired nodes w = (r, w')
   \<Longrightarrow> justifiedFrom n ok w \<Longrightarrow> justifiedFrom n ok w'"
  by (rule appended_justifiedFrom
        [OF createOrUpdateTargetGroups_fp [OF _ appended_refl,
           where A = "{OpListTargetGroups, OpCreateTargetGroup, OpUpdateTargetGroup,
                       OpSetTargetGroupServerAttachments}"]]) simp_all

lemma updateVpcLoadbalancerListener_justified:
  "updateVpcLoadbalancerListener lb service vlb dl tgs w = (r, w')
   \<Longrightarrow> justifiedFrom n ok w \<Longrightarrow> justifiedFrom n ok w'"
  by (rule appended_justifiedFrom
        [OF updateVpcLoadbalancerListener_fp [OF _ appended_refl,
           where A = "{OpListListeners, OpCreateListener, OpUpdateListener,
                       OpDeleteListener}"]]) simp_all

lemma updateVpcLoadbalancer_justified:
  "updateVpcLoadbalancer lb service vlb dl w = (r, w')
   \<Longrightarrow> justifiedFrom n ok w \<Longrightarrow> justifiedFrom n ok w'"
  by (rule appended_justifiedFrom
        [OF updateVpcLoadbalancer_fp [OF _ appended_refl,
           where A = "{OpListSecurityGroups, OpCreateSecurityGroup, OpUpdateSecurityGroup,
                       OpUpdateLoadbalancer}"]]) simp_all

lemma pollUntilDeleted_justified:
  "pollUntilDeleted lb cn service polls w = (r, w')
   \<Longrightarrow> justifiedFrom n ok w \<Longrightarrow> justifiedFrom n ok w'"
  by (rule appended_justifiedFrom
        [OF pollUntilDeleted_fp [OF _ appended_refl, where A = "{OpListLoadbalancers}"]])
     simp_all

lemma deleteManaged_justified:
  "justifiedFrom n ok w \<Longrightarrow> justifiedFrom n ok (deleteManagedSecurityGroup lb service w)"
  by (rule appended_justifiedFrom
        [OF deleteManaged_fp [OF refl appended_refl,
           where A = "{OpListSecurityGroups, OpDeleteSecurityGroup}"]]) simp_all

lemma reconcile_justified:
  "updateVpcLoadbalancerListenersAndTargetGroups lb cn service nodes vlb w = (r, w')
   \<Longrightarrow> justifiedFrom n ok w \<Longrightarrow> justifiedFrom n ok w'"
  unfolding updateVpcLoadbalancerListenersAndTargetGroups_def Let_def
  by (auto split: prod.splits sum.splits option.splits;
      blast dest: fetch_justified createOrUpdateTargetGroups_justified
        updateVpcLoadbalancerListener_justified cleanupUnusedTargetGroups_justified
        updateVpcLoadbalancer_justified)

lemma EnsureLoadBalancerDeleted_justified:
  "EnsureLoadBalancerDeleted lb cn service polls w = (r, w')
   \<Longrightarrow> justifiedFrom n ok w \<Longrightarrow> justifiedFrom n ok w'"
proof -
  assume run: "EnsureLoadBalancerDeleted lb cn service polls w = (r, w')"
    and j: "justifiedFrom n ok w"
  have listed: "\<And>w4 r5 w5. justifiedFrom n ok w4 \<Longrightarrow>
      callListTargetGroups (lb_iaasClient lb) [LabelFilter (GetLabelsForVpcLoadbalancer lb service)] w4
        = (Inr r5, w5) \<Longrightarrow>
      justifiedFrom n ok w5 \<and>
      listedFrom n ok w5 = map tg_Identity (filter (\<lambda>tg. tg_LoadbalancerListeners tg = []) r5)"
    by (auto simp: callListTargetGroups_def Let_def justifiedFrom_append listedFrom_append)
  have listedErr: "\<And>w4 e w5. justifiedFrom n ok w4 \<Longrightarrow>
      callListTargetGroups (lb_iaasClient lb) [LabelFilter (GetLabelsForVpcLoadbalancer lb service)] w4
        = (Inl e, w5) \<Longrightarrow> justifiedFrom n ok w5"
    by (auto simp: callListTargetGroups_def Let_def justifiedFrom_append listedFrom_append)
  have del: "\<And>i w2 r3 w3. justifiedFrom n ok w2 \<Longrightarrow>
      callDeleteLoadbalancer (lb_iaasClient lb) i w2 = (r3, w3) \<Longrightarrow> justifiedFrom n ok w3"
    by (auto simp: callDeleteLoadbalancer_def Let_def justifiedFrom_append)
  have loop: "\<And>tgs w5 r6 w6. justifiedFrom n ok w5 \<Longrightarrow>
      listedFrom n ok w5 = map tg_Identity (filter (\<lambda>tg. tg_LoadbalancerListeners tg = []) tgs) \<Longrightarrow>
      deleteTargetGroupsLoop lb tgs w5 = (r6, w6) \<Longrightarrow> justifiedFrom n ok w6"
    using deleteTargetGroupsLoop_justified by (metis order_refl)
  show ?thesis
    using run j unfolding EnsureLoadBalancerDeleted_def
    by (auto split: prod.splits sum.splits option.splits;
        blast dest: fetch_justified cleanupUnusedTargetGroups_justified
             pollUntilDeleted_justified listed listedErr del loop
           intro: deleteManaged_justified)
qed

subsection \<open>The status returned\<close>

lemma ingressLoop_eq:
  "ingressLoop vlb ingress ips
     = ingress @ map (\<lambda>ip. \<lparr> ing_IP = ip, ing_Hostname = vlb_Hostname vlb,
                              ing_IPMode = Some ''Proxy'' \<rparr>)
                   (filter (\<lambda>ip. ip \<noteq> []) ips)"
  by (induction ips arbitrary: ingress) (simp_all add: LoadBalancerIPModeProxy_def)

lemma loadbalancerStatus_eq: "loadbalancerStatus vlb = spec_status vlb"
  by (simp add: loadbalancerStatus_def spec_status_def ingressLoop_eq)

lemma fetch_world:
  "fetchVpcLoadbalancerFromCloud lb cn service w = (r, w') \<Longrightarrow> butlast w' = w"
  unfolding fetchVpcLoadbalancerFromCloud_def callListLoadbalancers_def Let_def
  by (auto split: prod.splits sum.splits option.splits if_splits)

lemma pollUntilReady_source:
  "pollUntilReady lb cn service created polls w = (Return (Inr ready), w') \<Longrightarrow>
   isReady ready
   \<and> (ready = created
        \<or> fetchVpcLoadbalancerFromCloud lb cn service (butlast w') = (Inr (Some ready), w'))"
proof (induction polls arbitrary: w)
  case 0
  then show ?case by simp
next
  case (Suc polls)
  show ?case
  proof (cases "isReady created")
    case True
    with Suc.prems show ?thesis by simp
  next
    case False
    obtain r w1 where f: "fetchVpcLoadbalancerFromCloud lb cn service w = (r, w1)"
      by (cases "fetchVpcLoadbalancerFromCloud lb cn service w")
    show ?thesis
    proof (cases "\<exists>vpcLB. r = Inr (Some vpcLB) \<and> isReady vpcLB")
      case True
      then obtain vpcLB where r: "r = Inr (Some vpcLB)" and ok: "isReady vpcLB"
        by blast
      from Suc.prems False f r ok have "ready = vpcLB" "w' = w1"
        by simp_all
      with f r ok fetch_world [OF f] show ?thesis
        by simp
    next
      case no: False
      from Suc.prems False f no
      have "pollUntilReady lb cn service created polls w1 = (Return (Inr ready), w')"
        by (auto split: sum.splits option.splits if_splits)
      from Suc.IH [OF this] show ?thesis .
    qed
  qed
qed

lemma GetLoadBalancer_status:
  "GetLoadBalancer lb cn service w = (Inr (Some status), w') \<Longrightarrow>
   \<exists>vlb. fetchVpcLoadbalancerFromCloud lb cn service w = (Inr (Some vlb), w')
         \<and> status = spec_status vlb"
  unfolding GetLoadBalancer_def
  by (auto simp: loadbalancerStatus_eq split: prod.splits sum.splits option.splits)

lemma reconcile_status_given:
  "updateVpcLoadbalancerListenersAndTargetGroups lb cn service nodes (Some given) w
     = (Inr status, w') \<Longrightarrow> status = spec_status given"
  unfolding updateVpcLoadbalancerListenersAndTargetGroups_def Let_def
  by (auto simp: loadbalancerStatus_eq split: prod.splits sum.splits option.splits)

lemma reconcile_status_fetched:
  "updateVpcLoadbalancerListenersAndTargetGroups lb cn service nodes None w
     = (Inr status, w') \<Longrightarrow>
   \<exists>vlb w0. fetchVpcLoadbalancerFromCloud lb cn service w = (Inr (Some vlb), w0)
            \<and> status = spec_status vlb"
  unfolding updateVpcLoadbalancerListenersAndTargetGroups_def Let_def
  by (auto simp: loadbalancerStatus_eq split: prod.splits sum.splits option.splits)

lemma Ensure_status:
  "EnsureLoadBalancer lb cn service nodes polls w = (Return (Inr status), w') \<Longrightarrow>
   (\<exists>existing w1. fetchVpcLoadbalancerFromCloud lb cn service w = (Inr (Some existing), w1)
        \<and> status = spec_status existing)
   \<or> (\<exists>w1 created w2 ready.
          fetchVpcLoadbalancerFromCloud lb cn service w = (Inr None, w1)
        \<and> createVpcLoadbalancer lb (GetLoadBalancerName lb cn service) service w1
            = (Return (Inr (Some created)), w2)
        \<and> isReady ready
        \<and> (ready = created
             \<or> fetchVpcLoadbalancerFromCloud lb cn service (butlast w')
                 = (Inr (Some ready), w'))
        \<and> status = spec_status ready)"
proof -
  assume e: "EnsureLoadBalancer lb cn service nodes polls w = (Return (Inr status), w')"
  obtain r w1 where f: "fetchVpcLoadbalancerFromCloud lb cn service w = (r, w1)"
    by (cases "fetchVpcLoadbalancerFromCloud lb cn service w")
  show ?thesis
  proof (cases r)
    case (Inl err)
    with e f show ?thesis
      by (simp add: EnsureLoadBalancer_def)
  next
    case (Inr found)
    show ?thesis
    proof (cases found)
      case (Some existing)
      with e f Inr show ?thesis
        unfolding EnsureLoadBalancer_def Let_def
        by (auto simp: loadbalancerStatus_eq split: prod.splits sum.splits
            dest: reconcile_status_given)
    next
      case None
      from e f Inr None obtain created w2 status0 w3 ready
        where c: "createVpcLoadbalancer lb (GetLoadBalancerName lb cn service) service w1
                    = (Return (Inr (Some created)), w2)"
          and p: "pollUntilReady lb cn service created polls w3 = (Return (Inr ready), w')"
          and s: "status = loadbalancerStatus ready"
        unfolding EnsureLoadBalancer_def Let_def
        by (auto split: prod.splits sum.splits option.splits result.splits)
      from pollUntilReady_source [OF p] f Inr None c s show ?thesis
        by (auto simp: loadbalancerStatus_eq)
    qed
  qed
qed

subsection \<open>The ingress rules as a list comprehension\<close>

lemma ingressRulesOfSources_eq:
  "ingressRulesOfSources lb l priority rules srcs = rules @ map (ingressRule lb l priority) srcs"
  by (induction srcs arbitrary: rules) simp_all

lemma ingressRulesOfListeners_eq:
  "ingressRulesOfListeners lb priority rules listeners
     = rules @ concat (map (\<lambda>l. map (ingressRule lb l priority) (lis_AllowedSources l)) listeners)"
  by (induction listeners arbitrary: rules) (simp_all add: ingressRulesOfSources_eq)

lemma buildIngressRulesFromListeners_eq:
  "buildIngressRulesFromListeners lb listeners
     = concat (map (\<lambda>l. map (ingressRule lb l 100) (lis_AllowedSources l)) listeners)"
  by (simp add: buildIngressRulesFromListeners_def ingressRulesOfListeners_eq)

subsection \<open>The operations of the target-group pass\<close>

lemma targetGroupsMap_foldl:
  "foldl (\<lambda>m tg. m(targetGroupKey tg \<mapsto> tg)) m0 tgs k = None
     \<longleftrightarrow> m0 k = None \<and> k \<notin> targetGroupKey ` set tgs"
  by (induction tgs arbitrary: m0) auto

lemma targetGroupsMap_None:
  "targetGroupsMap tgs k = None \<longleftrightarrow> k \<notin> targetGroupKey ` set tgs"
  by (simp add: targetGroupsMap_def targetGroupsMap_foldl)

lemma call_events:
  "callCreateTargetGroup c q w = (r1, w') \<Longrightarrow> w' = w @ [EvCreateTargetGroup q r1]"
  "callUpdateTargetGroup c q2 w = (r2, w') \<Longrightarrow> w' = w @ [EvUpdateTargetGroup q2 r2]"
  "callSetTargetGroupServerAttachments c q3 w = (r3, w')
     \<Longrightarrow> w' = w @ [EvSetTargetGroupServerAttachments q3 r3]"
  "callListTargetGroups c q4 w = (r4, w')
     \<Longrightarrow> w' = w @ [EvListTargetGroups q4 r4] \<and> r4 = ListTargetGroups c w q4"
  by (auto simp: call_defs Let_def)

lemma upgrade_events:
  "upgradeTargetGroupAttachments l tg nodes w = (r, w') \<Longrightarrow>
   \<exists>e. w' = w @ [e] \<and> opOf e = OpSetTargetGroupServerAttachments"
  unfolding upgradeTargetGroupAttachments_def Let_def
  by (auto split: prod.splits option.splits dest!: call_events)

lemma createMissing_ops:
  "createMissingTargetGroups l m nodes tgs ds w = (Inr tgs', w') \<Longrightarrow>
   \<exists>es. w' = w @ es \<and>
     map opOf es = concat (map (\<lambda>d. if m (targetGroupKey d) = None
                                      then [OpCreateTargetGroup, OpSetTargetGroupServerAttachments]
                                      else []) ds)"
proof (induction ds arbitrary: tgs w)
  case Nil
  then show ?case by simp
next
  case (Cons d ds)
  show ?case
  proof (cases "m (targetGroupKey d) = None")
    case False
    then obtain y where "m (targetGroupKey d) = Some y" by auto
    with Cons show ?thesis by simp
  next
    case True
    with Cons.prems obtain q r1 created w1 w2 where
      c: "callCreateTargetGroup (lb_iaasClient l) q w = (Inr (Some created), w1)"
      and u: "upgradeTargetGroupAttachments l created nodes w1 = (None, w2)"
      and rest: "createMissingTargetGroups l m nodes (tgs @ [created]) ds w2 = (Inr tgs', w')"
      by (auto split: prod.splits sum.splits option.splits)
    from c have w1: "w1 = w @ [EvCreateTargetGroup q (Inr (Some created))]"
      by (auto dest: call_events)
    from u obtain e where e: "w2 = w1 @ [e]" "opOf e = OpSetTargetGroupServerAttachments"
      by (auto dest: upgrade_events)
    from Cons.IH[OF rest] obtain es where
      es: "w' = w2 @ es"
      "map opOf es = concat (map (\<lambda>d. if m (targetGroupKey d) = None
                                      then [OpCreateTargetGroup, OpSetTargetGroupServerAttachments]
                                      else []) ds)"
      by blast
    show ?thesis
      by (rule exI[of _ "EvCreateTargetGroup q (Inr (Some created)) # e # es"])
         (simp add: w1 e es True)
  qed
qed

lemma updateExisting_ops:
  "updateExistingTargetGroups l m nodes tgs ex w = (Inr tgs', w') \<Longrightarrow>
   \<exists>es. w' = w @ es \<and>
     map opOf es = concat (map (\<lambda>t. if m (targetGroupKey t) \<noteq> None \<and> tg_Identity t \<noteq> []
                                      then [OpUpdateTargetGroup, OpSetTargetGroupServerAttachments]
                                      else []) ex)"
proof (induction ex arbitrary: tgs w)
  case Nil
  then show ?case by simp
next
  case (Cons t ex)
  show ?case
  proof (cases "m (targetGroupKey t) \<noteq> None \<and> tg_Identity t \<noteq> []")
    case False
    with Cons show ?thesis by (auto split: option.splits)
  next
    case True
    with Cons.prems obtain q updated w1 w2 where
      c: "callUpdateTargetGroup (lb_iaasClient l) q w = (Inr (Some updated), w1)"
      and u: "upgradeTargetGroupAttachments l updated nodes w1 = (None, w2)"
      and rest: "updateExistingTargetGroups l m nodes (tgs @ [updated]) ex w2 = (Inr tgs', w')"
      by (auto split: prod.splits sum.splits option.splits)
    from c have w1: "w1 = w @ [EvUpdateTargetGroup q (Inr (Some updated))]"
      by (auto dest: call_events)
    from u obtain e where e: "w2 = w1 @ [e]" "opOf e = OpSetTargetGroupServerAttachments"
      by (auto dest: upgrade_events)
    from Cons.IH[OF rest] obtain es where
      es: "w' = w2 @ es"
      "map opOf es = concat (map (\<lambda>t. if m (targetGroupKey t) \<noteq> None \<and> tg_Identity t \<noteq> []
                                      then [OpUpdateTargetGroup, OpSetTargetGroupServerAttachments]
                                      else []) ex)"
      by blast
    show ?thesis
      by (rule exI[of _ "EvUpdateTargetGroup q (Inr (Some updated)) # e # es"])
         (use True in \<open>simp add: w1 e es\<close>)
  qed
qed

lemma createOrUpdate_ops:
  assumes "createOrUpdateTargetGroups l service vlb desired nodes w = (Inr tgs, w')"
  shows "\<exists>existing es.
           ListTargetGroups (lb_iaasClient l) w
             [FilterKeyValue FilterVpcIdentity (lb_vpcIdentity l),
              LabelFilter (GetLabelsForVpcLoadbalancer l service)] = Inr existing
         \<and> w' = w @ es \<and> map opOf es = spec_targetGroupOps desired existing"
proof -
  let ?fs = "[FilterKeyValue FilterVpcIdentity (lb_vpcIdentity l),
              LabelFilter (GetLabelsForVpcLoadbalancer l service)]"
  from assms obtain existing w1 tgs1 w2 where
    l: "callListTargetGroups (lb_iaasClient l) ?fs w = (Inr existing, w1)"
    and c: "createMissingTargetGroups l (targetGroupsMap existing) nodes [] desired w1
              = (Inr tgs1, w2)"
    and u: "updateExistingTargetGroups l (targetGroupsMap desired) nodes tgs1 existing w2
              = (Inr tgs, w')"
    unfolding createOrUpdateTargetGroups_def Let_def
    by (auto split: prod.splits sum.splits)
  from l have w1: "w1 = w @ [EvListTargetGroups ?fs (Inr existing)]"
    and ex: "ListTargetGroups (lb_iaasClient l) w ?fs = Inr existing"
    by (auto dest: call_events)
  from createMissing_ops[OF c] obtain es1 where
    es1: "w2 = w1 @ es1"
    "map opOf es1 = concat (map (\<lambda>d. if targetGroupsMap existing (targetGroupKey d) = None
                                      then [OpCreateTargetGroup, OpSetTargetGroupServerAttachments]
                                      else []) desired)"
    by blast
  from updateExisting_ops[OF u] obtain es2 where
    es2: "w' = w2 @ es2"
    "map opOf es2 = concat (map (\<lambda>t. if targetGroupsMap desired (targetGroupKey t) \<noteq> None
                                         \<and> tg_Identity t \<noteq> []
                                      then [OpUpdateTargetGroup, OpSetTargetGroupServerAttachments]
                                      else []) existing)"
    by blast
  have a: "map opOf es1
             = concat (map (\<lambda>d. if targetGroupKey d \<in> targetGroupKey ` set existing then []
                         else [OpCreateTargetGroup, OpSetTargetGroupServerAttachments]) desired)"
    unfolding es1(2) by (rule arg_cong[where f = concat], rule map_cong)
      (auto simp: targetGroupsMap_None)
  have b: "map opOf es2
             = concat (map (\<lambda>t. if targetGroupKey t \<in> targetGroupKey ` set desired
                            \<and> tg_Identity t \<noteq> []
                         then [OpUpdateTargetGroup, OpSetTargetGroupServerAttachments]
                         else []) existing)"
    unfolding es2(2) by (rule arg_cong[where f = concat], rule map_cong)
      (auto simp: targetGroupsMap_None)
  show ?thesis
    by (rule exI[of _ existing], rule exI[of _ "EvListTargetGroups ?fs (Inr existing) # es1 @ es2"])
       (simp add: ex w1 es1(1) es2(1) a b spec_targetGroupOps_def)
qed

subsection \<open>Nothing but the creation reads the internal annotation\<close>

lemma withInternal_fields:
  "svc_Name (withInternal v s) = svc_Name s"
  "svc_Namespace (withInternal v s) = svc_Namespace s"
  "svc_UID (withInternal v s) = svc_UID s"
  "svc_Ports (withInternal v s) = svc_Ports s"
  "svc_ExternalTrafficPolicy (withInternal v s) = svc_ExternalTrafficPolicy s"
  "svc_HealthCheckNodePort (withInternal v s) = svc_HealthCheckNodePort s"
  by (simp_all add: withInternal_def)

lemma withInternal_other:
  "k \<noteq> LoadbalancerAnnotationInternal \<Longrightarrow>
   svc_Annotations (withInternal v s) k = svc_Annotations s k"
  by (simp add: withInternal_def)

lemma internal_key_distinct:
  "LoadBalancerAnnotationSubnetID \<noteq> LoadbalancerAnnotationInternal"
  "LoadbalancerAnnotationEnableProxyProtocol \<noteq> LoadbalancerAnnotationInternal"
  "LoadbalancerAnnotationIdleConnectionTimeout \<noteq> LoadbalancerAnnotationInternal"
  "LoadbalancerAnnotationMaxConnections \<noteq> LoadbalancerAnnotationInternal"
  "LoadbalancerAnnotationLoadbalancingPolicy \<noteq> LoadbalancerAnnotationInternal"
  "LoadbalancerAnnotationHealthCheckEnabled \<noteq> LoadbalancerAnnotationInternal"
  "LoadbalancerAnnotationHealthCheckPath \<noteq> LoadbalancerAnnotationInternal"
  "LoadbalancerAnnotationHealthCheckPort \<noteq> LoadbalancerAnnotationInternal"
  "LoadbalancerAnnotationHealthCheckProtocol \<noteq> LoadbalancerAnnotationInternal"
  "LoadbalancerAnnotationHealthCheckInterval \<noteq> LoadbalancerAnnotationInternal"
  "LoadbalancerAnnotationHealthCheckTimeout \<noteq> LoadbalancerAnnotationInternal"
  "LoadbalancerAnnotationHealthCheckUpThreshold \<noteq> LoadbalancerAnnotationInternal"
  "LoadbalancerAnnotationHealthCheckDownThreshold \<noteq> LoadbalancerAnnotationInternal"
  "LoadbalancerAnnotationAclAllowedSources \<noteq> LoadbalancerAnnotationInternal"
  "LoadBalancerAnnotationSecurityGroups \<noteq> LoadbalancerAnnotationInternal"
  "LoadBalancerAnnotationCreateSecurityGroup \<noteq> LoadbalancerAnnotationInternal"
  "LoadbalancerAnnotationAclAllowedSourcesPort @ CHR ''-'' # suffix \<noteq> LoadbalancerAnnotationInternal"
  by (simp_all add: LoadBalancerAnnotationSubnetID_def LoadbalancerAnnotationInternal_def
        LoadbalancerAnnotationEnableProxyProtocol_def
        LoadbalancerAnnotationIdleConnectionTimeout_def LoadbalancerAnnotationMaxConnections_def
        LoadbalancerAnnotationLoadbalancingPolicy_def LoadbalancerAnnotationHealthCheckEnabled_def
        LoadbalancerAnnotationHealthCheckPath_def LoadbalancerAnnotationHealthCheckPort_def
        LoadbalancerAnnotationHealthCheckProtocol_def LoadbalancerAnnotationHealthCheckInterval_def
        LoadbalancerAnnotationHealthCheckTimeout_def LoadbalancerAnnotationHealthCheckUpThreshold_def
        LoadbalancerAnnotationHealthCheckDownThreshold_def LoadbalancerAnnotationAclAllowedSources_def
        LoadBalancerAnnotationSecurityGroups_def LoadBalancerAnnotationCreateSecurityGroup_def
        LoadbalancerAnnotationAclAllowedSourcesPort_def)

lemma withInternal_readers:
  "k \<noteq> LoadbalancerAnnotationInternal \<Longrightarrow>
   getStringAnnotation (withInternal v s) k ds = getStringAnnotation s k ds"
  "k \<noteq> LoadbalancerAnnotationInternal \<Longrightarrow>
   getIntAnnotation (withInternal v s) k di = getIntAnnotation s k di"
  "k \<noteq> LoadbalancerAnnotationInternal \<Longrightarrow>
   getBoolAnnotation (withInternal v s) k db = getBoolAnnotation s k db"
  by (simp_all add: getStringAnnotation_def getIntAnnotation_def getBoolAnnotation_def
        withInternal_other)

lemma withInternal_labels:
  "GetLabelsForVpcLoadbalancer lb (withInternal v s) = GetLabelsForVpcLoadbalancer lb s"
  "GetLabelsForVpcLoadbalancerTargetGroup lb (withInternal v s) port protocol
     = GetLabelsForVpcLoadbalancerTargetGroup lb s port protocol"
  "GetAnnotationsForVpcLoadbalancer lb (withInternal v s) = GetAnnotationsForVpcLoadbalancer lb s"
  "GetLoadBalancerName lb cn (withInternal v s) = GetLoadBalancerName lb cn s"
  by (simp_all add: GetLabelsForVpcLoadbalancer_def GetLabelsForVpcLoadbalancerTargetGroup_def
        GetAnnotationsForVpcLoadbalancer_def GetLoadBalancerName_def DefaultLoadBalancerName_def
        withInternal_fields)

lemma withInternal_policy:
  "GetLoadbalancingPolicy (withInternal v s) = GetLoadbalancingPolicy s"
  by (simp add: GetLoadbalancingPolicy_def withInternal_readers internal_key_distinct)

lemma withInternal_targetGroupForPort:
  "targetGroupForPort l (withInternal v s) = targetGroupForPort l s"
  by (intro ext) (simp add: targetGroupForPort_def withInternal_labels withInternal_fields)

lemma withInternal_desiredTgs:
  "getDesiredVpcLoadbalancerTargetGroups l (withInternal v s) nodes
     = getDesiredVpcLoadbalancerTargetGroups l s nodes"
  by (simp add: getDesiredVpcLoadbalancerTargetGroups_def withInternal_policy
        withInternal_readers internal_key_distinct withInternal_targetGroupForPort
        withInternal_labels withInternal_fields)

lemma withInternal_perPort:
  "getPerPortAclAllowedSources lb (withInternal v s) port = getPerPortAclAllowedSources lb s port"
  by (simp add: getPerPortAclAllowedSources_def withInternal_other internal_key_distinct Let_def cong: option.case_cong if_cong)

lemma withInternal_listenerForPort:
  "listenerForPort lb (withInternal v s) = listenerForPort lb s"
  by (intro ext) (simp add: listenerForPort_def withInternal_perPort withInternal_labels
        withInternal_fields)

lemma withInternal_desiredListeners:
  "desiredVpcLoadbalancerListener lb (withInternal v s) = desiredVpcLoadbalancerListener lb s"
  by (simp add: desiredVpcLoadbalancerListener_def withInternal_other withInternal_readers
        internal_key_distinct withInternal_listenerForPort withInternal_fields)

lemma withInternal_securityGroups:
  "getSubnetIdentityForService lb (withInternal v s) = getSubnetIdentityForService lb s"
  "getSecurityGroupsForService lb (withInternal v s) = getSecurityGroupsForService lb s"
  "shouldCreateSecurityGroup lb (withInternal v s) = shouldCreateSecurityGroup lb s"
  by (simp_all add: getSubnetIdentityForService_def getSecurityGroupsForService_def
        shouldCreateSecurityGroup_def withInternal_other internal_key_distinct)

lemma withInternal_filter:
  "NodeFilter_Filter f (withInternal v s) nodes = NodeFilter_Filter f s nodes"
  by (simp add: NodeFilter_Filter_def withInternal_fields)

lemma withInternal_fetch:
  "fetchVpcLoadbalancerFromCloud lb cn (withInternal v s) w
     = fetchVpcLoadbalancerFromCloud lb cn s w"
  by (simp add: fetchVpcLoadbalancerFromCloud_def withInternal_labels Let_def cong: prod.case_cong sum.case_cong option.case_cong if_cong)

lemma withInternal_findManaged:
  "findManagedSecurityGroup lb (withInternal v s) w = findManagedSecurityGroup lb s w"
  by (simp add: findManagedSecurityGroup_def withInternal_labels Let_def cong: prod.case_cong sum.case_cong option.case_cong if_cong)

lemma withInternal_ensureManaged:
  "ensureManagedSecurityGroup lb (withInternal v s) dl w = ensureManagedSecurityGroup lb s dl w"
  by (simp add: ensureManagedSecurityGroup_def withInternal_findManaged withInternal_labels
        withInternal_fields Let_def cong: prod.case_cong sum.case_cong option.case_cong if_cong)

lemma withInternal_createOrUpdate:
  "createOrUpdateTargetGroups l (withInternal v s) vlb desired nodes w
     = createOrUpdateTargetGroups l s vlb desired nodes w"
  by (simp add: createOrUpdateTargetGroups_def withInternal_labels Let_def cong: prod.case_cong sum.case_cong option.case_cong if_cong)

lemma withInternal_cleanup:
  "cleanupUnusedTargetGroups l (withInternal v s) vlb desired w
     = cleanupUnusedTargetGroups l s vlb desired w"
  by (simp add: cleanupUnusedTargetGroups_def withInternal_labels Let_def cong: prod.case_cong sum.case_cong option.case_cong if_cong)

lemma withInternal_tgIdentity:
  "getTargetGroupIdentityForListener lb (withInternal v s) listener tgs
     = getTargetGroupIdentityForListener lb s listener tgs"
  by (simp add: getTargetGroupIdentityForListener_def withInternal_labels Let_def cong: prod.case_cong sum.case_cong option.case_cong if_cong)

lemma withInternal_updateOrDelete:
  "updateOrDeleteListeners lb (withInternal v s) vlb m tgs ex w
     = updateOrDeleteListeners lb s vlb m tgs ex w"
  by (induction ex arbitrary: w)
     (simp_all add: withInternal_tgIdentity Let_def cong: prod.case_cong sum.case_cong option.case_cong if_cong)

lemma withInternal_createMissingListeners:
  "createMissingListeners lb (withInternal v s) vlb m tgs ds w
     = createMissingListeners lb s vlb m tgs ds w"
  by (induction ds arbitrary: w)
     (simp_all add: withInternal_tgIdentity Let_def cong: prod.case_cong sum.case_cong option.case_cong if_cong)

lemma withInternal_updateListener:
  "updateVpcLoadbalancerListener lb (withInternal v s) vlb dl tgs w
     = updateVpcLoadbalancerListener lb s vlb dl tgs w"
  by (simp add: updateVpcLoadbalancerListener_def withInternal_updateOrDelete
        withInternal_createMissingListeners Let_def cong: prod.case_cong sum.case_cong option.case_cong if_cong)

lemma withInternal_updateLb:
  "updateVpcLoadbalancer lb (withInternal v s) vlb dl w = updateVpcLoadbalancer lb s vlb dl w"
  by (simp add: updateVpcLoadbalancer_def withInternal_securityGroups
        withInternal_ensureManaged Let_def cong: prod.case_cong sum.case_cong option.case_cong if_cong)

lemma withInternal_reconcile:
  "updateVpcLoadbalancerListenersAndTargetGroups lb cn (withInternal v s) nodes given w
     = updateVpcLoadbalancerListenersAndTargetGroups lb cn s nodes given w"
  by (simp add: updateVpcLoadbalancerListenersAndTargetGroups_def withInternal_fetch
        withInternal_desiredListeners withInternal_desiredTgs withInternal_createOrUpdate
        withInternal_updateListener withInternal_cleanup withInternal_updateLb Let_def cong: prod.case_cong sum.case_cong option.case_cong if_cong)

lemma withInternal_UpdateLoadBalancer:
  "UpdateLoadBalancer lb cn (withInternal v s) nodes w = UpdateLoadBalancer lb cn s nodes w"
  by (simp add: UpdateLoadBalancer_def withInternal_fetch withInternal_filter
        withInternal_reconcile withInternal_fields Let_def cong: prod.case_cong sum.case_cong option.case_cong if_cong)

lemma withInternal_Ensure_existing:
  "fetchVpcLoadbalancerFromCloud lb cn s w = (Inr (Some existing), w1) \<Longrightarrow>
   EnsureLoadBalancer lb cn (withInternal v s) nodes polls w
     = EnsureLoadBalancer lb cn s nodes polls w"
  by (simp add: EnsureLoadBalancer_def withInternal_fetch withInternal_filter
        withInternal_reconcile Let_def cong: prod.case_cong sum.case_cong option.case_cong if_cong)

subsection \<open>What the update and create requests carry\<close>

lemma updatePreserves_other: "opOf e \<noteq> OpUpdateLoadbalancer \<Longrightarrow> updatePreserves vlb e"
  by (cases e) simp_all

lemma createSetsInternal_other: "opOf e \<noteq> OpCreateLoadbalancer \<Longrightarrow> createSetsInternal s e"
  by (cases e) simp_all

lemma cleanupLoop_fp:
  "cleanupLoop l m rest w = (r, w') \<Longrightarrow> appended A w0 w
   \<Longrightarrow> OpDeleteTargetGroup \<in> A \<Longrightarrow> appended A w0 w'"
proof (induction rest arbitrary: w)
  case Nil
  then show ?case by simp
next
  case (Cons d ds)
  then show ?case
    by (auto split: prod.splits sum.splits option.splits if_splits dest: call_fp)
qed

lemma cleanupUnusedTargetGroups_fp:
  "cleanupUnusedTargetGroups l service vlb desired w = (r, w') \<Longrightarrow> appended A w0 w
   \<Longrightarrow> {OpListTargetGroups, OpDeleteTargetGroup} \<subseteq> A \<Longrightarrow> appended A w0 w'"
  unfolding cleanupUnusedTargetGroups_def Let_def
  by (auto split: prod.splits sum.splits option.splits if_splits dest: call_fp cleanupLoop_fp)

lemma issuedSince_self: "issuedSince (length w) Q w"
  by (simp add: issuedSince_def)

lemma issuedSince_snoc: "issuedSince n Q w \<Longrightarrow> Q e \<Longrightarrow> issuedSince n Q (w @ [e])"
  by (simp add: issuedSince_def drop_Cons')

lemma appended_issuedSince:
  "appended A w w' \<Longrightarrow> (\<And>e. opOf e \<in> A \<Longrightarrow> Q e) \<Longrightarrow> issuedSince n Q w
   \<Longrightarrow> issuedSince n Q w'"
proof -
  assume app: "appended A w w'" and q: "\<And>e. opOf e \<in> A \<Longrightarrow> Q e"
    and inv: "issuedSince n Q w"
  from app obtain es where w': "w' = w @ es" and es: "list_all (\<lambda>e. opOf e \<in> A) es"
    by (auto simp: appended_def)
  from es q have "list_all Q es"
    by (simp add: list_all_iff)
  then have "list_all Q (drop (n - length w) es)"
    by (auto simp: list_all_iff dest: in_set_dropD)
  with inv show ?thesis
    by (simp add: issuedSince_def w')
qed

lemma updateVpcLoadbalancer_preserves:
  "updateVpcLoadbalancer lb service vlb dl w = (r, w')
   \<Longrightarrow> issuedSince n (updatePreserves vlb) w \<Longrightarrow> issuedSince n (updatePreserves vlb) w'"
proof -
  let ?Q = "updatePreserves vlb"
  assume run: "updateVpcLoadbalancer lb service vlb dl w = (r, w')"
    and inv: "issuedSince n ?Q w"
  have v: "\<And>sgs w0 r1 w1. verifySecurityGroupsExist lb sgs w0 = (r1, w1) \<Longrightarrow>
      issuedSince n ?Q w0 \<Longrightarrow> issuedSince n ?Q w1"
    by (rule appended_issuedSince
          [OF verify_fp [OF _ appended_refl, where A = "{OpListSecurityGroups}"]])
       (auto intro: updatePreserves_other)
  have e: "\<And>w0 r1 w1. ensureManagedSecurityGroup lb service dl w0 = (r1, w1) \<Longrightarrow>
      issuedSince n ?Q w0 \<Longrightarrow> issuedSince n ?Q w1"
    by (rule appended_issuedSince
          [OF ensureManaged_fp [OF _ appended_refl,
             where A = "{OpListSecurityGroups, OpCreateSecurityGroup, OpUpdateSecurityGroup}"]])
       (auto intro: updatePreserves_other)
  have u: "\<And>sn dp sgs w0 r1 w1. callUpdateLoadbalancer (lb_iaasClient lb) (vlb_Identity vlb)
             \<lparr> ulb_Name = vlb_Name vlb, ulb_Description = vlb_Description vlb,
               ulb_Labels = vlb_Labels vlb, ulb_Annotations = vlb_Annotations vlb,
               ulb_Subnet = sn, ulb_DeleteProtection = dp,
               ulb_SecurityGroupAttachments = sgs \<rparr> w0 = (r1, w1) \<Longrightarrow>
      issuedSince n ?Q w0 \<Longrightarrow> issuedSince n ?Q w1"
    by (auto simp: callUpdateLoadbalancer_def Let_def intro: issuedSince_snoc)
  show ?thesis
    using run inv unfolding updateVpcLoadbalancer_def Let_def
    by (auto split: prod.splits sum.splits option.splits if_splits dest: v e u)
qed

lemma reconcile_preserves:
  "updateVpcLoadbalancerListenersAndTargetGroups lb cn service nodes (Some vlb) w = (r, w')
   \<Longrightarrow> issuedSince n (updatePreserves vlb) w \<Longrightarrow> issuedSince n (updatePreserves vlb) w'"
proof -
  let ?Q = "updatePreserves vlb"
  assume run: "updateVpcLoadbalancerListenersAndTargetGroups lb cn service nodes (Some vlb) w
                 = (r, w')"
    and inv: "issuedSince n ?Q w"
  have a: "\<And>d w0 r1 w1. createOrUpdateTargetGroups lb service vlb d nodes w0 = (r1, w1) \<Longrightarrow>
      issuedSince n ?Q w0 \<Longrightarrow> issuedSince n ?Q w1"
    by (rule appended_issuedSince
          [OF createOrUpdateTargetGroups_fp [OF _ appended_refl,
             where A = "{OpListTargetGroups, OpCreateTargetGroup, OpUpdateTargetGroup,
                         OpSetTargetGroupServerAttachments}"]])
       (auto intro: updatePreserves_other)
  have b: "\<And>dl t w0 r1 w1. updateVpcLoadbalancerListener lb service vlb dl t w0 = (r1, w1) \<Longrightarrow>
      issuedSince n ?Q w0 \<Longrightarrow> issuedSince n ?Q w1"
    by (rule appended_issuedSince
          [OF updateVpcLoadbalancerListener_fp [OF _ appended_refl,
             where A = "{OpListListeners, OpCreateListener, OpUpdateListener,
                         OpDeleteListener}"]])
       (auto intro: updatePreserves_other)
  have c: "\<And>t w0 r1 w1. cleanupUnusedTargetGroups lb service vlb t w0 = (r1, w1) \<Longrightarrow>
      issuedSince n ?Q w0 \<Longrightarrow> issuedSince n ?Q w1"
    by (rule appended_issuedSince
          [OF cleanupUnusedTargetGroups_fp [OF _ appended_refl,
             where A = "{OpListTargetGroups, OpDeleteTargetGroup}"]])
       (auto intro: updatePreserves_other)
  show ?thesis
    using run inv unfolding updateVpcLoadbalancerListenersAndTargetGroups_def Let_def
    by (auto split: prod.splits sum.splits option.splits;
        blast dest: a b c updateVpcLoadbalancer_preserves)
qed

lemma createStep:
  "callCreateLoadbalancer c req w0 = (r1, w1) \<Longrightarrow> createSetsInternal service (EvCreateLoadbalancer req r1)
   \<Longrightarrow> issuedSince n (createSetsInternal service) w0 \<Longrightarrow> issuedSince n (createSetsInternal service) w1"
  by (auto simp: callCreateLoadbalancer_def Let_def intro: issuedSince_snoc)

lemma createVpcLoadbalancer_internal:
  "createVpcLoadbalancer lb lbName service w = (r, w')
   \<Longrightarrow> issuedSince n (createSetsInternal service) w \<Longrightarrow> issuedSince n (createSetsInternal service) w'"
proof -
  let ?Q = "createSetsInternal service"
  assume run: "createVpcLoadbalancer lb lbName service w = (r, w')"
    and inv: "issuedSince n ?Q w"
  have g: "\<And>i w0 r1 w1. callGetVpc (lb_iaasClient lb) i w0 = (r1, w1) \<Longrightarrow>
      issuedSince n ?Q w0 \<Longrightarrow> issuedSince n ?Q w1"
    by (auto simp: callGetVpc_def Let_def intro: issuedSince_snoc)
  have v: "\<And>sgs w0 r1 w1. verifySecurityGroupsExist lb sgs w0 = (r1, w1) \<Longrightarrow>
      issuedSince n ?Q w0 \<Longrightarrow> issuedSince n ?Q w1"
    by (rule appended_issuedSince
          [OF verify_fp [OF _ appended_refl, where A = "{OpListSecurityGroups}"]])
       (auto intro: createSetsInternal_other)
  have e: "\<And>dl w0 r1 w1. ensureManagedSecurityGroup lb service dl w0 = (r1, w1) \<Longrightarrow>
      issuedSince n ?Q w0 \<Longrightarrow> issuedSince n ?Q w1"
    by (rule appended_issuedSince
          [OF ensureManaged_fp [OF _ appended_refl,
             where A = "{OpListSecurityGroups, OpCreateSecurityGroup, OpUpdateSecurityGroup}"]])
       (auto intro: createSetsInternal_other)
  have s: "\<And>sgs dl w0 x w1.
      (if shouldCreateSecurityGroup lb service
       then (case ensureManagedSecurityGroup lb service dl w0 of
               (Inl err, w3) \<Rightarrow> (Inl err, w3)
             | (Inr None, w3) \<Rightarrow> (Inr sgs, w3)
             | (Inr (Some sg), w3) \<Rightarrow> (Inr (sgs @ [sg_Identity sg]), w3))
       else (Inr sgs, w0)) = (x, w1) \<Longrightarrow> issuedSince n ?Q w0 \<Longrightarrow> issuedSince n ?Q w1"
    by (auto split: if_splits prod.splits sum.splits option.splits dest: e)
  have c: "\<And>nm d l a sn sgs w0 r1 w1.
      callCreateLoadbalancer (lb_iaasClient lb)
        \<lparr> clb_Name = nm, clb_Description = d, clb_Labels = l, clb_Annotations = a,
          clb_Subnet = sn,
          clb_InternalLoadbalancer =
            (case svc_Annotations service LoadbalancerAnnotationInternal of
               Some val \<Rightarrow> (case ParseBool val of Inr b \<Rightarrow> b | Inl err \<Rightarrow> False)
             | None \<Rightarrow> False),
          clb_SecurityGroupAttachments = sgs \<rparr> w0 = (r1, w1)
      \<Longrightarrow> issuedSince n ?Q w0 \<Longrightarrow> issuedSince n ?Q w1"
    by (erule createStep) (auto split: option.splits sum.splits)
  obtain r1 w1 where G: "callGetVpc (lb_iaasClient lb) (lb_vpcIdentity lb) w = (r1, w1)"
    by fastforce
  have q1: "issuedSince n ?Q w1" using g [OF G inv] .
  obtain rv w2 where V: "verifySecurityGroupsExist lb (getSecurityGroupsForService lb service) w1
                           = (rv, w2)"
    by fastforce
  have q2: "issuedSince n ?Q w2" using v [OF V q1] .
  let ?sg = "if shouldCreateSecurityGroup lb service
             then (case ensureManagedSecurityGroup lb service
                          (desiredVpcLoadbalancerListener lb service) w2 of
                     (Inl err, w3) \<Rightarrow> (Inl err, w3)
                   | (Inr None, w3) \<Rightarrow> (Inr (getSecurityGroupsForService lb service), w3)
                   | (Inr (Some sg), w3) \<Rightarrow>
                       (Inr (getSecurityGroupsForService lb service @ [sg_Identity sg]), w3))
             else (Inr (getSecurityGroupsForService lb service), w2)"
  obtain x w3 where S: "?sg = (x, w3)"
    by fastforce
  have q3: "issuedSince n ?Q w3" using s [OF S q2] .
  let ?req = "\<lambda>(vpcSubnet::Subnet) sgs.
       \<lparr> clb_Name = lbName,
         clb_Description = ''Loadbalancer for Kubernetes service '' @ svc_Name service,
         clb_Labels = GetLabelsForVpcLoadbalancer lb service,
         clb_Annotations = GetAnnotationsForVpcLoadbalancer lb service,
         clb_Subnet = sub_Identity vpcSubnet,
         clb_InternalLoadbalancer =
           (case svc_Annotations service LoadbalancerAnnotationInternal of
              Some val \<Rightarrow> (case ParseBool val of Inr b \<Rightarrow> b | Inl err \<Rightarrow> False)
            | None \<Rightarrow> False),
         clb_SecurityGroupAttachments = sgs \<rparr>"
  have q4: "issuedSince n ?Q w4"
    if "callCreateLoadbalancer (lb_iaasClient lb) (?req vpcSubnet sgs) w3 = (r4, w4)"
    for vpcSubnet sgs r4 w4
    using c [OF that q3] .
  have "w' = w1 \<or> w' = w2 \<or> w' = w3
        \<or> (\<exists>vpcSubnet sgs r4.
              callCreateLoadbalancer (lb_iaasClient lb) (?req vpcSubnet sgs) w3 = (r4, w'))"
  proof (cases r1)
    case (Inl err)
    then show ?thesis using run G by (simp add: createVpcLoadbalancer_def)
  next
    case (Inr o1)
    show ?thesis
    proof (cases o1)
      case None
      then show ?thesis using run G Inr by (simp add: createVpcLoadbalancer_def)
    next
      case (Some vpc)
      show ?thesis
      proof (cases "length (vpc_Subnets vpc) = 0")
        case True
        then show ?thesis using run G Inr Some by (simp add: createVpcLoadbalancer_def)
      next
        case False
        let ?sub = "if getSubnetIdentityForService lb service \<noteq> []
                    then Inr (find (\<lambda>subnet. sub_Identity subnet = getSubnetIdentityForService lb service
                                              \<or> sub_Slug subnet = getSubnetIdentityForService lb service)
                                (vpc_Subnets vpc))
                    else (case vpc_Subnets vpc of
                            [] \<Rightarrow> Inl (''vpc '' @ lb_vpcIdentity lb @ '' has no subnets'')
                          | first # others \<Rightarrow> Inr (Some first))"
        show ?thesis
        proof (cases ?sub)
          case (Inl err)
          then show ?thesis using run G Inr Some False
            by (simp add: createVpcLoadbalancer_def Let_def)
        next
          case subInr: (Inr o2)
          show ?thesis
          proof (cases o2)
            case None
            then show ?thesis using run G Inr Some False subInr
              by (simp add: createVpcLoadbalancer_def Let_def)
          next
            case subSome: (Some vpcSubnet)
            show ?thesis
            proof (cases rv)
              case (Some err)
              then show ?thesis using run G Inr \<open>o1 = Some vpc\<close> False subInr subSome V
                by (simp add: createVpcLoadbalancer_def Let_def)
            next
              case None
              show ?thesis
              proof (cases x)
                case (Inl err)
                then show ?thesis
                  using run G Inr \<open>o1 = Some vpc\<close> False subInr subSome V None S
                  by (simp add: createVpcLoadbalancer_def Let_def)
              next
                case sgInr: (Inr sgs)
                obtain r4 w4 where
                  C: "callCreateLoadbalancer (lb_iaasClient lb) (?req vpcSubnet sgs) w3 = (r4, w4)"
                  by fastforce
                have w4: "w' = w4"
                  using run G Inr \<open>o1 = Some vpc\<close> False subInr subSome V None S sgInr C
                  by (cases r4) (simp_all add: createVpcLoadbalancer_def Let_def)
                show ?thesis
                  unfolding w4 by (intro disjI2 exI) (rule C)
              qed
            qed
          qed
        qed
      qed
    qed
  qed
  then show ?thesis using q1 q2 q3 q4 by blast
qed

subsection \<open>Evaluation on the concrete inputs\<close>

lemma svcA_sel:
  "svc_Name svcA = ''web''" "svc_Namespace svcA = ''default''" "svc_UID svcA = ''uid-1''"
  "svc_Annotations svcA = Map.empty"
  "svc_Ports svcA = [\<lparr> sp_Name = ''http'', sp_Protocol = ''TCP'', sp_Port = 80,
                        sp_NodePort = 30000 \<rparr>]"
  "svc_ExternalTrafficPolicy svcA = ''Cluster''" "svc_HealthCheckNodePort svcA = 0"
  by (simp_all add: svcA_def)

lemma lbA_sel:
  "lb_iaasClient lbA = settledCloud" "lb_additionalLabels lbA = []"
  "lb_vpcIdentity lbA = ''vpc-1''" "lb_defaultSubnet lbA = ''subnet-1''"
  "lb_cluster lbA = ''c1''" "net_ParseCIDR lbA = tableParseCIDR"
  "lb_nodeFilter lbA = \<lparr> epSliceLister = (\<lambda>namespace name. Inr []) \<rparr>"
  by (simp_all add: lbA_def)

lemma tgA_sel:
  "tg_Identity tgA = ''tg-1''" "tg_Name tgA = ''auid1-http''" "tg_Description tgA = []"
  "tg_Protocol tgA = ''tcp''" "tg_TargetPort tgA = 30000" "tg_Labels tgA = tgLabelsA"
  "tg_Annotations tgA = []" "tg_HealthCheck tgA = None"
  "tg_EnableProxyProtocol tgA = Some False"
  "tg_LoadbalancingPolicy tgA = Some ''ROUND_ROBIN''"
  "tg_LoadbalancerListeners tgA = [''lis-1'']"
  by (simp_all add: tgA_def)

lemma lisA_sel:
  "lis_Identity lisA = ''lis-1''" "lis_Name lisA = ''auid1-http''"
  "lis_Description lisA = ''Listener for Kubernetes service web''"
  "lis_Protocol lisA = ''tcp''" "lis_Port lisA = 80" "lis_TargetGroup lisA = Some tgA"
  "lis_Labels lisA = tgLabelsA" "lis_Annotations lisA = []" "lis_AllowedSources lisA = []"
  "lis_ConnectionIdleTimeout lisA = Some 6000" "lis_MaxConnections lisA = Some 10000"
  by (simp_all add: lisA_def)

lemma vlbA_sel:
  "vlb_Identity vlbA = ''lb-1''" "vlb_Name vlbA = ''auid1''"
  "vlb_Description vlbA = ''Loadbalancer for Kubernetes service web''"
  "vlb_Labels vlbA = labelsA" "vlb_Annotations vlbA = []"
  "vlb_Subnet vlbA = \<lparr> sub_Identity = ''subnet-1'', sub_Slug = ''main'' \<rparr>"
  "vlb_SecurityGroups vlbA = []"
  "vlb_ExternalIpAddresses vlbA = [''203.0.113.10'', [], ''2001:db8::10'']"
  "vlb_Hostname vlbA = ''lb-1.example''" "vlb_Status vlbA = ''ready''"
  "vlb_DeleteProtection vlbA = False"
  by (simp_all add: vlbA_def)

lemma settledCloud_sel:
  "ListLoadbalancers settledCloud w fs = Inr [vlbA]"
  "UpdateLoadbalancer settledCloud w i ulb = Inr (Some vlbA)"
  "DeleteLoadbalancer settledCloud w i = None"
  "ListSecurityGroups settledCloud w fs = Inr []"
  "ListTargetGroups settledCloud w fs = Inr [tgA]"
  "CreateTargetGroup settledCloud w ctg = Inr (Some tgA)"
  "UpdateTargetGroup settledCloud w utg = Inr (Some tgA)"
  "DeleteTargetGroup settledCloud w i = None"
  "SetTargetGroupServerAttachments settledCloud w b = None"
  "ListListeners settledCloud w i = Inr [lisA]"
  "CreateListener settledCloud w i cl = Inr (Some lisA)"
  "UpdateListener settledCloud w i j ul = Inr (Some lisA)"
  "DeleteListener settledCloud w i j = None"
  by (simp_all add: settledCloud_def)

lemma Sprintd_80: "Sprintd 80 = ''80''"
  by (simp add: Sprintd_def showNat.simps)

lemma Sprintd_30000: "Sprintd 30000 = ''30000''"
  by (simp add: Sprintd_def showNat.simps)

lemma ToLower_TCP: "ToLower ''TCP'' = ''tcp''" "ToLower ''tcp'' = ''tcp''"
  by (simp_all add: ToLower_def toLowerChar_def)

lemma labels_lbA: "GetLabelsForVpcLoadbalancer lbA svcA = labelsA"
  by (simp add: GetLabelsForVpcLoadbalancer_def lbA_sel svcA_sel labelsA_def)

lemma tgLabels_lbA:
  "GetLabelsForVpcLoadbalancerTargetGroup lbA svcA 80 ''TCP'' = tgLabelsA"
  "GetLabelsForVpcLoadbalancerTargetGroup lbA svcA 80 ''tcp'' = tgLabelsA"
  by (simp_all add: GetLabelsForVpcLoadbalancerTargetGroup_def labels_lbA tgLabelsA_def
        labelsA_def Sprintd_80 ToLower_TCP)

lemma match_labelsA: "matchLabels labelsA labelsA"
  by (simp add: matchLabels_def labelsA_def index_def)

lemma match_tgLabelsA: "matchLabels tgLabelsA tgLabelsA"
  by (simp add: matchLabels_def tgLabelsA_def labelsA_def index_def)

lemma name_lbA: "GetLoadBalancerName lbA cn svcA = ''auid1''"
  by (simp add: GetLoadBalancerName_def DefaultLoadBalancerName_def svcA_sel)

lemma desiredTgs_A: "getDesiredVpcLoadbalancerTargetGroups lbA svcA nodes = Inr [desiredTgA]"
  by (simp add: getDesiredVpcLoadbalancerTargetGroups_def GetLoadbalancingPolicy_def
        getStringAnnotation_def getBoolAnnotation_def getIntAnnotation_def
        targetGroupForPort_def name_lbA getPortName_def tgLabels_lbA ToLower_TCP
        LoadbalancingPolicyRoundRobin_def DefaultLoadbalancingPolicy_def
        DefaultEnableProxyProtocol_def svcA_sel Let_def desiredTgA_def tgA_def)

lemma desiredListeners_A: "desiredVpcLoadbalancerListener lbA svcA = [desiredLisA]"
  by (simp add: desiredVpcLoadbalancerListener_def listenerForPort_def
        getPerPortAclAllowedSources_def removeDuplicateStrings_def getIntAnnotation_def
        name_lbA getPortName_def tgLabels_lbA ToLower_TCP svcA_sel Let_def
        GetAnnotationsForVpcLoadbalancer_def DefaultIdleConnectionTimeout_def
        DefaultMaxConnections_def desiredLisA_def lisA_def)

lemma desiredTgA_sel:
  "tg_Identity desiredTgA = []" "tg_Name desiredTgA = ''auid1-http''"
  "tg_Description desiredTgA = []" "tg_Protocol desiredTgA = ''tcp''"
  "tg_TargetPort desiredTgA = 30000" "tg_Labels desiredTgA = tgLabelsA"
  "tg_Annotations desiredTgA = []" "tg_HealthCheck desiredTgA = None"
  "tg_EnableProxyProtocol desiredTgA = Some False"
  "tg_LoadbalancingPolicy desiredTgA = Some ''ROUND_ROBIN''"
  "tg_LoadbalancerListeners desiredTgA = []"
  by (simp_all add: desiredTgA_def tgA_def)

lemma desiredLisA_sel:
  "lis_Identity desiredLisA = []" "lis_Name desiredLisA = ''auid1-http''"
  "lis_Description desiredLisA = ''Listener for Kubernetes service web''"
  "lis_Protocol desiredLisA = ''tcp''" "lis_Port desiredLisA = 80"
  "lis_Labels desiredLisA = tgLabelsA" "lis_Annotations desiredLisA = []"
  "lis_AllowedSources desiredLisA = []"
  "lis_ConnectionIdleTimeout desiredLisA = Some 6000"
  "lis_MaxConnections desiredLisA = Some 10000"
  by (simp_all add: desiredLisA_def lisA_def)

lemma key_A: "targetGroupKey tgA = ''tcp:30000''" "targetGroupKey desiredTgA = ''tcp:30000''"
  by (simp_all add: targetGroupKey_def tgA_sel desiredTgA_sel Sprintd_30000)

lemma attachments_A:
  "attachmentsLoop [] nodesA
     = [\<lparr> at_ServerIdentity = ''srv-1'' \<rparr>, \<lparr> at_ServerIdentity = ''srv-2'' \<rparr>]"
  by (simp add: nodesA_def Let_def)

lemma fetch_A:
  "fetchVpcLoadbalancerFromCloud lbA cn svcA w
     = (Inr (Some vlbA),
        w @ [EvListLoadbalancers [FilterKeyValue ''vpc'' ''vpc-1''] (Inr [vlbA])])"
  by (simp add: fetchVpcLoadbalancerFromCloud_def callListLoadbalancers_def lbA_sel
        settledCloud_sel labels_lbA vlbA_sel match_labelsA Let_def)

lemma createOrUpdate_A:
  "createOrUpdateTargetGroups lbA svcA vlbA [desiredTgA] nodesA w
     = (Inr [tgA],
        w @ [EvListTargetGroups tgFiltersA (Inr [tgA]),
             EvUpdateTargetGroup updateTgA (Inr (Some tgA)),
             EvSetTargetGroupServerAttachments attachA None])"
  by (simp add: createOrUpdateTargetGroups_def callListTargetGroups_def
        callUpdateTargetGroup_def upgradeTargetGroupAttachments_def
        callSetTargetGroupServerAttachments_def lbA_sel settledCloud_sel labels_lbA
        targetGroupsMap_def key_A attachments_A Let_def FilterVpcIdentity_def tgFiltersA_def
        updateTgA_def attachA_def tgA_sel desiredTgA_sel)

lemma lis_ne_A: "desiredLisA \<noteq> lisA"
proof
  assume "desiredLisA = lisA"
  then have "lis_Identity desiredLisA = lis_Identity lisA" by simp
  then show False by (simp add: desiredLisA_sel lisA_sel)
qed

lemma tgIdentity_A: "getTargetGroupIdentityForListener lbA svcA desiredLisA [tgA] = ''tg-1''"
  by (simp add: getTargetGroupIdentityForListener_def desiredLisA_sel tgLabels_lbA tgA_sel
        match_tgLabelsA Let_def)

lemma updateListener_A:
  "updateVpcLoadbalancerListener lbA svcA vlbA [desiredLisA] [tgA] w
     = (None,
        w @ [EvListListeners ''lb-1'' (Inr [lisA]),
             EvUpdateListener ''lb-1'' ''lis-1'' updateLisA (Inr (Some lisA))])"
  by (simp add: updateVpcLoadbalancerListener_def callListListeners_def
        callUpdateListener_def lbA_sel settledCloud_sel vlbA_sel listenersPortMap_def
        lis_ne_A tgIdentity_A desiredLisA_sel lisA_sel updateLisA_def Let_def)

lemma cleanup_A:
  "cleanupUnusedTargetGroups lbA svcA vlbA [tgA] w
     = (None, w @ [EvListTargetGroups tgFiltersA (Inr [tgA])])"
  by (simp add: cleanupUnusedTargetGroups_def callListTargetGroups_def lbA_sel
        settledCloud_sel labels_lbA targetGroupsMap_def key_A tgA_sel FilterVpcIdentity_def
        tgFiltersA_def Let_def)

lemma updateLb_A: "updateVpcLoadbalancer lbA svcA vlbA dl w = (None, w)"
  by (simp add: updateVpcLoadbalancer_def getSecurityGroupsForService_def
        verifySecurityGroupsExist_def shouldCreateSecurityGroup_def
        getSubnetIdentityForService_def svcA_sel lbA_sel vlbA_sel Let_def)

lemma reconcile_A:
  "updateVpcLoadbalancerListenersAndTargetGroups lbA cn svcA nodesA (Some vlbA) w
     = (Inr (loadbalancerStatus vlbA), w @ passA)"
  by (simp add: updateVpcLoadbalancerListenersAndTargetGroups_def desiredTgs_A
        desiredListeners_A createOrUpdate_A updateListener_A cleanup_A updateLb_A passA_def)

lemma filter_A: "NodeFilter_Filter (lb_nodeFilter lbA) svcA nodes = Inr nodes"
  by (simp add: NodeFilter_Filter_def svcA_sel ServiceExternalTrafficPolicyTypeLocal_def)

lemma ensure_A:
  "EnsureLoadBalancer lbA cn svcA nodesA polls w
     = (Return (Inr (loadbalancerStatus vlbA)),
        w @ EvListLoadbalancers [FilterKeyValue ''vpc'' ''vpc-1''] (Inr [vlbA]) # passA)"
  by (simp add: EnsureLoadBalancer_def fetch_A filter_A reconcile_A)

lemma status_A:
  "loadbalancerStatus vlbA =
     \<lparr> lbs_Ingress =
         [\<lparr> ing_IP = ''203.0.113.10'', ing_Hostname = ''lb-1.example'',
            ing_IPMode = Some ''Proxy'' \<rparr>,
          \<lparr> ing_IP = ''2001:db8::10'', ing_Hostname = ''lb-1.example'',
            ing_IPMode = Some ''Proxy'' \<rparr>] \<rparr>"
  by (simp add: loadbalancerStatus_def vlbA_sel LoadBalancerIPModeProxy_def)

lemma lbFresh_sel:
  "lb_iaasClient lbFresh = freshCloud" "lb_additionalLabels lbFresh = []"
  "lb_vpcIdentity lbFresh = ''vpc-1''" "lb_defaultSubnet lbFresh = ''subnet-1''"
  "lb_cluster lbFresh = ''c1''"
  "lb_nodeFilter lbFresh = \<lparr> epSliceLister = (\<lambda>namespace name. Inr []) \<rparr>"
  by (simp_all add: lbFresh_def lbA_sel)

lemma freshCloud_sel:
  "ListLoadbalancers freshCloud w fs
     = (if issued OpCreateLoadbalancer w then Inr [vlbA] else Inr [])"
  "GetVpc freshCloud w i
     = Inr (Some \<lparr> vpc_Subnets = [\<lparr> sub_Identity = ''subnet-1'', sub_Slug = ''main'' \<rparr>] \<rparr>)"
  "CreateLoadbalancer freshCloud w clb = Inr (Some vlbPending)"
  "ListSecurityGroups freshCloud w fs = Inr []"
  "ListTargetGroups freshCloud w fs
     = (if issued OpCreateListener w then Inr [tgA]
        else if issued OpCreateTargetGroup w then Inr [tgNew] else Inr [])"
  "CreateTargetGroup freshCloud w ctg = Inr (Some tgNew)"
  "SetTargetGroupServerAttachments freshCloud w b = None"
  "ListListeners freshCloud w i = (if issued OpCreateListener w then Inr [lisA] else Inr [])"
  "CreateListener freshCloud w i cl = Inr (Some lisA)"
  by (simp_all add: freshCloud_def settledCloud_def)

lemma vlbPending_sel:
  "vlb_Identity vlbPending = ''lb-1''" "vlb_Labels vlbPending = labelsA"
  "vlb_Subnet vlbPending = \<lparr> sub_Identity = ''subnet-1'', sub_Slug = ''main'' \<rparr>"
  "vlb_SecurityGroups vlbPending = []" "vlb_ExternalIpAddresses vlbPending = []"
  "vlb_Status vlbPending = ''provisioning''"
  by (simp_all add: vlbPending_def vlbA_sel)

lemma tgNew_sel:
  "tg_Identity tgNew = ''tg-1''" "tg_Labels tgNew = tgLabelsA"
  "tg_LoadbalancerListeners tgNew = []" "targetGroupKey tgNew = ''tcp:30000''"
  by (simp_all add: tgNew_def tgA_sel targetGroupKey_def Sprintd_30000)

lemma labels_lbFresh:
  "GetLabelsForVpcLoadbalancer lbFresh svcA = labelsA"
  "GetLabelsForVpcLoadbalancerTargetGroup lbFresh svcA 80 ''TCP'' = tgLabelsA"
  "GetLabelsForVpcLoadbalancerTargetGroup lbFresh svcA 80 ''tcp'' = tgLabelsA"
  "GetLoadBalancerName lbFresh cn svcA = ''auid1''"
  by (simp_all add: GetLabelsForVpcLoadbalancerTargetGroup_def GetLabelsForVpcLoadbalancer_def
        GetLoadBalancerName_def DefaultLoadBalancerName_def lbFresh_sel svcA_sel labelsA_def
        tgLabelsA_def Sprintd_80 ToLower_TCP)

lemma desiredTgs_fresh:
  "getDesiredVpcLoadbalancerTargetGroups lbFresh svcA nodes = Inr [desiredTgA]"
  by (simp add: getDesiredVpcLoadbalancerTargetGroups_def GetLoadbalancingPolicy_def
        getStringAnnotation_def getBoolAnnotation_def getIntAnnotation_def
        targetGroupForPort_def labels_lbFresh getPortName_def ToLower_TCP
        LoadbalancingPolicyRoundRobin_def DefaultLoadbalancingPolicy_def
        DefaultEnableProxyProtocol_def svcA_sel Let_def desiredTgA_def tgA_def)

lemma desiredListeners_fresh: "desiredVpcLoadbalancerListener lbFresh svcA = [desiredLisA]"
  by (simp add: desiredVpcLoadbalancerListener_def listenerForPort_def
        getPerPortAclAllowedSources_def removeDuplicateStrings_def getIntAnnotation_def
        labels_lbFresh getPortName_def ToLower_TCP svcA_sel Let_def
        GetAnnotationsForVpcLoadbalancer_def DefaultIdleConnectionTimeout_def
        DefaultMaxConnections_def desiredLisA_def lisA_def)

lemma fetch_fresh:
  "fetchVpcLoadbalancerFromCloud lbFresh cn svcA [] = (Inr None, take (Suc 0) freshDialogue)"
  "fetchVpcLoadbalancerFromCloud lbFresh cn svcA (take 9 freshDialogue)
     = (Inr (Some vlbA), freshDialogue)"
  by (simp_all add: fetchVpcLoadbalancerFromCloud_def callListLoadbalancers_def lbFresh_sel
        freshCloud_sel labels_lbFresh vlbA_sel match_labelsA Let_def freshDialogue_def
        issued_def)

lemma butlast_freshDialogue: "butlast freshDialogue = take 9 freshDialogue"
  by (simp add: freshDialogue_def)

lemma createVpc_fresh:
  "createVpcLoadbalancer lbFresh ''auid1'' svcA (take (Suc 0) freshDialogue)
     = (Return (Inr (Some vlbPending)), take 3 freshDialogue)"
  by (simp add: createVpcLoadbalancer_def callGetVpc_def callCreateLoadbalancer_def
        getSubnetIdentityForService_def getSecurityGroupsForService_def
        verifySecurityGroupsExist_def shouldCreateSecurityGroup_def
        GetAnnotationsForVpcLoadbalancer_def lbFresh_sel freshCloud_sel labels_lbFresh
        svcA_sel Let_def freshDialogue_def createLbA_def)

lemma createOrUpdate_fresh:
  "createOrUpdateTargetGroups lbFresh svcA vlbPending [desiredTgA] nodesA (take 3 freshDialogue)
     = (Inr [tgNew], take 6 freshDialogue)"
  by (simp add: createOrUpdateTargetGroups_def callListTargetGroups_def
        callCreateTargetGroup_def upgradeTargetGroupAttachments_def
        callSetTargetGroupServerAttachments_def lbFresh_sel freshCloud_sel labels_lbFresh
        targetGroupsMap_def key_A attachments_A Let_def FilterVpcIdentity_def tgFiltersA_def
        createTgA_def attachA_def tgNew_sel desiredTgA_sel freshDialogue_def issued_def)

lemma tgIdentity_fresh:
  "getTargetGroupIdentityForListener lbFresh svcA desiredLisA [tgNew] = ''tg-1''"
  by (simp add: getTargetGroupIdentityForListener_def desiredLisA_sel labels_lbFresh tgNew_sel
        match_tgLabelsA Let_def)

lemma updateListener_fresh:
  "updateVpcLoadbalancerListener lbFresh svcA vlbPending [desiredLisA] [tgNew]
       (take 6 freshDialogue)
     = (None, take 8 freshDialogue)"
  by (simp add: updateVpcLoadbalancerListener_def callListListeners_def
        callCreateListener_def lbFresh_sel freshCloud_sel vlbPending_sel listenersPortMap_def
        tgIdentity_fresh desiredLisA_sel createLisA_def Let_def freshDialogue_def issued_def)

lemma cleanup_fresh:
  "cleanupUnusedTargetGroups lbFresh svcA vlbPending [tgNew] (take 8 freshDialogue)
     = (None, take 9 freshDialogue)"
  by (simp add: cleanupUnusedTargetGroups_def callListTargetGroups_def lbFresh_sel
        freshCloud_sel labels_lbFresh targetGroupsMap_def tgA_sel FilterVpcIdentity_def
        tgFiltersA_def Let_def freshDialogue_def issued_def)

lemma updateLb_fresh: "updateVpcLoadbalancer lbFresh svcA vlbPending dl w = (None, w)"
  by (simp add: updateVpcLoadbalancer_def getSecurityGroupsForService_def
        verifySecurityGroupsExist_def shouldCreateSecurityGroup_def
        getSubnetIdentityForService_def svcA_sel lbFresh_sel vlbPending_sel Let_def)

lemma reconcile_fresh:
  "updateVpcLoadbalancerListenersAndTargetGroups lbFresh cn svcA nodesA (Some vlbPending)
       (take 3 freshDialogue)
     = (Inr (loadbalancerStatus vlbPending), take 9 freshDialogue)"
  by (simp add: updateVpcLoadbalancerListenersAndTargetGroups_def desiredTgs_fresh
        desiredListeners_fresh createOrUpdate_fresh updateListener_fresh cleanup_fresh
        updateLb_fresh)

lemma poll_fresh:
  "pollUntilReady lbFresh cn svcA vlbPending (Suc 0) (take 9 freshDialogue)
     = (Return (Inr vlbA), freshDialogue)"
  by (simp add: isReady_def vlbPending_sel vlbA_sel fetch_fresh)

lemma filter_fresh: "NodeFilter_Filter (lb_nodeFilter lbFresh) svcA nodes = Inr nodes"
  by (simp add: NodeFilter_Filter_def svcA_sel ServiceExternalTrafficPolicyTypeLocal_def)

lemma ensure_fresh:
  "EnsureLoadBalancer lbFresh cn svcA nodesA (Suc 0) []
     = (Return (Inr (loadbalancerStatus vlbA)), freshDialogue)"
  by (simp add: EnsureLoadBalancer_def fetch_fresh filter_fresh labels_lbFresh createVpc_fresh
        reconcile_fresh poll_fresh del: pollUntilReady.simps)

lemma TrimSpace_examples:
  "TrimSpace ''10.0.0.0/8'' = ''10.0.0.0/8''"
  "TrimSpace ''192.168.1.0/24'' = ''192.168.1.0/24''"
  "TrimSpace '' 172.16.0.0/12 '' = ''172.16.0.0/12''"
  "TrimSpace ''invalid-cidr'' = ''invalid-cidr''"
  "TrimSpace [] = []"
  "TrimSpace ''::/0'' = ''::/0''"
  "TrimSpace [CHR 0xC2, CHR 0xA0, CHR '':'', CHR '':'', CHR ''/'', CHR ''0'',
              CHR 0xE3, CHR 0x80, CHR 0x80] = ''::/0''"
  "TrimSpace [CHR 0x09, CHR 0xE2, CHR 0x80, CHR 0x83, CHR ''a'', CHR 0xC2, CHR 0x85, CHR 0x0A]
     = ''a''"
  "TrimSpace [CHR 0xA0, CHR ''a'', CHR 0xC2] = [CHR 0xA0, CHR ''a'', CHR 0xC2]"
  by (simp_all add: TrimSpace_def TrimLeft.simps TrimRight.simps leadingSpace_def trailingSpace_def
        whiteSpace_def)

lemma spec_readyNodes_examples:
  "spec_readyNodes (sliceOf name [epReady ''node-1'']) = {''node-1''}"
  "spec_readyNodes (sliceOf name [epReady ''node-1'', epReady ''node-2''])
     = {''node-1'', ''node-2''}"
  "spec_readyNodes (sliceOf name [epReady ''node-1'', epReady ''node-1'']) = {''node-1''}"
  "spec_readyNodes (sliceOf name [epReady ''node-1'', epNotReady ''node-1'']) = {''node-1''}"
  by (simp_all add: spec_readyNodes_def sliceOf_def epReady_def epNotReady_def
       )

lemma sliceOf_sel:
  "eps_Namespace (sliceOf name eps) = ''default''"
  "eps_Labels (sliceOf name eps) = [''kubernetes.io/service-name'' \<mapsto> name]"
  "eps_Endpoints (sliceOf name eps) = eps"
  by (simp_all add: sliceOf_def)

lemma GetLoadBalancer_A:
  "GetLoadBalancer lbA cn svcA w
     = (Inr (Some (loadbalancerStatus vlbA)),
        w @ [EvListLoadbalancers [FilterKeyValue ''vpc'' ''vpc-1''] (Inr [vlbA])])"
  by (simp add: GetLoadBalancer_def fetch_A)






lemma lbThree_sel:
  "ListTargetGroups (lb_iaasClient lbThree) w fs = Inr [tgA, tgOld, tgBusy]"
  "DeleteTargetGroup (lb_iaasClient lbThree) w i = None"
  "lb_vpcIdentity lbThree = ''vpc-1''"
  "GetLabelsForVpcLoadbalancer lbThree svcA = labelsA"
  by (simp_all add: lbThree_def lbA_sel settledCloud_sel GetLabelsForVpcLoadbalancer_def
        svcA_sel labelsA_def)

lemma tgOld_sel:
  "tg_Identity tgOld = ''tg-old''" "tg_LoadbalancerListeners tgOld = []"
  "targetGroupKey tgOld = ''tcp:31000''"
  "tg_Identity tgBusy = ''tg-busy''" "tg_LoadbalancerListeners tgBusy = [''lis-9'']"
  "targetGroupKey tgBusy = ''tcp:32000''"
  by (simp_all add: tgOld_def tgBusy_def targetGroupKey_def tgA_sel Sprintd_def showNat.simps)

lemma cleanup_Three:
  "cleanupUnusedTargetGroups lbThree svcA vlbA [desiredTgA] []
     = (None, [EvListTargetGroups tgFiltersA (Inr [tgA, tgOld, tgBusy]),
               EvDeleteTargetGroup ''tg-old'' None])"
  by (simp add: cleanupUnusedTargetGroups_def callListTargetGroups_def
        callDeleteTargetGroup_def lbThree_sel tgOld_sel targetGroupsMap_def key_A tgA_sel
        FilterVpcIdentity_def tgFiltersA_def Let_def)

section \<open>The claims\<close>

text \<open>
  Claim C1 (idempotence of ensure), amended. The claim says that a second
  \<open>EnsureLoadBalancer\<close> with the same Service and nodes performs no remote mutation. The
  code does not compare what it lists with what it desires: a successful
  \<open>createOrUpdateTargetGroups\<close> lists the target groups once, creates (and attaches the
  nodes to) every desired target group whose key \<open>protocol:port\<close> is not listed, and then
  sends an update and an attachment replacement for every listed target group whose key is
  desired and whose identity is not empty, whether or not anything differs. So on a settled
  cloud nothing is created or deleted, and every target group is still updated and has its
  attachments replaced.
\<close>

theorem C1_thm:
  assumes "createOrUpdateTargetGroups l service vpcLoadbalancer desired nodes w = (Inr tgs, w')"
  shows "\<exists>existing es.
           ListTargetGroups (lb_iaasClient l) w
             [FilterKeyValue FilterVpcIdentity (lb_vpcIdentity l),
              LabelFilter (GetLabelsForVpcLoadbalancer l service)] = Inr existing
         \<and> w' = w @ es
         \<and> map opOf es =
             OpListTargetGroups
             # concat (map (\<lambda>d. if targetGroupKey d \<in> targetGroupKey ` set existing then []
                                 else [OpCreateTargetGroup, OpSetTargetGroupServerAttachments])
                         desired)
             @ concat (map (\<lambda>t. if targetGroupKey t \<in> targetGroupKey ` set desired
                                    \<and> tg_Identity t \<noteq> []
                                 then [OpUpdateTargetGroup, OpSetTargetGroupServerAttachments]
                                 else [])
                         existing)"
  using createOrUpdate_ops [OF assms] by (simp add: spec_targetGroupOps_def)

text \<open>
  The amended statement on the Service \<open>svcA\<close> and the cloud \<open>settledCloud\<close>, which already
  holds exactly the desired target group: the pass lists, updates, and replaces the
  attachments.
\<close>

theorem C1_witness:
  "createOrUpdateTargetGroups lbA svcA vlbA [desiredTgA] nodesA []
     = (Inr [tgA],
        [EvListTargetGroups tgFiltersA (Inr [tgA]),
         EvUpdateTargetGroup updateTgA (Inr (Some tgA)),
         EvSetTargetGroupServerAttachments attachA None])
   \<and> targetGroupKey desiredTgA = targetGroupKey tgA \<and> tg_Identity tgA = ''tg-1''"
  using C1_thm [OF createOrUpdate_A [of "[]"]]
  by (simp add: createOrUpdate_A key_A tgA_sel)

text \<open>
  Claim C1 as stated is refuted on \<open>settledCloud\<close>: the first \<open>EnsureLoadBalancer\<close>
  succeeds, and the second one, started in the world the first one left, again succeeds and
  issues \<open>UpdateTargetGroup\<close>, \<open>SetTargetGroupServerAttachments\<close> and
  \<open>UpdateListener\<close>.
\<close>

theorem C1_counterexample:
  "EnsureLoadBalancer lbA ''c1'' svcA nodesA 0 [] = (Return (Inr statusA), firstPassA)
   \<and> EnsureLoadBalancer lbA ''c1'' svcA nodesA 0 firstPassA
     = (Return (Inr statusA), firstPassA @ firstPassA)
   \<and> map opOf firstPassA
     = [OpListLoadbalancers, OpListTargetGroups, OpUpdateTargetGroup,
        OpSetTargetGroupServerAttachments, OpListListeners, OpUpdateListener,
        OpListTargetGroups]"
  by (simp add: ensure_A firstPassA_def status_A statusA_def passA_def)

text \<open>
  Claim C2 (the internal flag is set at creation only). The reconcile body and
  \<open>UpdateLoadBalancer\<close> do not read the internal annotation: replacing its value by any
  other value (or removing it) changes neither their result nor the requests they send, and
  the same holds for \<open>EnsureLoadBalancer\<close> whenever the load balancer already exists.
  Whatever the dialogue was so far, every load-balancer update request that the reconcile
  body appends for a load balancer carries that load balancer's identity, name,
  description, labels and annotations (the code fills in the subnet, the delete protection
  and the security groups besides, and nothing about the internal flag), and every create
  request that \<open>createVpcLoadbalancer\<close> appends carries the parsed internal annotation
  (false when absent or unparsable).
\<close>

theorem C2_thm:
  "updateVpcLoadbalancerListenersAndTargetGroups lb clusterName (withInternal v service) nodes
       given w
     = updateVpcLoadbalancerListenersAndTargetGroups lb clusterName service nodes given w
   \<and> UpdateLoadBalancer lb clusterName (withInternal v service) nodes w
     = UpdateLoadBalancer lb clusterName service nodes w
   \<and> (fst (fetchVpcLoadbalancerFromCloud lb clusterName service w) = Inr (Some existing)
      \<longrightarrow> EnsureLoadBalancer lb clusterName (withInternal v service) nodes polls w
            = EnsureLoadBalancer lb clusterName service nodes polls w)
   \<and> issuedSince (length w) (updatePreserves vlb)
         (snd (updateVpcLoadbalancerListenersAndTargetGroups lb clusterName service nodes
                 (Some vlb) w))
   \<and> issuedSince (length w) (createSetsInternal service)
         (snd (createVpcLoadbalancer lb lbName service w))"
proof (intro conjI impI)
  assume "fst (fetchVpcLoadbalancerFromCloud lb clusterName service w) = Inr (Some existing)"
  then have "fetchVpcLoadbalancerFromCloud lb clusterName service w
               = (Inr (Some existing), snd (fetchVpcLoadbalancerFromCloud lb clusterName service w))"
    by (metis surjective_pairing)
  then show "EnsureLoadBalancer lb clusterName (withInternal v service) nodes polls w
             = EnsureLoadBalancer lb clusterName service nodes polls w"
    by (rule withInternal_Ensure_existing)
next
  show "updateVpcLoadbalancerListenersAndTargetGroups lb clusterName (withInternal v service)
          nodes given w
        = updateVpcLoadbalancerListenersAndTargetGroups lb clusterName service nodes given w"
    by (rule withInternal_reconcile)
  show "UpdateLoadBalancer lb clusterName (withInternal v service) nodes w
        = UpdateLoadBalancer lb clusterName service nodes w"
    by (rule withInternal_UpdateLoadBalancer)
  show "issuedSince (length w) (updatePreserves vlb)
         (snd (updateVpcLoadbalancerListenersAndTargetGroups lb clusterName service nodes
                 (Some vlb) w))"
    by (rule reconcile_preserves [OF surjective_pairing issuedSince_self])
  show "issuedSince (length w) (createSetsInternal service)
         (snd (createVpcLoadbalancer lb lbName service w))"
    by (rule createVpcLoadbalancer_internal [OF surjective_pairing issuedSince_self])
qed

text \<open>
  The statement on \<open>svcA\<close> with the internal annotation toggled to \<open>false\<close>, the load
  balancer \<open>vlbA\<close> existing: \<open>EnsureLoadBalancer\<close> runs the same pass as without the
  annotation.
\<close>

theorem C2_witness:
  "EnsureLoadBalancer lbA ''c1'' (withInternal (Some ''false'') svcA) nodesA 0 []
     = (Return (Inr statusA), firstPassA)
   \<and> EnsureLoadBalancer lbA ''c1'' (withInternal (Some ''true'') svcA) nodesA 0 []
     = (Return (Inr statusA), firstPassA)
   \<and> list_all (updatePreserves vlbA) firstPassA"
  using C2_thm [of lbA "''c1''" "Some ''false''" svcA nodesA "Some vlbA" "[]" vlbA 0 vlbA "''auid1''"]
    C2_thm [of lbA "''c1''" "Some ''true''" svcA nodesA "Some vlbA" "[]" vlbA 0 vlbA "''auid1''"]
  by (simp add: fetch_A ensure_A reconcile_A firstPassA_def status_A statusA_def
        issuedSince_def passA_def)

text \<open>
  Claim C3 (no target group is deleted while a listener references it).
  \<open>deletesJustified\<close> reads a dialogue from left to right: a \<open>DeleteTargetGroup\<close> request
  is justified when its identity is that of a target group of the latest successful
  \<open>ListTargetGroups\<close> answer before it whose list of listeners was empty. Whatever the
  dialogue was so far, the events appended by the cleanup of unused target groups, by the
  whole reconcile body, and by \<open>EnsureLoadBalancerDeleted\<close> are justified on their own:
  each of their deletions follows a listing of the same call and names a target group that
  this listing reported without listeners.
\<close>

theorem C3_thm:
  "deletesJustified []
     (drop (length w)
        (snd (cleanupUnusedTargetGroups lb service vpcLoadbalancer desiredTargetGroups w)))
   \<and> deletesJustified []
       (drop (length w)
          (snd (updateVpcLoadbalancerListenersAndTargetGroups lb clusterName service nodes
                  given w)))
   \<and> deletesJustified []
       (drop (length w) (snd (EnsureLoadBalancerDeleted lb clusterName service polls w)))"
  using
    cleanupUnusedTargetGroups_justified [OF surjective_pairing justifiedFrom_self]
    reconcile_justified [OF surjective_pairing justifiedFrom_self]
    EnsureLoadBalancerDeleted_justified [OF surjective_pairing justifiedFrom_self]
  by (simp add: justifiedFrom_def)

text \<open>
  The statement from the empty dialogue on a cloud that lists three target groups: the
  desired one, an undesired one without listeners, and an undesired one that a listener
  still references. Only the second is deleted.
\<close>

theorem C3_witness:
  "cleanupUnusedTargetGroups lbThree svcA vlbA [desiredTgA] []
     = (None, [EvListTargetGroups tgFiltersA (Inr [tgA, tgOld, tgBusy]),
               EvDeleteTargetGroup ''tg-old'' None])
   \<and> deletesJustified []
        [EvListTargetGroups tgFiltersA (Inr [tgA, tgOld, tgBusy]),
         EvDeleteTargetGroup ''tg-old'' None]
   \<and> tg_LoadbalancerListeners tgOld = [] \<and> tg_LoadbalancerListeners tgBusy = [''lis-9'']"
  using C3_thm [where w = "[]" and lb = lbThree and service = svcA and vpcLoadbalancer = vlbA
                  and desiredTargetGroups = "[desiredTgA]" and clusterName = "''c1''"
                  and nodes = nodesA and given = "Some vlbA" and polls = 0]
  by (simp add: cleanup_Three tgOld_sel)

text \<open>
  Claim C4 (combination of the allowed sources). For every Service port, the allowed
  sources of the desired listener are the first-occurrence deduplication of the valid CIDRs
  of the global annotation, followed by those of the annotation of the port name (when the
  port has a name), followed by those of the annotation of the port number; entries that
  are empty after trimming (of Unicode white space, as \<open>strings.TrimSpace\<close> does) or that
  \<open>net.ParseCIDR\<close> rejects are skipped.
\<close>

theorem C4_thm:
  "map lis_AllowedSources (desiredVpcLoadbalancerListener lb service)
     = map (\<lambda>p. spec_dedup
                  (spec_validCIDRs lb
                     (svc_Annotations service LoadbalancerAnnotationAclAllowedSources)
                   @ (if sp_Name p \<noteq> []
                      then spec_validCIDRs lb (svc_Annotations service
                             (LoadbalancerAnnotationAclAllowedSourcesPort @ ''-'' @ sp_Name p))
                      else [])
                   @ spec_validCIDRs lb (svc_Annotations service
                       (LoadbalancerAnnotationAclAllowedSourcesPort @ ''-''
                          @ Sprintd (sint (sp_Port p))))))
         (svc_Ports service)"
proof -
  have g: "(case svc_Annotations service LoadbalancerAnnotationAclAllowedSources of
              Some val \<Rightarrow> parseAclSources lb val | None \<Rightarrow> [])
           = spec_validCIDRs lb (svc_Annotations service LoadbalancerAnnotationAclAllowedSources)"
    by (simp add: parseAclSources_eq spec_validCIDRs_def split: option.splits)
  show ?thesis
    unfolding desiredVpcLoadbalancerListener_def Let_def g
    by (simp add: listenerForPort_def Let_def removeDuplicateStrings_eq
          getPerPortAclAllowedSources_eq spec_dedup_append_dedup)
qed

text \<open>
  The statement on a Service with a global, a per-name and a per-number annotation, with a
  duplicate, an invalid and an empty entry, an entry padded with spaces, and an entry
  padded with a no-break space (U+00A0) in front and an ideographic space (U+3000) behind.
\<close>

theorem C4_witness:
  "map lis_AllowedSources (desiredVpcLoadbalancerListener lbA svcAcl)
     = [[''10.0.0.0/8'', ''192.168.1.0/24'', ''172.16.0.0/12'', ''::/0'']]"
  using C4_thm [of lbA svcAcl]
  by (simp add: svcAcl_def svcA_sel lbA_sel spec_validCIDRs_def
        LoadbalancerAnnotationAclAllowedSources_def
        LoadbalancerAnnotationAclAllowedSourcesPort_def Sprintd_80 TrimSpace_examples
        tableParseCIDR_def)

text \<open>
  Claim C5 (node filter). If the external-traffic policy is not \<open>Local\<close> the node list is
  returned unchanged; if it is \<open>Local\<close>, an error of the endpoint-slice lister is returned
  as it is; if there is no slice, or no node name hosts an endpoint with ready not false and
  terminating not true, the node list is returned unchanged; otherwise exactly the nodes
  whose name is in that set are returned, in input order.
\<close>

theorem C5_thm:
  "NodeFilter_Filter f svc nodes =
     (if svc_ExternalTrafficPolicy svc \<noteq> ''Local'' then Inr nodes
      else (case epSliceLister f (svc_Namespace svc) (svc_Name svc) of
              Inl err \<Rightarrow> Inl err
            | Inr slices \<Rightarrow>
                if slices = [] \<or> spec_readyNodeNames slices = {} then Inr nodes
                else Inr (filter (\<lambda>n. node_Name n \<in> spec_readyNodeNames slices) nodes)))"
  by (simp add: NodeFilter_Filter_def ServiceExternalTrafficPolicyTypeLocal_def Let_def
        readyNodesOfSlices_eq filterLoop_eq split: sum.splits)

text \<open>
  The statement on a \<open>Local\<close> Service whose slice has a ready endpoint on \<open>node-2\<close> and
  a not-ready and a terminating endpoint on \<open>node-1\<close>; on a \<open>Cluster\<close> Service; with no
  slice; and with no ready endpoint.
\<close>

theorem C5_witness:
  "NodeFilter_Filter filterA svcLocal nodesA
     = Inr [\<lparr> node_Name = ''node-2'', node_ProviderID = ''thalassa://srv-2'' \<rparr>]
   \<and> NodeFilter_Filter filterA svcA nodesA = Inr nodesA
   \<and> NodeFilter_Filter \<lparr> epSliceLister = (\<lambda>namespace name. Inr []) \<rparr> svcLocal nodesA
     = Inr nodesA
   \<and> NodeFilter_Filter
       \<lparr> epSliceLister = (\<lambda>namespace name. Inr [sliceOf ''web'' [epNotReady ''node-1'']]) \<rparr>
       svcLocal nodesA
     = Inr nodesA"
  using C5_thm [of filterA svcLocal nodesA] C5_thm [of filterA svcA nodesA]
    C5_thm [of "\<lparr> epSliceLister = (\<lambda>namespace name. Inr []) \<rparr>" svcLocal nodesA]
    C5_thm [of "\<lparr> epSliceLister = (\<lambda>namespace name. Inr [sliceOf ''web'' [epNotReady ''node-1'']]) \<rparr>"
              svcLocal nodesA]
  by (simp add: svcLocal_def svcA_sel filterA_def sliceOf_def epReady_def epNotReady_def
        epTerminating_def spec_readyNodeNames_def nodesA_def)




text \<open>
  Claim C7 (rules of the managed security group). \<open>buildIngressRulesFromListeners\<close> emits
  one rule per listener and allowed source, in emission order, with the listener's port as
  both bounds of the range, the IP version inferred from the CIDR, and the protocol
  \<open>udp\<close> or \<open>tcp\<close>; the egress rules are the fixed pair. The priority is not assigned
  in emission order: the counter starts at 100 and is never advanced, so every ingress rule
  has priority 100.
\<close>

theorem C7_thm:
  "buildIngressRulesFromListeners lb listeners
     = concat (map (\<lambda>l. map (\<lambda>src.
         \<lparr> sgr_Name = ToLower (lis_Protocol l) @ ''-'' @ Sprintd (lis_Port l),
           sgr_IPVersion =
             (case net_ParseCIDR lb src of
                Inr (ip, ipnet) \<Rightarrow>
                  if net_IP ipnet \<noteq> [] \<and> To4 (net_IP ipnet) = []
                  then SecurityGroupIPVersionIPv6 else SecurityGroupIPVersionIPv4
              | Inl err \<Rightarrow> SecurityGroupIPVersionIPv4),
           sgr_Protocol =
             (if ToLower (lis_Protocol l) = ''udp'' then SecurityGroupRuleProtocolUDP
              else SecurityGroupRuleProtocolTCP),
           sgr_Priority = 100,
           sgr_RemoteType = SecurityGroupRuleRemoteTypeAddress,
           sgr_RemoteAddress = Some src,
           sgr_PortRangeMin = word_of_int (lis_Port l),
           sgr_PortRangeMax = word_of_int (lis_Port l),
           sgr_Policy = SecurityGroupRulePolicyAllow \<rparr>) (lis_AllowedSources l)) listeners)
   \<and> map sgr_Priority (buildIngressRulesFromListeners lb listeners)
     = replicate (length (concat (map lis_AllowedSources listeners))) 100
   \<and> map (\<lambda>r. (sgr_IPVersion r, sgr_Protocol r, sgr_RemoteAddress r, sgr_Priority r))
       managedEgressRules
     = [(SecurityGroupIPVersionIPv4, SecurityGroupRuleProtocolAll, Some ''0.0.0.0/0'', 100),
        (SecurityGroupIPVersionIPv6, SecurityGroupRuleProtocolAll, Some ''::/0'', 110)]"
proof -
  have r: "ingressRule lb l 100 = (\<lambda>src.
         \<lparr> sgr_Name = ToLower (lis_Protocol l) @ ''-'' @ Sprintd (lis_Port l),
           sgr_IPVersion =
             (case net_ParseCIDR lb src of
                Inr (ip, ipnet) \<Rightarrow>
                  if net_IP ipnet \<noteq> [] \<and> To4 (net_IP ipnet) = []
                  then SecurityGroupIPVersionIPv6 else SecurityGroupIPVersionIPv4
              | Inl err \<Rightarrow> SecurityGroupIPVersionIPv4),
           sgr_Protocol =
             (if ToLower (lis_Protocol l) = ''udp'' then SecurityGroupRuleProtocolUDP
              else SecurityGroupRuleProtocolTCP),
           sgr_Priority = 100,
           sgr_RemoteType = SecurityGroupRuleRemoteTypeAddress,
           sgr_RemoteAddress = Some src,
           sgr_PortRangeMin = word_of_int (lis_Port l),
           sgr_PortRangeMax = word_of_int (lis_Port l),
           sgr_Policy = SecurityGroupRulePolicyAllow \<rparr>)" for l
    by (intro ext) (simp add: ingressRule_def)
  have p: "map sgr_Priority (concat (map (\<lambda>l. map (ingressRule lb l 100) (lis_AllowedSources l)) ls))
           = replicate (length (concat (map lis_AllowedSources ls))) 100" for ls
    by (induction ls) (simp_all add: ingressRule_def replicate_add o_def map_replicate_const)
  show ?thesis
    unfolding buildIngressRulesFromListeners_eq p
    by (simp add: r managedEgressRules_def)
qed

text \<open>
  The statement on one listener with an IPv4 and an IPv6 source: both rules have priority
  100.
\<close>

theorem C7_witness:
  "map (\<lambda>r. (sgr_Name r, sgr_IPVersion r, sgr_Protocol r, sgr_RemoteAddress r,
             sgr_PortRangeMin r, sgr_PortRangeMax r, sgr_Priority r))
     (buildIngressRulesFromListeners lbA [lisTwoSources])
   = [(''tcp-80'', SecurityGroupIPVersionIPv4, SecurityGroupRuleProtocolTCP,
       Some ''10.0.0.0/8'', 80, 80, 100),
      (''tcp-80'', SecurityGroupIPVersionIPv6, SecurityGroupRuleProtocolTCP,
       Some ''::/0'', 80, 80, 100)]"
  using C7_thm [of lbA "[lisTwoSources]"]
  by (simp add: lisTwoSources_def lisA_sel lbA_sel tableParseCIDR_def To4_def ToLower_TCP
        Sprintd_80)

text \<open>
  Claim C8 (strict validation of the load-balancing policy). If the loadbalancing-policy
  annotation is present with a value other than \<open>ROUND_ROBIN\<close>, \<open>RANDOM\<close> and
  \<open>MAGLEV\<close>, \<open>GetLoadbalancingPolicy\<close> returns the invalid-policy error and
  \<open>getDesiredVpcLoadbalancerTargetGroups\<close> fails with that error and no target group; if
  the annotation is absent the policy is \<open>ROUND_ROBIN\<close> without error.
\<close>

theorem C8_thm:
  "(\<forall>v. svc_Annotations service LoadbalancerAnnotationLoadbalancingPolicy = Some v
        \<and> v \<noteq> ''ROUND_ROBIN'' \<and> v \<noteq> ''RANDOM'' \<and> v \<noteq> ''MAGLEV''
      \<longrightarrow> GetLoadbalancingPolicy service
            = (LoadbalancingPolicyRoundRobin,
               Some (''invalid loadbalancing policy: '' @ v
                     @ '', must be one of: ROUND_ROBIN, RANDOM, MAGLEV''))
          \<and> getDesiredVpcLoadbalancerTargetGroups l service nodes
            = Inl (''invalid loadbalancing policy: '' @ v
                   @ '', must be one of: ROUND_ROBIN, RANDOM, MAGLEV''))
   \<and> (svc_Annotations service LoadbalancerAnnotationLoadbalancingPolicy = None
      \<longrightarrow> GetLoadbalancingPolicy service = (''ROUND_ROBIN'', None))"
  by (simp add: GetLoadbalancingPolicy_def getStringAnnotation_def
        getDesiredVpcLoadbalancerTargetGroups_def LoadbalancingPolicyRoundRobin_def
        LoadbalancingPolicyRandom_def LoadbalancingPolicyMagLev_def
        DefaultLoadbalancingPolicy_def)

text \<open>
  The statement on a Service with the policy \<open>INVALID_POLICY\<close> and on one without the
  annotation.
\<close>

theorem C8_witness:
  "GetLoadbalancingPolicy svcBadPolicy
     = (''ROUND_ROBIN'',
        Some ''invalid loadbalancing policy: INVALID_POLICY, must be one of: ROUND_ROBIN, RANDOM, MAGLEV'')
   \<and> getDesiredVpcLoadbalancerTargetGroups lbA svcBadPolicy nodesA
     = Inl ''invalid loadbalancing policy: INVALID_POLICY, must be one of: ROUND_ROBIN, RANDOM, MAGLEV''
   \<and> GetLoadbalancingPolicy svcA = (''ROUND_ROBIN'', None)"
  using C8_thm [of svcBadPolicy lbA nodesA] C8_thm [of svcA lbA nodesA]
  by (simp add: svcBadPolicy_def svcA_sel LoadbalancingPolicyRoundRobin_def)

text \<open>
  Claim C9 (when the watcher enqueues). On an endpoint-slice update the Service key is
  enqueued exactly when both objects are endpoint slices, the new slice names its Service,
  the key is tracked as local-only, and the set of node names with a ready endpoint differs
  between the old and the new slice.
\<close>

theorem C9_thm:
  "handleEndpointSliceUpdate w oldObj newObj =
     (case (oldObj, newObj) of
        (ObjEndpointSlice oldEpSlice, ObjEndpointSlice newEpSlice) \<Rightarrow>
          (case eps_Labels newEpSlice ''kubernetes.io/service-name'' of
             None \<Rightarrow> []
           | Some serviceName \<Rightarrow>
               if eps_Namespace newEpSlice @ ''/'' @ serviceName \<in> localTrafficServices w
                  \<and> spec_readyNodes oldEpSlice \<noteq> spec_readyNodes newEpSlice
               then [eps_Namespace newEpSlice @ ''/'' @ serviceName]
               else [])
      | _ \<Rightarrow> [])"
  by (simp add: handleEndpointSliceUpdate_def getServiceKeyFromEndpointSlice_def
        hasLocalTrafficPolicy_def hasNodeAssignmentChanged_eq LabelServiceName_def Let_def
      split: obj.splits option.splits)

text \<open>
  The statement on a tracked Service that gains a ready node (enqueued), on a tracked
  Service with a condition flip that leaves the set of nodes unchanged (not enqueued), and
  on an untracked Service (not enqueued).
\<close>

theorem C9_witness:
  "handleEndpointSliceUpdate watcherA
     (ObjEndpointSlice (sliceOf ''web'' [epReady ''node-1'']))
     (ObjEndpointSlice (sliceOf ''web'' [epReady ''node-1'', epReady ''node-2'']))
     = [''default/web'']
   \<and> handleEndpointSliceUpdate watcherA
     (ObjEndpointSlice (sliceOf ''web'' [epReady ''node-1'', epReady ''node-1'']))
     (ObjEndpointSlice (sliceOf ''web'' [epReady ''node-1'', epNotReady ''node-1'']))
     = []
   \<and> handleEndpointSliceUpdate watcherA
     (ObjEndpointSlice (sliceOf ''api'' [epReady ''node-1'']))
     (ObjEndpointSlice (sliceOf ''api'' [epReady ''node-1'', epReady ''node-2'']))
     = []"
  using
    C9_thm [of watcherA "ObjEndpointSlice (sliceOf ''web'' [epReady ''node-1''])"
              "ObjEndpointSlice (sliceOf ''web'' [epReady ''node-1'', epReady ''node-2''])"]
    C9_thm [of watcherA "ObjEndpointSlice (sliceOf ''web'' [epReady ''node-1'', epReady ''node-1''])"
              "ObjEndpointSlice (sliceOf ''web'' [epReady ''node-1'', epNotReady ''node-1''])"]
    C9_thm [of watcherA "ObjEndpointSlice (sliceOf ''api'' [epReady ''node-1''])"
              "ObjEndpointSlice (sliceOf ''api'' [epReady ''node-1'', epReady ''node-2''])"]
  by (simp add: watcherA_def sliceOf_sel spec_readyNodes_examples)

text \<open>
  Claim C10 (shape of the returned status). The status built from a cloud load balancer has
  one ingress entry per non-empty external IP address, in listing order, each with that
  address, the load balancer's hostname and IP mode \<open>Proxy\<close>; empty addresses are skipped.
  Every status that \<open>GetLoadBalancer\<close>, the reconcile body or \<open>EnsureLoadBalancer\<close>
  returns is the status so built from a load balancer of the cloud: the one that was
  fetched, or the one that was given. For \<open>EnsureLoadBalancer\<close> it is the load balancer
  that the first lookup found; or, when the lookup found none, a ready load balancer that
  is either the one the creation call returned or the one returned by the lookup that
  ends the dialogue (the last poll).
\<close>

theorem C10_thm:
  "loadbalancerStatus vlb
     = \<lparr> lbs_Ingress =
           map (\<lambda>ip. \<lparr> ing_IP = ip, ing_Hostname = vlb_Hostname vlb,
                        ing_IPMode = Some ''Proxy'' \<rparr>)
             (filter (\<lambda>ip. ip \<noteq> []) (vlb_ExternalIpAddresses vlb)) \<rparr>
   \<and> (GetLoadBalancer lb clusterName service w = (Inr (Some status), w')
      \<longrightarrow> (\<exists>fetched. fetchVpcLoadbalancerFromCloud lb clusterName service w
                         = (Inr (Some fetched), w')
                     \<and> status = loadbalancerStatus fetched))
   \<and> (updateVpcLoadbalancerListenersAndTargetGroups lb clusterName service nodes (Some given) w
        = (Inr status, w')
      \<longrightarrow> status = loadbalancerStatus given)
   \<and> (updateVpcLoadbalancerListenersAndTargetGroups lb clusterName service nodes None w
        = (Inr status, w')
      \<longrightarrow> (\<exists>fetched w0. fetchVpcLoadbalancerFromCloud lb clusterName service w
                            = (Inr (Some fetched), w0)
                        \<and> status = loadbalancerStatus fetched))
   \<and> (EnsureLoadBalancer lb clusterName service nodes polls w = (Return (Inr status), w')
      \<longrightarrow> (\<exists>existing w1. fetchVpcLoadbalancerFromCloud lb clusterName service w
                             = (Inr (Some existing), w1)
                         \<and> status = loadbalancerStatus existing)
          \<or> (\<exists>w1 created w2 ready.
                 fetchVpcLoadbalancerFromCloud lb clusterName service w = (Inr None, w1)
               \<and> createVpcLoadbalancer lb (GetLoadBalancerName lb clusterName service)
                     service w1
                   = (Return (Inr (Some created)), w2)
               \<and> isReady ready
               \<and> (ready = created
                    \<or> fetchVpcLoadbalancerFromCloud lb clusterName service (butlast w')
                        = (Inr (Some ready), w'))
               \<and> status = loadbalancerStatus ready))"
proof (intro conjI impI)
  show "loadbalancerStatus vlb
     = \<lparr> lbs_Ingress =
           map (\<lambda>ip. \<lparr> ing_IP = ip, ing_Hostname = vlb_Hostname vlb,
                        ing_IPMode = Some ''Proxy'' \<rparr>)
             (filter (\<lambda>ip. ip \<noteq> []) (vlb_ExternalIpAddresses vlb)) \<rparr>"
    by (simp add: loadbalancerStatus_eq spec_status_def)
next
  assume "GetLoadBalancer lb clusterName service w = (Inr (Some status), w')"
  from GetLoadBalancer_status [OF this]
  show "\<exists>fetched. fetchVpcLoadbalancerFromCloud lb clusterName service w
                         = (Inr (Some fetched), w')
                     \<and> status = loadbalancerStatus fetched"
    by (simp add: loadbalancerStatus_eq)
next
  assume "updateVpcLoadbalancerListenersAndTargetGroups lb clusterName service nodes
            (Some given) w = (Inr status, w')"
  from reconcile_status_given [OF this]
  show "status = loadbalancerStatus given"
    by (simp add: loadbalancerStatus_eq)
next
  assume "updateVpcLoadbalancerListenersAndTargetGroups lb clusterName service nodes None w
            = (Inr status, w')"
  from reconcile_status_fetched [OF this]
  show "\<exists>fetched w0. fetchVpcLoadbalancerFromCloud lb clusterName service w
                            = (Inr (Some fetched), w0)
                        \<and> status = loadbalancerStatus fetched"
    by (simp add: loadbalancerStatus_eq)
next
  assume "EnsureLoadBalancer lb clusterName service nodes polls w = (Return (Inr status), w')"
  from Ensure_status [OF this]
  show "(\<exists>existing w1. fetchVpcLoadbalancerFromCloud lb clusterName service w
                             = (Inr (Some existing), w1)
                         \<and> status = loadbalancerStatus existing)
          \<or> (\<exists>w1 created w2 ready.
                 fetchVpcLoadbalancerFromCloud lb clusterName service w = (Inr None, w1)
               \<and> createVpcLoadbalancer lb (GetLoadBalancerName lb clusterName service)
                     service w1
                   = (Return (Inr (Some created)), w2)
               \<and> isReady ready
               \<and> (ready = created
                    \<or> fetchVpcLoadbalancerFromCloud lb clusterName service (butlast w')
                        = (Inr (Some ready), w'))
               \<and> status = loadbalancerStatus ready)"
    by (simp add: loadbalancerStatus_eq)
qed

text \<open>
  The statement on \<open>vlbA\<close>, which has three external addresses, the second one empty: the
  status has two ingress entries. On \<open>settledCloud\<close> the load balancer exists; on
  \<open>freshCloud\<close> the first lookup finds none, the creation returns \<open>vlbPending\<close>, which
  is not ready, and the status is that of \<open>vlbA\<close>, which the poll fetched.
\<close>

theorem C10_witness:
  "vlb_ExternalIpAddresses vlbA = [''203.0.113.10'', [], ''2001:db8::10'']
   \<and> fst (GetLoadBalancer lbA ''c1'' svcA []) = Inr (Some statusA)
   \<and> fst (EnsureLoadBalancer lbA ''c1'' svcA nodesA 0 []) = Return (Inr statusA)
   \<and> fst (updateVpcLoadbalancerListenersAndTargetGroups lbA ''c1'' svcA nodesA (Some vlbA) [])
     = Inr statusA
   \<and> fetchVpcLoadbalancerFromCloud lbFresh ''c1'' svcA [] = (Inr None, take 1 freshDialogue)
   \<and> createVpcLoadbalancer lbFresh ''auid1'' svcA (take 1 freshDialogue)
     = (Return (Inr (Some vlbPending)), take 3 freshDialogue)
   \<and> \<not> isReady vlbPending
   \<and> fetchVpcLoadbalancerFromCloud lbFresh ''c1'' svcA (butlast freshDialogue)
     = (Inr (Some vlbA), freshDialogue)
   \<and> EnsureLoadBalancer lbFresh ''c1'' svcA nodesA 1 []
     = (Return (Inr statusA), freshDialogue)"
  using C10_thm [of vlbA lbA "''c1''" svcA "[]" "loadbalancerStatus vlbA"
                   "[EvListLoadbalancers [FilterKeyValue ''vpc'' ''vpc-1''] (Inr [vlbA])]"
                   nodesA vlbA 0]
        C10_thm [of vlbA lbFresh "''c1''" svcA "[]" "loadbalancerStatus vlbA" freshDialogue
                   nodesA vlbA 1]
  by (simp add: GetLoadBalancer_A ensure_A reconcile_A vlbA_sel statusA_def ensure_fresh
        fetch_fresh createVpc_fresh butlast_freshDialogue isReady_def vlbPending_sel)

end
